theory Spec2Isabelle
  imports
    Main
    "HOL-Library.Char_ord"
    "HOL-Library.List_Lexorder"
    "HOL-Library.Option_ord"
    "HOL-Library.Product_Lexorder"
begin

section \<open>JavaScript values and SQLite cells\<close>

text \<open>
  A value handed to one of the managers is either \<open>undefined\<close> (the key is absent from
  the object that was destructured), \<open>null\<close>, or a value of the type the data model
  gives the field (a string, a number, a boolean).
\<close>

datatype 'a js = Undefined | Null | Val 'a

text \<open>Truthiness, as \<open>if (x)\<close>, \<open>!x\<close>, \<open>x || d\<close> and \<open>x && y\<close> read it.\<close>

fun truthy_str :: "string js \<Rightarrow> bool" where
  "truthy_str (Val s) = (s \<noteq> [])"
| "truthy_str _ = False"

fun truthy_num :: "int js \<Rightarrow> bool" where
  "truthy_num (Val n) = (n \<noteq> 0)"
| "truthy_num _ = False"

fun truthy_bool :: "bool js \<Rightarrow> bool" where
  "truthy_bool (Val b) = b"
| "truthy_bool _ = False"

text \<open>\<open>x || d\<close> for a string field \<open>x\<close> and a string literal \<open>d\<close>.\<close>

fun or_str :: "string js \<Rightarrow> string \<Rightarrow> string" where
  "or_str (Val s) d = (if s \<noteq> [] then s else d)"
| "or_str _ d = d"

text \<open>
  A nullable column holds \<open>None\<close> for SQL NULL. Binding \<open>null\<close> or \<open>undefined\<close> to a
  statement parameter gives NULL. A row read back has \<open>null\<close> for NULL, never
  \<open>undefined\<close>.
\<close>

fun bind :: "'a js \<Rightarrow> 'a option" where
  "bind (Val v) = Some v"
| "bind _ = None"

fun unbind :: "'a option \<Rightarrow> 'a js" where
  "unbind (Some v) = Val v"
| "unbind None = Null"

text \<open>\<open>`${x}`\<close> for a string field.\<close>

fun interpolate :: "string js \<Rightarrow> string" where
  "interpolate (Val s) = s"
| "interpolate Null = ''null''"
| "interpolate Undefined = ''undefined''"

text \<open>
  \<open>s.trim() !== ''\<close>: some character of \<open>s\<close> is not white space (tab, line feed,
  vertical tab, form feed, carriage return, space, no-break space).
\<close>

definition is_white_space :: "char \<Rightarrow> bool" where
  "is_white_space c = (of_char c \<in> {9, 10, 11, 12, 13, 32, 160 :: nat})"

definition trim_nonempty :: "string \<Rightarrow> bool" where
  "trim_nonempty s = (\<not> list_all is_white_space s)"

text \<open>
  The errors the code meets, each with its \<open>message\<close>: an \<open>Error\<close> made by \<open>new Error\<close>,
  the error of a refused SQLite statement (an \<open>Error\<close> object with a \<open>code\<close>), the
  \<open>SyntaxError\<close> of \<open>JSON.parse\<close>, and the \<open>TypeError\<close> a failed \<open>fetch\<close> rejects with.
\<close>

datatype js_error =
    Error string
  | SqliteError string
  | SyntaxError string
  | TypeError string

fun message :: "js_error \<Rightarrow> string" where
  "message (Error m) = m"
| "message (SqliteError m) = m"
| "message (SyntaxError m) = m"
| "message (TypeError m) = m"

text \<open>
  The \<open>allowed_tools\<close> column is TEXT. Its content is either the text
  \<open>JSON.stringify\<close> wrote for a list of tool identifiers, or some text that
  \<open>JSON.parse\<close> rejects. \<open>JSON.parse (JSON.stringify ts) = ts\<close> for a list of
  strings.
\<close>

datatype tools_text = ToolsJson "string list" | Malformed string

definition JSON_stringify :: "string list \<Rightarrow> tools_text" where
  "JSON_stringify ts = ToolsJson ts"

fun JSON_parse :: "tools_text \<Rightarrow> js_error + string list" where
  "JSON_parse (ToolsJson ts) = Inr ts"
| "JSON_parse (Malformed s) = Inl (SyntaxError ''Unexpected token in JSON'')"

fun truthy_text :: "tools_text option \<Rightarrow> bool" where
  "truthy_text None = False"
| "truthy_text (Some (ToolsJson ts)) = True"
| "truthy_text (Some (Malformed s)) = (s \<noteq> [])"

section \<open>The tables of the shared database\<close>

text \<open>
  One record per table row, the columns as the \<open>CREATE TABLE\<close> statements declare them:
  a \<open>NOT NULL\<close> column holds a value, any other column an option. The foreign keys
  are declared but never enforced (no connection switches them on).
\<close>

record provider_row =
  p_id :: int
  p_provider_name :: string
  p_display_name :: string
  p_extra_info :: "string option"

record model_row =
  m_id :: int
  m_provider_id :: int
  m_model_name :: string
  m_display_name :: string
  m_extra_info :: "string option"
  m_supports_reasoning :: int

record agent_row =
  a_id :: int
  a_agent_role :: string
  a_agent_description :: "string option"
  a_allowed_tools :: "tools_text option"
  a_default_developer_prompt :: "string option"
  a_default_user_prompt :: "string option"
  a_model_id :: "int option"
  a_reasoning_level :: "string option"
  a_tool_choice :: "string option"

record task_row =
  t_id :: int
  t_task_name :: string
  t_task_prompt :: "string option"

text \<open>What the code prints on the console, one constructor per call site.\<close>

datatype console_line =
    LogWrote nat string
  | LogExported string
  | LogWiped nat string
  | LogUpserted string string
  | LogInsertedUpdated nat string
  | WarnModelNotFound string
  | LogLinking string string
  | LogNoModel string
  | LogImported string
  | ConsoleError string js_error

text \<open>The four files of a template; \<open>None\<close> when the file does not exist.\<close>

record provider_entry =
  y_provider_name :: "string js"
  y_display_name :: "string js"
  y_extra_info :: "string js"

record model_entry =
  ym_provider_name :: "string js"
  ym_model_name :: "string js"
  ym_display_name :: "string js"
  ym_extra_info :: "string js"
  ym_supports_reasoning :: "bool js"

record agent_entry =
  ya_agent_role :: "string js"
  ya_agent_description :: "string js"
  ya_allowed_tools :: "string list option"
  ya_default_developer_prompt :: "string js"
  ya_default_user_prompt :: "string js"
  ya_reasoning_level :: "string js"
  ya_tool_choice :: "string js"
  ya_provider_name :: "string js"
  ya_model_name :: "string js"

record task_entry =
  yt_task_name :: "string js"
  yt_task_prompt :: "string js"

record template_files =
  providers_yaml :: "provider_entry list option"
  models_yaml :: "model_entry list option"
  agents_yaml :: "agent_entry list option"
  tasks_yaml :: "task_entry list option"

text \<open>
  The state the code runs on: the four tables with the counters of their
  \<open>AUTOINCREMENT\<close> keys, the console, and the template folders by name.
\<close>

record world =
  model_providers :: "provider_row list"
  model_providers_seq :: int
  models :: "model_row list"
  models_seq :: int
  agent_roles :: "agent_row list"
  agent_roles_seq :: int
  tasks :: "task_row list"
  tasks_seq :: int
  console :: "console_line list"
  templates :: "string \<Rightarrow> template_files"

text \<open>
  \<open>INTEGER PRIMARY KEY AUTOINCREMENT\<close>: the new key is one more than the largest key
  the table holds or ever held.
\<close>

definition next_id :: "int \<Rightarrow> int list \<Rightarrow> int" where
  "next_id seq ids = fold max ids seq + 1"

definition console_log :: "console_line \<Rightarrow> world \<Rightarrow> world" where
  "console_log l w = w\<lparr>console := console w @ [l]\<rparr>"

section \<open>lib/agent\_manager.js\<close>

definition DEFAULT_TOOL :: string where
  "DEFAULT_TOOL = ''set_work_completed''"

text \<open>
  \<open>ensureDefaultTool\<close>: the argument is \<open>None\<close> when \<open>Array.isArray\<close> is false of it
  (\<open>undefined\<close>, \<open>null\<close>, anything that is not an array).
\<close>

definition ensureDefaultTool :: "string list option \<Rightarrow> string list" where
  "ensureDefaultTool tools =
     (let arr = (case tools of Some ts \<Rightarrow> ts | None \<Rightarrow> [])
      in if DEFAULT_TOOL \<notin> set arr then arr @ [DEFAULT_TOOL] else arr)"

record agent_details =
  d_agent_role :: "string js"
  d_agent_description :: "string js"
  d_allowed_tools :: "string list option"
  d_default_developer_prompt :: "string js"
  d_default_user_prompt :: "string js"
  d_model_id :: "int js"
  d_reasoning_level :: "string js"
  d_tool_choice :: "string js"

definition getAgentByType :: "string \<Rightarrow> world \<Rightarrow> agent_row option" where
  "getAgentByType agent_role w = find (\<lambda>r. a_agent_role r = agent_role) (agent_roles w)"

text \<open>The \<open>SET\<close> clause of the \<open>UPDATE\<close> and the \<open>VALUES\<close> row of the \<open>INSERT\<close>.\<close>

definition update_agent_row :: "agent_details \<Rightarrow> tools_text \<Rightarrow> agent_row \<Rightarrow> agent_row" where
  "update_agent_row d toolsJson r =
     r\<lparr>a_agent_description := Some (or_str (d_agent_description d) []),
       a_allowed_tools := Some toolsJson,
       a_default_developer_prompt := Some (or_str (d_default_developer_prompt d) []),
       a_default_user_prompt := Some (or_str (d_default_user_prompt d) []),
       a_model_id := bind (d_model_id d),
       a_reasoning_level := Some (or_str (d_reasoning_level d) ''medium''),
       a_tool_choice := Some (or_str (d_tool_choice d) ''auto'')\<rparr>"

definition insert_agent_row :: "int \<Rightarrow> string \<Rightarrow> agent_details \<Rightarrow> tools_text \<Rightarrow> agent_row" where
  "insert_agent_row new_id agent_role d toolsJson =
     \<lparr>a_id = new_id,
      a_agent_role = agent_role,
      a_agent_description = Some (or_str (d_agent_description d) []),
      a_allowed_tools = Some toolsJson,
      a_default_developer_prompt = Some (or_str (d_default_developer_prompt d) []),
      a_default_user_prompt = Some (or_str (d_default_user_prompt d) []),
      a_model_id = bind (d_model_id d),
      a_reasoning_level = Some (or_str (d_reasoning_level d) ''medium''),
      a_tool_choice = Some (or_str (d_tool_choice d) ''auto'')\<rparr>"

text \<open>
  \<open>setAgentDetails\<close>: \<open>if (existing && existing.id)\<close> updates every row of the role,
  and otherwise inserts, which the \<open>UNIQUE\<close> constraint refuses when the role exists
  (with an id of 0).
\<close>

definition setAgentDetails :: "agent_details \<Rightarrow> world \<Rightarrow> js_error + world" where
  "setAgentDetails d w =
     (case d_agent_role d of
        Val agent_role \<Rightarrow>
          if agent_role = [] then Inl (Error ''agent_role is required'')
          else
            let existing = find (\<lambda>r. a_agent_role r = agent_role) (agent_roles w);
                finalTools = ensureDefaultTool (d_allowed_tools d);
                toolsJson = JSON_stringify finalTools
            in (case existing of
                  Some e \<Rightarrow>
                    if a_id e \<noteq> 0 then
                      Inr (w\<lparr>agent_roles :=
                        map (\<lambda>r. if a_agent_role r = agent_role
                                  then update_agent_row d toolsJson r else r)
                            (agent_roles w)\<rparr>)
                    else Inl (SqliteError
                      ''SQLITE_CONSTRAINT: UNIQUE constraint failed: agent_roles.agent_role'')
                | None \<Rightarrow>
                    let new_id = next_id (agent_roles_seq w) (map a_id (agent_roles w))
                    in Inr (w\<lparr>agent_roles := agent_roles w @
                               [insert_agent_row new_id agent_role d toolsJson],
                             agent_roles_seq := new_id\<rparr>))
      | _ \<Rightarrow> Inl (Error ''agent_role is required''))"

definition setAllowedTools :: "string \<Rightarrow> string list option \<Rightarrow> world \<Rightarrow> world" where
  "setAllowedTools agent_role tools w =
     (let finalTools = ensureDefaultTool tools;
          allowedToolsJson = JSON_stringify finalTools
      in w\<lparr>agent_roles :=
            map (\<lambda>r. if a_agent_role r = agent_role
                      then r\<lparr>a_allowed_tools := Some allowedToolsJson\<rparr> else r)
                (agent_roles w)\<rparr>)"

definition setDefaultPrompts :: "string \<Rightarrow> string js \<Rightarrow> string js \<Rightarrow> world \<Rightarrow> world" where
  "setDefaultPrompts agent_role developerPrompt userPrompt w =
     w\<lparr>agent_roles :=
         map (\<lambda>r. if a_agent_role r = agent_role
                   then r\<lparr>a_default_developer_prompt := Some (or_str developerPrompt []),
                          a_default_user_prompt := Some (or_str userPrompt [])\<rparr>
                   else r)
             (agent_roles w)\<rparr>"

definition deleteAgentType :: "string \<Rightarrow> world \<Rightarrow> world" where
  "deleteAgentType agent_role w =
     w\<lparr>agent_roles := filter (\<lambda>r. a_agent_role r \<noteq> agent_role) (agent_roles w)\<rparr>"

text \<open>\<open>listAgentTypes()\<close>: \<open>SELECT * FROM agent_roles ORDER BY id\<close>.\<close>

definition listAgentTypes :: "world \<Rightarrow> agent_row list" where
  "listAgentTypes w = sort_key a_id (agent_roles w)"

text \<open>
  \<open>listAgentTypes({withModelInfo: true})\<close>: each row with the \<open>model_name\<close> and
  \<open>provider_name\<close> the two \<open>LEFT JOIN\<close>s find (\<open>None\<close> for the NULL of a row that
  joins nothing).
\<close>

record agent_with_model =
  am_row :: agent_row
  am_model_name :: "string option"
  am_provider_name :: "string option"

definition join_model :: "world \<Rightarrow> agent_row \<Rightarrow> agent_with_model" where
  "join_model w r =
     (let m = (case a_model_id r of
                 None \<Rightarrow> None
               | Some i \<Rightarrow> find (\<lambda>m. m_id m = i) (models w));
          p = (case m of
                 None \<Rightarrow> None
               | Some m' \<Rightarrow> find (\<lambda>p. p_id p = m_provider_id m') (model_providers w))
      in \<lparr>am_row = r,
          am_model_name = map_option m_model_name m,
          am_provider_name = map_option p_provider_name p\<rparr>)"

definition listAgentTypesWithModelInfo :: "world \<Rightarrow> agent_with_model list" where
  "listAgentTypesWithModelInfo w = map (join_model w) (sort_key a_id (agent_roles w))"

section \<open>lib/model\_provider\_manager.js\<close>

definition not_null_failed :: "string \<Rightarrow> js_error" where
  "not_null_failed col = SqliteError (''SQLITE_CONSTRAINT: NOT NULL constraint failed: '' @ col)"

definition unique_failed :: "string \<Rightarrow> js_error" where
  "unique_failed col = SqliteError (''SQLITE_CONSTRAINT: UNIQUE constraint failed: '' @ col)"

text \<open>\<open>SELECT * FROM model_providers ORDER BY display_name, provider_name\<close>.\<close>

definition listProviders :: "world \<Rightarrow> provider_row list" where
  "listProviders w = sort_key (\<lambda>p. (p_display_name p, p_provider_name p)) (model_providers w)"

record provider_args =
  cp_id :: "int js"
  cp_provider_name :: "string js"
  cp_display_name :: "string js"
  cp_extra_info :: "string js"

definition safeDisplayName :: "string js \<Rightarrow> string js \<Rightarrow> string js" where
  "safeDisplayName display_name provider_name =
     (case display_name of
        Val s \<Rightarrow> if s \<noteq> [] \<and> trim_nonempty s then display_name else provider_name
      | _ \<Rightarrow> provider_name)"

text \<open>
  With an \<open>id\<close>: \<open>UPDATE ... WHERE id = ?\<close>, which changes nothing when no row has the
  id and otherwise checks the row's \<open>NOT NULL\<close> and \<open>UNIQUE\<close> constraints. Without:
  \<open>INSERT ... ON CONFLICT(provider_name) DO UPDATE\<close>; the insert draws its key from the
  \<open>AUTOINCREMENT\<close> counter before the conflict shows, so the counter advances on the
  update path too.
\<close>

definition createOrUpdateProvider :: "provider_args \<Rightarrow> world \<Rightarrow> js_error + world" where
  "createOrUpdateProvider a w =
     (let safe = safeDisplayName (cp_display_name a) (cp_provider_name a);
          extra = or_str (cp_extra_info a) []
      in if truthy_num (cp_id a) then
           (let i = (case cp_id a of Val n \<Rightarrow> n | _ \<Rightarrow> 0) in
            if \<not> list_ex (\<lambda>r. p_id r = i) (model_providers w) then Inr w
            else case (bind (cp_provider_name a), bind safe) of
                (None, _) \<Rightarrow> Inl (not_null_failed ''model_providers.provider_name'')
              | (Some n, None) \<Rightarrow> Inl (not_null_failed ''model_providers.display_name'')
              | (Some n, Some dn) \<Rightarrow>
                  if list_ex (\<lambda>r. p_id r \<noteq> i \<and> p_provider_name r = n) (model_providers w)
                  then Inl (unique_failed ''model_providers.provider_name'')
                  else Inr (w\<lparr>model_providers :=
                         map (\<lambda>r. if p_id r = i
                                   then r\<lparr>p_provider_name := n, p_display_name := dn,
                                          p_extra_info := Some extra\<rparr>
                                   else r)
                             (model_providers w)\<rparr>))
         else
           (case (bind (cp_provider_name a), bind safe) of
              (None, _) \<Rightarrow> Inl (not_null_failed ''model_providers.provider_name'')
            | (Some n, None) \<Rightarrow> Inl (not_null_failed ''model_providers.display_name'')
            | (Some n, Some dn) \<Rightarrow>
                if list_ex (\<lambda>r. p_provider_name r = n) (model_providers w)
                then Inr (w\<lparr>model_providers :=
                       map (\<lambda>r. if p_provider_name r = n
                                 then r\<lparr>p_display_name := dn, p_extra_info := Some extra\<rparr>
                                 else r)
                           (model_providers w),
                     model_providers_seq :=
                       next_id (model_providers_seq w) (map p_id (model_providers w))\<rparr>)
                else
                  let new_id = next_id (model_providers_seq w) (map p_id (model_providers w))
                  in Inr (w\<lparr>model_providers := model_providers w @
                             [\<lparr>p_id = new_id, p_provider_name = n, p_display_name = dn,
                               p_extra_info = Some extra\<rparr>],
                           model_providers_seq := new_id\<rparr>)))"

definition getProviderById :: "int \<Rightarrow> world \<Rightarrow> provider_row option" where
  "getProviderById i w = find (\<lambda>r. p_id r = i) (model_providers w)"

definition deleteProvider :: "int \<Rightarrow> world \<Rightarrow> world" where
  "deleteProvider i w = w\<lparr>model_providers := filter (\<lambda>r. p_id r \<noteq> i) (model_providers w)\<rparr>"

section \<open>lib/model\_manager.js\<close>

text \<open>A row of \<open>models\<close> with the columns its \<open>LEFT JOIN\<close> on the provider adds.\<close>

record model_with_provider =
  mp_row :: model_row
  mp_provider_name :: "string option"
  mp_provider_display_name :: "string option"

definition join_provider :: "world \<Rightarrow> model_row \<Rightarrow> model_with_provider" where
  "join_provider w m =
     (let p = find (\<lambda>p. p_id p = m_provider_id m) (model_providers w)
      in \<lparr>mp_row = m,
          mp_provider_name = map_option p_provider_name p,
          mp_provider_display_name = map_option p_display_name p\<rparr>)"

text \<open>
  \<open>ORDER BY provider_display_name, models.model_name\<close>; NULL sorts first. SQLite fixes
  no order among rows that tie in both; the stable sort here keeps them in table order.
\<close>

definition listModelsWithProviderInfo :: "world \<Rightarrow> model_with_provider list" where
  "listModelsWithProviderInfo w =
     sort_key (\<lambda>r. (mp_provider_display_name r, m_model_name (mp_row r)))
       (map (join_provider w) (models w))"

definition listModels :: "world \<Rightarrow> model_row list" where
  "listModels w = sort_key m_id (models w)"

definition getModelById :: "int \<Rightarrow> world \<Rightarrow> model_with_provider option" where
  "getModelById i w = map_option (join_provider w) (find (\<lambda>m. m_id m = i) (models w))"

record model_args =
  cm_id :: "int js"
  cm_provider_id :: "int js"
  cm_model_name :: "string js"
  cm_display_name :: "string js"
  cm_extra_info :: "string js"
  cm_supports_reasoning :: "bool js"

text \<open>
  The defaults of the parameter list apply to \<open>undefined\<close> only. With an \<open>id\<close>:
  \<open>UPDATE ... WHERE id = ?\<close>; without: \<open>INSERT ... ON CONFLICT(provider_id,
  model_name) DO UPDATE\<close>, which advances the \<open>AUTOINCREMENT\<close> counter on its update
  path too.
\<close>

definition createOrUpdateModel :: "model_args \<Rightarrow> world \<Rightarrow> js_error + world" where
  "createOrUpdateModel a w =
     (let display_name = (case cm_display_name a of Undefined \<Rightarrow> cm_model_name a | d \<Rightarrow> d);
          extra_info = (case cm_extra_info a of Undefined \<Rightarrow> Val [] | e \<Rightarrow> e);
          sr = (case cm_supports_reasoning a of
                  Undefined \<Rightarrow> (1::int)
                | s \<Rightarrow> if truthy_bool s then 1 else 0)
      in if truthy_num (cm_id a) then
           (let i = (case cm_id a of Val n \<Rightarrow> n | _ \<Rightarrow> 0) in
            if \<not> list_ex (\<lambda>r. m_id r = i) (models w) then Inr w
            else case (bind (cm_provider_id a), bind (cm_model_name a), bind display_name) of
                (None, _, _) \<Rightarrow> Inl (not_null_failed ''models.provider_id'')
              | (Some pid, None, _) \<Rightarrow> Inl (not_null_failed ''models.model_name'')
              | (Some pid, Some n, None) \<Rightarrow> Inl (not_null_failed ''models.display_name'')
              | (Some pid, Some n, Some dn) \<Rightarrow>
                  if list_ex (\<lambda>r. m_id r \<noteq> i \<and> m_provider_id r = pid \<and> m_model_name r = n)
                       (models w)
                  then Inl (unique_failed ''models.provider_id, models.model_name'')
                  else Inr (w\<lparr>models :=
                         map (\<lambda>r. if m_id r = i
                                   then r\<lparr>m_provider_id := pid, m_model_name := n,
                                          m_display_name := dn, m_extra_info := bind extra_info,
                                          m_supports_reasoning := sr\<rparr>
                                   else r)
                             (models w)\<rparr>))
         else
           (case (bind (cm_provider_id a), bind (cm_model_name a), bind display_name) of
              (None, _, _) \<Rightarrow> Inl (not_null_failed ''models.provider_id'')
            | (Some pid, None, _) \<Rightarrow> Inl (not_null_failed ''models.model_name'')
            | (Some pid, Some n, None) \<Rightarrow> Inl (not_null_failed ''models.display_name'')
            | (Some pid, Some n, Some dn) \<Rightarrow>
                if list_ex (\<lambda>r. m_provider_id r = pid \<and> m_model_name r = n) (models w)
                then Inr (w\<lparr>models :=
                       map (\<lambda>r. if m_provider_id r = pid \<and> m_model_name r = n
                                 then r\<lparr>m_display_name := dn, m_extra_info := bind extra_info,
                                        m_supports_reasoning := sr\<rparr>
                                 else r)
                           (models w),
                     models_seq := next_id (models_seq w) (map m_id (models w))\<rparr>)
                else
                  let new_id = next_id (models_seq w) (map m_id (models w))
                  in Inr (w\<lparr>models := models w @
                             [\<lparr>m_id = new_id, m_provider_id = pid, m_model_name = n,
                               m_display_name = dn, m_extra_info = bind extra_info,
                               m_supports_reasoning = sr\<rparr>],
                           models_seq := new_id\<rparr>)))"

definition getModelByProviderAndName :: "int \<Rightarrow> string \<Rightarrow> world \<Rightarrow> model_row option" where
  "getModelByProviderAndName provider_id model_name w =
     find (\<lambda>r. m_provider_id r = provider_id \<and> m_model_name r = model_name) (models w)"

definition deleteModel :: "int \<Rightarrow> world \<Rightarrow> world" where
  "deleteModel i w = w\<lparr>models := filter (\<lambda>r. m_id r \<noteq> i) (models w)\<rparr>"

section \<open>lib/tasks.js\<close>

definition getTask :: "string \<Rightarrow> world \<Rightarrow> task_row option" where
  "getTask task_name w = find (\<lambda>r. t_task_name r = task_name) (tasks w)"

definition getAllTasks :: "world \<Rightarrow> task_row list" where
  "getAllTasks w = sort_key t_id (tasks w)"

text \<open>\<open>createTask\<close> is a plain \<open>INSERT\<close>; \<open>task_name\<close> is \<open>UNIQUE NOT NULL\<close>.\<close>

definition createTask :: "string js \<Rightarrow> string js \<Rightarrow> world \<Rightarrow> js_error + world" where
  "createTask task_name task_prompt w =
     (let prompt = (case task_prompt of Undefined \<Rightarrow> Val [] | p \<Rightarrow> p)
      in case bind task_name of
           None \<Rightarrow> Inl (not_null_failed ''tasks.task_name'')
         | Some n \<Rightarrow>
             if list_ex (\<lambda>r. t_task_name r = n) (tasks w)
             then Inl (unique_failed ''tasks.task_name'')
             else
               let new_id = next_id (tasks_seq w) (map t_id (tasks w))
               in Inr (w\<lparr>tasks := tasks w @
                          [\<lparr>t_id = new_id, t_task_name = n, t_task_prompt = bind prompt\<rparr>],
                        tasks_seq := new_id\<rparr>))"

text \<open>\<open>updateTask\<close> and \<open>deleteTask\<close> return the statement's \<open>changes\<close> count.\<close>

definition updateTask ::
  "int \<Rightarrow> string js \<Rightarrow> string js \<Rightarrow> world \<Rightarrow> js_error + (nat \<times> world)" where
  "updateTask i task_name task_prompt w =
     (let prompt = (case task_prompt of Undefined \<Rightarrow> Val [] | p \<Rightarrow> p)
      in if \<not> list_ex (\<lambda>r. t_id r = i) (tasks w) then Inr (0, w)
         else case bind task_name of
           None \<Rightarrow> Inl (not_null_failed ''tasks.task_name'')
         | Some n \<Rightarrow>
             if list_ex (\<lambda>r. t_id r \<noteq> i \<and> t_task_name r = n) (tasks w)
             then Inl (unique_failed ''tasks.task_name'')
             else Inr (length (filter (\<lambda>r. t_id r = i) (tasks w)),
                       w\<lparr>tasks := map (\<lambda>r. if t_id r = i
                                             then r\<lparr>t_task_name := n, t_task_prompt := bind prompt\<rparr>
                                             else r)
                                       (tasks w)\<rparr>))"

definition deleteTask :: "int \<Rightarrow> world \<Rightarrow> nat \<times> world" where
  "deleteTask i w =
     (length (filter (\<lambda>r. t_id r = i) (tasks w)),
      w\<lparr>tasks := filter (\<lambda>r. t_id r \<noteq> i) (tasks w)\<rparr>)"

section \<open>lib/yaml\_store.js and lib/template\_manager.js\<close>

text \<open>
  \<open>saveYAML\<close> and \<open>loadYAML\<close> on the four files of a template folder. What was
  saved is what is loaded; a file that does not exist loads as the empty list.
\<close>

definition loadYAML :: "'a list option \<Rightarrow> 'a list" where
  "loadYAML file = (case file of None \<Rightarrow> [] | Some xs \<Rightarrow> xs)"

definition save_providers :: "string \<Rightarrow> provider_entry list \<Rightarrow> world \<Rightarrow> world" where
  "save_providers name xs w =
     w\<lparr>templates := (templates w)(name := (templates w name)\<lparr>providers_yaml := Some xs\<rparr>)\<rparr>"

definition save_models :: "string \<Rightarrow> model_entry list \<Rightarrow> world \<Rightarrow> world" where
  "save_models name xs w =
     w\<lparr>templates := (templates w)(name := (templates w name)\<lparr>models_yaml := Some xs\<rparr>)\<rparr>"

definition save_agents :: "string \<Rightarrow> agent_entry list \<Rightarrow> world \<Rightarrow> world" where
  "save_agents name xs w =
     w\<lparr>templates := (templates w)(name := (templates w name)\<lparr>agents_yaml := Some xs\<rparr>)\<rparr>"

definition save_tasks :: "string \<Rightarrow> task_entry list \<Rightarrow> world \<Rightarrow> world" where
  "save_tasks name xs w =
     w\<lparr>templates := (templates w)(name := (templates w name)\<lparr>tasks_yaml := Some xs\<rparr>)\<rparr>"

subsection \<open>exportTemplate\<close>

definition export_provider :: "provider_row \<Rightarrow> provider_entry" where
  "export_provider p =
     \<lparr>y_provider_name = Val (p_provider_name p),
      y_display_name = Val (p_display_name p),
      y_extra_info = unbind (p_extra_info p)\<rparr>"

definition export_model :: "model_with_provider \<Rightarrow> model_entry" where
  "export_model m =
     \<lparr>ym_provider_name = unbind (mp_provider_name m),
      ym_model_name = Val (m_model_name (mp_row m)),
      ym_display_name = Val (m_display_name (mp_row m)),
      ym_extra_info = unbind (m_extra_info (mp_row m)),
      ym_supports_reasoning = Val (m_supports_reasoning (mp_row m) \<noteq> 0)\<rparr>"

text \<open>\<open>a.allowed_tools ? JSON.parse(a.allowed_tools) : []\<close>; \<open>JSON.parse\<close> may throw.\<close>

definition export_agent :: "agent_with_model \<Rightarrow> js_error + agent_entry" where
  "export_agent a =
     (let r = am_row a in
      case (if truthy_text (a_allowed_tools r)
            then (case a_allowed_tools r of Some t \<Rightarrow> JSON_parse t | None \<Rightarrow> Inr [])
            else Inr []) of
        Inl e \<Rightarrow> Inl e
      | Inr tools \<Rightarrow>
          Inr \<lparr>ya_agent_role = Val (a_agent_role r),
               ya_agent_description = unbind (a_agent_description r),
               ya_allowed_tools = Some tools,
               ya_default_developer_prompt = unbind (a_default_developer_prompt r),
               ya_default_user_prompt = unbind (a_default_user_prompt r),
               ya_reasoning_level = unbind (a_reasoning_level r),
               ya_tool_choice = unbind (a_tool_choice r),
               ya_provider_name = unbind (am_provider_name a),
               ya_model_name = unbind (am_model_name a)\<rparr>)"

text \<open>\<open>rows.map(f)\<close> for an \<open>f\<close> that may throw: the first throw ends the map.\<close>

fun map_throwing :: "('a \<Rightarrow> js_error + 'b) \<Rightarrow> 'a list \<Rightarrow> js_error + 'b list" where
  "map_throwing f [] = Inr []"
| "map_throwing f (x # xs) =
     (case f x of
        Inl e \<Rightarrow> Inl e
      | Inr y \<Rightarrow> (case map_throwing f xs of Inl e \<Rightarrow> Inl e | Inr ys \<Rightarrow> Inr (y # ys)))"

definition export_task :: "task_row \<Rightarrow> task_entry" where
  "export_task t = \<lparr>yt_task_name = Val (t_task_name t), yt_task_prompt = unbind (t_task_prompt t)\<rparr>"

text \<open>
  The result of a routine that works on the store and may throw midway: \<open>Inl\<close> holds
  the error with the state the throw leaves behind.
\<close>

type_synonym outcome = "(js_error \<times> world) + world"

definition exportTemplate :: "string \<Rightarrow> world \<Rightarrow> outcome" where
  "exportTemplate templateName w0 =
     (let providers = map export_provider (listProviders w0);
          w1 = save_providers templateName providers w0;
          w2 = console_log (LogWrote (length providers) ''providers'') w1;
          ms = map export_model (listModelsWithProviderInfo w2);
          w3 = save_models templateName ms w2;
          w4 = console_log (LogWrote (length ms) ''models'') w3
      in case map_throwing export_agent (listAgentTypesWithModelInfo w4) of
           Inl e \<Rightarrow> Inl (e, w4)
         | Inr agents \<Rightarrow>
             let w5 = save_agents templateName agents w4;
                 w6 = console_log (LogWrote (length agents) ''agents'') w5;
                 ts = map export_task (getAllTasks w6);
                 w7 = save_tasks templateName ts w6;
                 w8 = console_log (LogWrote (length ts) ''tasks'') w7
             in Inr (console_log (LogExported templateName) w8))"

subsection \<open>importTemplate\<close>

text \<open>The four wipe loops; \<open>if (count) console.log(...)\<close>.\<close>

definition log_wiped :: "nat \<Rightarrow> string \<Rightarrow> world \<Rightarrow> world" where
  "log_wiped count what w = (if count \<noteq> 0 then console_log (LogWiped count what) w else w)"

definition wipe_all :: "world \<Rightarrow> world" where
  "wipe_all w0 =
     (let provs = listProviders w0;
          w1 = log_wiped (length provs) ''providers'' (fold (\<lambda>p. deleteProvider (p_id p)) provs w0);
          mods = listModelsWithProviderInfo w1;
          w2 = log_wiped (length mods) ''models''
                 (fold (\<lambda>m. deleteModel (m_id (mp_row m))) mods w1);
          ags = listAgentTypes w2;
          w3 = log_wiped (length ags) ''agents''
                 (fold (\<lambda>a. deleteAgentType (a_agent_role a)) ags w2);
          ts = getAllTasks w3
      in log_wiped (length ts) ''tasks'' (fold (\<lambda>t w. snd (deleteTask (t_id t) w)) ts w3))"

fun import_providers :: "provider_entry list \<Rightarrow> world \<Rightarrow> outcome" where
  "import_providers [] w = Inr w"
| "import_providers (e # es) w =
     (case createOrUpdateProvider
             \<lparr>cp_id = Undefined, cp_provider_name = y_provider_name e,
              cp_display_name = y_display_name e, cp_extra_info = y_extra_info e\<rparr> w of
        Inl err \<Rightarrow> Inl (err, w)
      | Inr w' \<Rightarrow>
          import_providers es
            (console_log (LogUpserted ''provider'' (interpolate (y_provider_name e))) w'))"

text \<open>
  \<open>new Map(rows.map(r => [key, r.id]))\<close>: of two rows with one key the later one
  stays. \<open>get\<close> of a key that is not a string finds nothing.
\<close>

definition js_Map :: "('k \<times> 'v) list \<Rightarrow> 'k \<rightharpoonup> 'v" where
  "js_Map entries = map_of (rev entries)"

definition provMap_of :: "world \<Rightarrow> string \<rightharpoonup> int" where
  "provMap_of w = js_Map (map (\<lambda>p. (p_provider_name p, p_id p)) (listProviders w))"

definition map_get :: "(string \<rightharpoonup> int) \<Rightarrow> string js \<Rightarrow> int js" where
  "map_get m k = (case k of Val s \<Rightarrow> (case m s of Some v \<Rightarrow> Val v | None \<Rightarrow> Undefined)
                  | _ \<Rightarrow> Undefined)"

definition provider_not_found :: "string js \<Rightarrow> js_error" where
  "provider_not_found provider_name =
     Error (''[import][model] Provider not found for '' @ [CHR 0x22] @
            interpolate provider_name @ [CHR 0x22])"

fun import_models :: "(string \<rightharpoonup> int) \<Rightarrow> model_entry list \<Rightarrow> world \<Rightarrow> outcome" where
  "import_models provMap [] w = Inr w"
| "import_models provMap (e # es) w =
     (case map_get provMap (ym_provider_name e) of
        Val provider_id \<Rightarrow>
          (case createOrUpdateModel
                  \<lparr>cm_id = Undefined, cm_provider_id = Val provider_id,
                   cm_model_name = ym_model_name e, cm_display_name = ym_display_name e,
                   cm_extra_info = ym_extra_info e,
                   cm_supports_reasoning = ym_supports_reasoning e\<rparr> w of
             Inl err \<Rightarrow> Inl (err, w)
           | Inr w' \<Rightarrow>
               import_models provMap es
                 (console_log
                    (LogUpserted ''model''
                       (interpolate (ym_provider_name e) @ ''/'' @ interpolate (ym_model_name e)))
                    w'))
      | _ \<Rightarrow> Inl (provider_not_found (ym_provider_name e), w))"

definition model_key :: "string js \<Rightarrow> string js \<Rightarrow> string" where
  "model_key provider_name model_name = interpolate provider_name @ '':'' @ interpolate model_name"

definition modelMap_of :: "world \<Rightarrow> string \<rightharpoonup> int" where
  "modelMap_of w =
     js_Map (map (\<lambda>m. (model_key (unbind (mp_provider_name m)) (Val (m_model_name (mp_row m))),
                        m_id (mp_row m)))
                 (listModelsWithProviderInfo w))"

text \<open>
  One turn of the agents loop up to its call of \<open>setAgentDetails\<close>: the \<open>model_id\<close>
  it passes (\<open>null\<close> when no model is named, \<open>undefined\<close> when the map has no such
  key) and the line it prints.
\<close>

definition resolve_model :: "(string \<rightharpoonup> int) \<Rightarrow> agent_entry \<Rightarrow> world \<Rightarrow> int js \<times> world" where
  "resolve_model modelMap a w =
     (if truthy_str (ya_provider_name a) \<and> truthy_str (ya_model_name a) then
        (let key = model_key (ya_provider_name a) (ya_model_name a);
             model_id = map_get modelMap (Val key)
         in case model_id of
              Val i \<Rightarrow> (model_id, console_log (LogLinking (interpolate (ya_agent_role a)) key) w)
            | _ \<Rightarrow> (model_id, console_log (WarnModelNotFound key) w))
      else (Null, console_log (LogNoModel (interpolate (ya_agent_role a))) w))"

text \<open>\<open>{...a, model_id}\<close>, as \<open>setAgentDetails\<close> destructures it.\<close>

definition spread_agent :: "agent_entry \<Rightarrow> int js \<Rightarrow> agent_details" where
  "spread_agent a model_id =
     \<lparr>d_agent_role = ya_agent_role a,
      d_agent_description = ya_agent_description a,
      d_allowed_tools = ya_allowed_tools a,
      d_default_developer_prompt = ya_default_developer_prompt a,
      d_default_user_prompt = ya_default_user_prompt a,
      d_model_id = model_id,
      d_reasoning_level = ya_reasoning_level a,
      d_tool_choice = ya_tool_choice a\<rparr>"

fun import_agents :: "(string \<rightharpoonup> int) \<Rightarrow> agent_entry list \<Rightarrow> world \<Rightarrow> outcome" where
  "import_agents modelMap [] w = Inr w"
| "import_agents modelMap (a # as) w =
     (case resolve_model modelMap a w of
        (model_id, w1) \<Rightarrow>
          (case setAgentDetails (spread_agent a model_id) w1 of
             Inl err \<Rightarrow> Inl (err, w1)
           | Inr w2 \<Rightarrow>
               import_agents modelMap as
                 (console_log (LogUpserted ''agent'' (interpolate (ya_agent_role a))) w2)))"

fun import_tasks :: "task_entry list \<Rightarrow> world \<Rightarrow> outcome" where
  "import_tasks [] w = Inr w"
| "import_tasks (e # es) w =
     (case createTask (yt_task_name e) (yt_task_prompt e) w of
        Inl err \<Rightarrow> Inl (err, w)
      | Inr w' \<Rightarrow>
          import_tasks es (console_log (LogUpserted ''task'' (interpolate (yt_task_name e))) w'))"

text \<open>
  \<open>importTemplate\<close> after the wipe is four blocks, each loading its file, running its
  loop and printing its count; a throw in a loop ends the import there. Each block is
  a function here that ends in the next one.
\<close>

definition import_tasks_block :: "string \<Rightarrow> world \<Rightarrow> outcome" where
  "import_tasks_block templateName w7 =
     (let tasksYaml = loadYAML (tasks_yaml (templates w7 templateName))
      in case import_tasks tasksYaml w7 of
           Inl ew \<Rightarrow> Inl ew
         | Inr w8 \<Rightarrow>
             Inr (console_log (LogImported templateName)
                    (console_log (LogInsertedUpdated (length tasksYaml) ''tasks'') w8)))"

definition import_agents_block :: "string \<Rightarrow> (string \<rightharpoonup> int) \<Rightarrow> world \<Rightarrow> outcome" where
  "import_agents_block templateName modelMap w5 =
     (let agentsYaml = loadYAML (agents_yaml (templates w5 templateName))
      in case import_agents modelMap agentsYaml w5 of
           Inl ew \<Rightarrow> Inl ew
         | Inr w6 \<Rightarrow>
             import_tasks_block templateName
               (console_log (LogInsertedUpdated (length agentsYaml) ''agents'') w6))"

definition import_models_block :: "string \<Rightarrow> (string \<rightharpoonup> int) \<Rightarrow> world \<Rightarrow> outcome" where
  "import_models_block templateName provMap w3 =
     (let modelsYaml = loadYAML (models_yaml (templates w3 templateName))
      in case import_models provMap modelsYaml w3 of
           Inl ew \<Rightarrow> Inl ew
         | Inr w4 \<Rightarrow>
             import_agents_block templateName (modelMap_of w4)
               (console_log (LogInsertedUpdated (length modelsYaml) ''models'') w4))"

definition import_providers_block :: "string \<Rightarrow> world \<Rightarrow> outcome" where
  "import_providers_block templateName w1 =
     (let providersYaml = loadYAML (providers_yaml (templates w1 templateName))
      in case import_providers providersYaml w1 of
           Inl ew \<Rightarrow> Inl ew
         | Inr w2 \<Rightarrow>
             import_models_block templateName (provMap_of w2)
               (console_log (LogInsertedUpdated (length providersYaml) ''providers'') w2))"

definition importTemplate :: "string \<Rightarrow> bool \<Rightarrow> world \<Rightarrow> outcome" where
  "importTemplate templateName wipe w0 =
     import_providers_block templateName (if wipe then wipe_all w0 else w0)"

section \<open>The API route handlers\<close>

text \<open>
  A response: the status, the \<open>Allow\<close> header when the handler sets it, and the body,
  one constructor per shape of JSON object the handlers send (\<open>EndText\<close> for
  \<open>res.end(text)\<close>): \<open>JsonError e\<close> is \<open>{error: e}\<close>, \<open>JsonErrorDetail e d\<close> is
  \<open>{error: e, detail: d}\<close>, \<open>JsonOk\<close> is \<open>{ok: true}\<close>, \<open>JsonRepositories rs n\<close> is
  \<open>{repositories: rs, total: n}\<close>, \<open>JsonConfig\<close> and \<open>JsonValue\<close> are an object and a value
  sent as they are.
\<close>

record agent_json =
  j_id :: "int option"
  j_agent_role :: string
  j_agent_description :: "string option"
  j_allowed_tools :: "string list"
  j_default_developer_prompt :: "string option"
  j_default_user_prompt :: "string option"
  j_model_id :: "int option"
  j_model_name :: string
  j_reasoning_level :: "string option"
  j_tool_choice :: "string option"

text \<open>A JSON value that a handler passes on as it received it.\<close>

datatype json =
    JNull
  | JBool bool
  | JNum int
  | JStr string
  | JArr "json list"
  | JObj "(string \<times> json) list"

record repository =
  rp_organization :: string
  rp_name :: "string js"
  rp_clone_url :: "string js"

datatype response_body =
    JsonError string
  | JsonErrorDetail string string
  | JsonMessage string
  | JsonAgent agent_json
  | JsonAgentTypes "agent_json list"
  | JsonModel model_with_provider
  | JsonModelsWithProviders "model_with_provider list"
  | JsonModels "model_row list"
  | JsonProviders "provider_row list"
  | JsonTask task_row
  | JsonTasks "task_row list"
  | JsonConfig "(string \<times> json) list"
  | JsonValue json
  | JsonOk
  | JsonRepositories "repository list" nat
  | EndText string

record response =
  res_status :: nat
  res_allow :: "string list option"
  res_body :: response_body

definition respond :: "nat \<Rightarrow> response_body \<Rightarrow> response" where
  "respond code b = \<lparr>res_status = code, res_allow = None, res_body = b\<rparr>"

definition method_not_allowed :: "string list \<Rightarrow> string \<Rightarrow> response" where
  "method_not_allowed allowed text = \<lparr>res_status = 405, res_allow = Some allowed, res_body = EndText text\<rparr>"

text \<open>
  An id in the query string is text: absent or empty (falsy), or a text that the
  \<open>INTEGER\<close> key column reads as a number (\<open>Some n\<close>) or as none (\<open>None\<close>).
\<close>

datatype query_id = IdAbsent | IdText "int option"

subsection \<open>pages/api/agent-roles.js\<close>

text \<open>\<open>parseTools\<close>: \<open>JSON.parse(null)\<close> is \<open>null\<close>, which is no array.\<close>

definition parseTools :: "tools_text option \<Rightarrow> string list" where
  "parseTools json =
     (case json of
        None \<Rightarrow> []
      | Some t \<Rightarrow> (case JSON_parse t of Inr arr \<Rightarrow> arr | Inl e \<Rightarrow> []))"

definition makeBlankAgent :: "string js \<Rightarrow> agent_json" where
  "makeBlankAgent agent_role =
     \<lparr>j_id = None,
      j_agent_role = or_str agent_role [],
      j_agent_description = Some [],
      j_allowed_tools = [DEFAULT_TOOL],
      j_default_developer_prompt = Some [],
      j_default_user_prompt = Some [],
      j_model_id = None,
      j_model_name = [],
      j_reasoning_level = Some [],
      j_tool_choice = Some ''auto''\<rparr>"

text \<open>\<open>!model_id\<close> holds of \<open>null\<close> and of \<open>0\<close>.\<close>

definition falsy_id :: "int option \<Rightarrow> bool" where
  "falsy_id model_id = (case model_id of None \<Rightarrow> True | Some i \<Rightarrow> i = 0)"

definition normalizeReasoningLevel :: "int option \<Rightarrow> string option \<Rightarrow> world \<Rightarrow> string option" where
  "normalizeReasoningLevel model_id storedLevel w =
     (if falsy_id model_id then Some []
      else
        let m = getModelById (the model_id) w;
            supports = (case m of None \<Rightarrow> False | Some r \<Rightarrow> m_supports_reasoning (mp_row r) \<noteq> 0)
        in if supports then storedLevel else Some [])"

definition lookup_model_name :: "int option \<Rightarrow> world \<Rightarrow> string" where
  "lookup_model_name model_id w =
     (if falsy_id model_id then []
      else case getModelById (the model_id) w of
             None \<Rightarrow> []
           | Some r \<Rightarrow> m_model_name (mp_row r))"

text \<open>The object both \<open>GET\<close> branches build from a stored row.\<close>

definition agent_view :: "world \<Rightarrow> agent_row \<Rightarrow> agent_json" where
  "agent_view w row =
     (let tools = ensureDefaultTool (Some (parseTools (a_allowed_tools row)));
          model_name = lookup_model_name (a_model_id row) w;
          reasoning_level = normalizeReasoningLevel (a_model_id row) (a_reasoning_level row) w
      in \<lparr>j_id = Some (a_id row),
          j_agent_role = a_agent_role row,
          j_agent_description = a_agent_description row,
          j_allowed_tools = tools,
          j_default_developer_prompt = a_default_developer_prompt row,
          j_default_user_prompt = a_default_user_prompt row,
          j_model_id = a_model_id row,
          j_model_name = model_name,
          j_reasoning_level = reasoning_level,
          j_tool_choice = a_tool_choice row\<rparr>)"

record agent_roles_request =
  ar_method :: string
  ar_query_agent_role :: "string js"
  ar_body :: "agent_details option"

text \<open>\<open>body || {}\<close>: every field of \<open>{}\<close> is \<open>undefined\<close>.\<close>

definition empty_details :: agent_details where
  "empty_details =
     \<lparr>d_agent_role = Undefined, d_agent_description = Undefined, d_allowed_tools = None,
      d_default_developer_prompt = Undefined, d_default_user_prompt = Undefined,
      d_model_id = Undefined, d_reasoning_level = Undefined, d_tool_choice = Undefined\<rparr>"

definition upsert_agent ::
  "agent_details \<Rightarrow> string \<Rightarrow> string \<Rightarrow> string \<Rightarrow> string \<Rightarrow> world \<Rightarrow> response \<times> world" where
  "upsert_agent b required ok label failed w =
     (if \<not> truthy_str (d_agent_role b) then (respond 400 (JsonError required), w)
      else
        let finalTools = ensureDefaultTool (d_allowed_tools b)
        in case setAgentDetails (b\<lparr>d_allowed_tools := Some finalTools\<rparr>) w of
             Inr w' \<Rightarrow> (respond 200 (JsonMessage ok), w')
           | Inl err \<Rightarrow>
               (respond 500 (JsonError failed), console_log (ConsoleError label err) w))"

definition agent_roles_handler :: "agent_roles_request \<Rightarrow> world \<Rightarrow> response \<times> world" where
  "agent_roles_handler req w =
     (let b = (case ar_body req of Some b \<Rightarrow> b | None \<Rightarrow> empty_details) in
      if ar_method req = ''GET'' then
        (if truthy_str (ar_query_agent_role req) then
           (case getAgentByType (or_str (ar_query_agent_role req) []) w of
              Some row \<Rightarrow> (respond 200 (JsonAgent (agent_view w row)), w)
            | None \<Rightarrow> (respond 200 (JsonAgent (makeBlankAgent (ar_query_agent_role req))), w))
         else (respond 200 (JsonAgentTypes (map (agent_view w) (listAgentTypes w))), w))
      else if ar_method req = ''POST'' then
        upsert_agent b ''agent_role is required.'' ''Agent role created/updated successfully.''
          ''POST /api/agent-roles error:'' ''Error creating/updating agent role.'' w
      else if ar_method req = ''PUT'' then
        upsert_agent b ''agent_role is required for update.'' ''Agent role updated successfully.''
          ''PUT /api/agent-roles error:'' ''Error updating agent role.'' w
      else if ar_method req = ''DELETE'' then
        (if \<not> truthy_str (ar_query_agent_role req)
         then (respond 400 (JsonError ''agent_role query parameter is required.''), w)
         else (respond 200 (JsonMessage ''Agent role deleted successfully.''),
               deleteAgentType (or_str (ar_query_agent_role req) []) w))
      else (method_not_allowed [''GET'', ''POST'', ''PUT'', ''DELETE'']
              (''Method '' @ ar_method req @ '' Not Allowed''), w))"

subsection \<open>pages/api/models.js\<close>

record models_request =
  mr_method :: string
  mr_query_model_id :: query_id
  mr_query_withProviders :: bool
  mr_query_id :: query_id
  mr_body :: "model_args option"

definition empty_model_args :: model_args where
  "empty_model_args =
     \<lparr>cm_id = Undefined, cm_provider_id = Undefined, cm_model_name = Undefined,
      cm_display_name = Undefined, cm_extra_info = Undefined, cm_supports_reasoning = Undefined\<rparr>"

definition models_handler :: "models_request \<Rightarrow> world \<Rightarrow> response \<times> world" where
  "models_handler req w =
     (if mr_method req = ''GET'' then
        (case mr_query_model_id req of
           IdText t \<Rightarrow>
             (case (case t of Some i \<Rightarrow> getModelById i w | None \<Rightarrow> None) of
                None \<Rightarrow> (respond 404 (JsonError ''Model not found.''), w)
              | Some model \<Rightarrow> (respond 200 (JsonModel model), w))
         | IdAbsent \<Rightarrow>
             if mr_query_withProviders req
             then (respond 200 (JsonModelsWithProviders (listModelsWithProviderInfo w)), w)
             else (respond 200 (JsonModels (listModels w)), w))
      else if mr_method req = ''POST'' \<or> mr_method req = ''PUT'' then
        (let b = (case mr_body req of Some b \<Rightarrow> b | None \<Rightarrow> empty_model_args) in
         if \<not> truthy_num (cm_provider_id b) \<or> \<not> truthy_str (cm_model_name b)
         then (respond 400 (JsonError ''provider_id and model_name are required.''), w)
         else case createOrUpdateModel (b\<lparr>cm_display_name := Undefined\<rparr>) w of
                Inr w' \<Rightarrow> (respond 200 (JsonMessage ''Model created/updated successfully.''), w')
              | Inl err \<Rightarrow>
                  (respond 500 (JsonError ''Error updating model.''),
                   console_log (ConsoleError ''Error updating model:'' err) w))
      else if mr_method req = ''DELETE'' then
        (case mr_query_id req of
           IdAbsent \<Rightarrow> (respond 400 (JsonError ''Model id is required for deletion.''), w)
         | IdText t \<Rightarrow>
             (respond 200 (JsonMessage ''Model deleted successfully.''),
              (case t of Some i \<Rightarrow> deleteModel i w | None \<Rightarrow> w)))
      else (method_not_allowed [''GET'', ''POST'', ''PUT'', ''DELETE'']
              (''Method '' @ mr_method req @ '' Not Allowed''), w))"

subsection \<open>pages/api/model-providers.js\<close>

record providers_request =
  pr_method :: string
  pr_query_id :: query_id
  pr_body :: "provider_args option"

definition empty_provider_args :: provider_args where
  "empty_provider_args =
     \<lparr>cp_id = Undefined, cp_provider_name = Undefined, cp_display_name = Undefined,
      cp_extra_info = Undefined\<rparr>"

definition model_providers_handler :: "providers_request \<Rightarrow> world \<Rightarrow> response \<times> world" where
  "model_providers_handler req w =
     (if pr_method req = ''GET'' then (respond 200 (JsonProviders (listProviders w)), w)
      else if pr_method req = ''POST'' \<or> pr_method req = ''PUT'' then
        (let b = (case pr_body req of Some b \<Rightarrow> b | None \<Rightarrow> empty_provider_args) in
         if \<not> truthy_str (cp_provider_name b)
         then (respond 400 (JsonError ''provider_name is required.''), w)
         else case createOrUpdateProvider (b\<lparr>cp_display_name := Undefined\<rparr>) w of
                Inr w' \<Rightarrow> (respond 200 (JsonMessage ''Provider created/updated successfully.''), w')
              | Inl err \<Rightarrow>
                  (respond 500 (JsonError ''Error updating model provider.''),
                   console_log (ConsoleError ''Error updating provider:'' err) w))
      else if pr_method req = ''DELETE'' then
        (case pr_query_id req of
           IdAbsent \<Rightarrow> (respond 400 (JsonError ''Provider id is required.''), w)
         | IdText t \<Rightarrow>
             (respond 200 (JsonMessage ''Provider deleted successfully.''),
              (case t of Some i \<Rightarrow> deleteProvider i w | None \<Rightarrow> w)))
      else (method_not_allowed [''GET'', ''POST'', ''PUT'', ''DELETE'']
              (''Method '' @ pr_method req @ '' Not Allowed''), w))"


section \<open>The route handlers when the database or the upstream service fails\<close>

text \<open>
  A database call can fail for a reason that lies outside the tables: the file is locked
  or cannot be opened, the disk is full. A fault is the error the call then rejects with,
  and \<open>None\<close> when the database does its work. The call that fails changes nothing.
\<close>

definition failing :: "js_error option \<Rightarrow> js_error + 'a \<Rightarrow> js_error + 'a" where
  "failing fault r = (case fault of Some e \<Rightarrow> Inl e | None \<Rightarrow> r)"

text \<open>
  The \<open>catch\<close> blocks of the database routes have one shape: \<open>console.error(label, err)\<close>,
  then status 500 with the body \<open>{error: failed}\<close>, \<open>failed\<close> a string literal.
\<close>

definition caught :: "string \<Rightarrow> string \<Rightarrow> js_error \<Rightarrow> world \<Rightarrow> response \<times> world" where
  "caught label failed err w =
     (respond 500 (JsonError failed), console_log (ConsoleError label err) w)"

subsection \<open>pages/api/tasks.js\<close>

record tasks_request =
  tr_method :: string
  tr_query_task_name :: "string js"
  tr_query_id :: query_id
  tr_body_id :: "int js"
  tr_body_task_name :: "string js"
  tr_body_task_prompt :: "string js"

text \<open>
  \<open>checkDBSchema\<close> opens the database and runs \<open>CREATE TABLE IF NOT EXISTS tasks\<close>. Every
  store has the table, so the statement changes nothing.
\<close>

definition checkDBSchema :: "js_error option \<Rightarrow> world \<Rightarrow> js_error + world" where
  "checkDBSchema fault w = failing fault (Inr w)"

text \<open>The one \<open>catch\<close> of the handler.\<close>

definition tasks_caught :: "js_error \<Rightarrow> world \<Rightarrow> response \<times> world" where
  "tasks_caught err w =
     (respond 500 (JsonError ''Internal server error.''),
      console_log (ConsoleError ''Error in tasks API:'' err) w)"

text \<open>
  The handler awaits \<open>checkDBSchema()\<close> before its \<open>try\<close> block. An error thrown there is
  caught by nobody: the promise of the handler rejects with it (\<open>Inl\<close>) and the handler
  sends no response. \<open>schema_fault\<close> is the fault of that call, \<open>fault\<close> the fault of the
  one database call that the branch of the request makes inside the \<open>try\<close> block.
\<close>

definition tasks_handler ::
  "js_error option \<Rightarrow> js_error option \<Rightarrow> tasks_request \<Rightarrow> world
     \<Rightarrow> js_error + response \<times> world" where
  "tasks_handler schema_fault fault req w0 =
     (case checkDBSchema schema_fault w0 of
        Inl err \<Rightarrow> Inl err
      | Inr w \<Rightarrow> Inr
          (if tr_method req = ''GET'' then
             (if truthy_str (tr_query_task_name req) then
                (case failing fault (Inr (getTask (or_str (tr_query_task_name req) []) w)) of
                   Inl err \<Rightarrow> tasks_caught err w
                 | Inr (Some task) \<Rightarrow> (respond 200 (JsonTask task), w)
                 | Inr None \<Rightarrow> (respond 404 (JsonError ''Task not found.''), w))
              else
                (case failing fault (Inr (getAllTasks w)) of
                   Inl err \<Rightarrow> tasks_caught err w
                 | Inr ts \<Rightarrow> (respond 200 (JsonTasks ts), w)))
           else if tr_method req = ''POST'' then
             (if \<not> truthy_str (tr_body_task_name req)
              then (respond 400 (JsonError ''task_name is required.''), w)
              else case failing fault
                          (createTask (tr_body_task_name req)
                             (Val (or_str (tr_body_task_prompt req) [])) w) of
                     Inr w' \<Rightarrow> (respond 201 (JsonMessage ''Task created successfully.''), w')
                   | Inl err \<Rightarrow> tasks_caught err w)
           else if tr_method req = ''PUT'' then
             (if \<not> truthy_num (tr_body_id req)
              then (respond 400 (JsonError ''Task internal id is required for update.''), w)
              else case failing fault
                          (updateTask (case tr_body_id req of Val i \<Rightarrow> i | _ \<Rightarrow> 0)
                             (tr_body_task_name req)
                             (Val (or_str (tr_body_task_prompt req) [])) w) of
                     Inr (changes, w') \<Rightarrow>
                       if changes = 0 then (respond 404 (JsonError ''Task not found.''), w')
                       else (respond 200 (JsonMessage ''Task updated successfully.''), w')
                   | Inl err \<Rightarrow> tasks_caught err w)
           else if tr_method req = ''DELETE'' then
             (case tr_query_id req of
                IdAbsent \<Rightarrow> (respond 400 (JsonError ''Task id is required for deletion.''), w)
              | IdText t \<Rightarrow>
                  (case failing fault
                          (Inr (case t of Some i \<Rightarrow> deleteTask i w | None \<Rightarrow> (0, w))) of
                     Inl err \<Rightarrow> tasks_caught err w
                   | Inr (changes, w') \<Rightarrow>
                       if changes = 0 then (respond 404 (JsonError ''Task not found.''), w')
                       else (respond 200 (JsonMessage ''Task deleted successfully.''), w')))
           else (method_not_allowed [''GET'', ''POST'', ''PUT'', ''DELETE'']
                   (''Method '' @ tr_method req @ '' is not allowed.''), w)))"

subsection \<open>pages/api/models.js, with every \<open>try\<close> block\<close>

text \<open>
  Each branch of the handler makes one database call, inside a \<open>try\<close> block of its own;
  \<open>fault\<close> is the fault of that call.
\<close>

definition models_route :: "js_error option \<Rightarrow> models_request \<Rightarrow> world \<Rightarrow> response \<times> world" where
  "models_route fault req w =
     (if mr_method req = ''GET'' then
        (case mr_query_model_id req of
           IdText t \<Rightarrow>
             (case failing fault
                     (Inr (case t of Some i \<Rightarrow> getModelById i w | None \<Rightarrow> None)) of
                Inl err \<Rightarrow> caught ''Error fetching model:'' ''Error fetching model.'' err w
              | Inr None \<Rightarrow> (respond 404 (JsonError ''Model not found.''), w)
              | Inr (Some model) \<Rightarrow> (respond 200 (JsonModel model), w))
         | IdAbsent \<Rightarrow>
             if mr_query_withProviders req
             then (case failing fault (Inr (listModelsWithProviderInfo w)) of
                     Inl err \<Rightarrow> caught ''Error fetching models:'' ''Error fetching models.'' err w
                   | Inr ms \<Rightarrow> (respond 200 (JsonModelsWithProviders ms), w))
             else (case failing fault (Inr (listModels w)) of
                     Inl err \<Rightarrow> caught ''Error fetching models:'' ''Error fetching models.'' err w
                   | Inr ms \<Rightarrow> (respond 200 (JsonModels ms), w)))
      else if mr_method req = ''POST'' \<or> mr_method req = ''PUT'' then
        (let b = (case mr_body req of Some b \<Rightarrow> b | None \<Rightarrow> empty_model_args) in
         if \<not> truthy_num (cm_provider_id b) \<or> \<not> truthy_str (cm_model_name b)
         then (respond 400 (JsonError ''provider_id and model_name are required.''), w)
         else case failing fault (createOrUpdateModel (b\<lparr>cm_display_name := Undefined\<rparr>) w) of
                Inr w' \<Rightarrow> (respond 200 (JsonMessage ''Model created/updated successfully.''), w')
              | Inl err \<Rightarrow> caught ''Error updating model:'' ''Error updating model.'' err w)
      else if mr_method req = ''DELETE'' then
        (case mr_query_id req of
           IdAbsent \<Rightarrow> (respond 400 (JsonError ''Model id is required for deletion.''), w)
         | IdText t \<Rightarrow>
             (case failing fault
                     (Inr (case t of Some i \<Rightarrow> deleteModel i w | None \<Rightarrow> w)) of
                Inl err \<Rightarrow> caught ''Error deleting model:'' ''Error deleting model.'' err w
              | Inr w' \<Rightarrow> (respond 200 (JsonMessage ''Model deleted successfully.''), w')))
      else (method_not_allowed [''GET'', ''POST'', ''PUT'', ''DELETE'']
              (''Method '' @ mr_method req @ '' Not Allowed''), w))"

subsection \<open>pages/api/model-providers.js, with every \<open>try\<close> block\<close>

definition model_providers_route ::
  "js_error option \<Rightarrow> providers_request \<Rightarrow> world \<Rightarrow> response \<times> world" where
  "model_providers_route fault req w =
     (if pr_method req = ''GET'' then
        (case failing fault (Inr (listProviders w)) of
           Inl err \<Rightarrow>
             caught ''Error fetching providers:'' ''Error fetching model providers.'' err w
         | Inr providers \<Rightarrow> (respond 200 (JsonProviders providers), w))
      else if pr_method req = ''POST'' \<or> pr_method req = ''PUT'' then
        (let b = (case pr_body req of Some b \<Rightarrow> b | None \<Rightarrow> empty_provider_args) in
         if \<not> truthy_str (cp_provider_name b)
         then (respond 400 (JsonError ''provider_name is required.''), w)
         else case failing fault
                     (createOrUpdateProvider (b\<lparr>cp_display_name := Undefined\<rparr>) w) of
                Inr w' \<Rightarrow> (respond 200 (JsonMessage ''Provider created/updated successfully.''), w')
              | Inl err \<Rightarrow>
                  caught ''Error updating provider:'' ''Error updating model provider.'' err w)
      else if pr_method req = ''DELETE'' then
        (case pr_query_id req of
           IdAbsent \<Rightarrow> (respond 400 (JsonError ''Provider id is required.''), w)
         | IdText t \<Rightarrow>
             (case failing fault
                     (Inr (case t of Some i \<Rightarrow> deleteProvider i w | None \<Rightarrow> w)) of
                Inl err \<Rightarrow>
                  caught ''Error deleting provider:'' ''Error deleting model provider.'' err w
              | Inr w' \<Rightarrow> (respond 200 (JsonMessage ''Provider deleted successfully.''), w')))
      else (method_not_allowed [''GET'', ''POST'', ''PUT'', ''DELETE'']
              (''Method '' @ pr_method req @ '' Not Allowed''), w))"

subsection \<open>pages/api/agent-roles.js, with every \<open>try\<close> block\<close>

text \<open>
  After the row is read, the \<open>GET\<close> branches look its model up with \<open>getModelById\<close>, twice
  when \<open>model_id\<close> is truthy and not at all otherwise, inside the same \<open>try\<close> block.
  \<open>model_fault\<close> is the fault of these lookups.
\<close>

definition agent_view_db :: "js_error option \<Rightarrow> world \<Rightarrow> agent_row \<Rightarrow> js_error + agent_json" where
  "agent_view_db model_fault w row =
     (if falsy_id (a_model_id row) then Inr (agent_view w row)
      else failing model_fault (Inr (agent_view w row)))"

definition upsert_agent_db ::
  "js_error option \<Rightarrow> agent_details \<Rightarrow> string \<Rightarrow> string \<Rightarrow> string \<Rightarrow> string \<Rightarrow> world
     \<Rightarrow> response \<times> world" where
  "upsert_agent_db fault b required ok label failed w =
     (if \<not> truthy_str (d_agent_role b) then (respond 400 (JsonError required), w)
      else
        let finalTools = ensureDefaultTool (d_allowed_tools b)
        in case failing fault (setAgentDetails (b\<lparr>d_allowed_tools := Some finalTools\<rparr>) w) of
             Inr w' \<Rightarrow> (respond 200 (JsonMessage ok), w')
           | Inl err \<Rightarrow> caught label failed err w)"

text \<open>
  \<open>fault\<close> is the fault of the first database call of the branch: \<open>getAgentByType\<close>,
  \<open>listAgentTypes\<close>, \<open>setAgentDetails\<close> or \<open>deleteAgentType\<close>.
\<close>

definition agent_roles_route ::
  "js_error option \<Rightarrow> js_error option \<Rightarrow> agent_roles_request \<Rightarrow> world \<Rightarrow> response \<times> world" where
  "agent_roles_route fault model_fault req w =
     (let b = (case ar_body req of Some b \<Rightarrow> b | None \<Rightarrow> empty_details) in
      if ar_method req = ''GET'' then
        (if truthy_str (ar_query_agent_role req) then
           (case failing fault (Inr (getAgentByType (or_str (ar_query_agent_role req) []) w)) of
              Inl err \<Rightarrow>
                caught ''GET /api/agent-roles?agent_role= error:'' ''Error fetching agent role.''
                  err w
            | Inr (Some row) \<Rightarrow>
                (case agent_view_db model_fault w row of
                   Inl err \<Rightarrow>
                     caught ''GET /api/agent-roles?agent_role= error:''
                       ''Error fetching agent role.'' err w
                 | Inr agent \<Rightarrow> (respond 200 (JsonAgent agent), w))
            | Inr None \<Rightarrow>
                (respond 200 (JsonAgent (makeBlankAgent (ar_query_agent_role req))), w))
         else
           (case failing fault (Inr (listAgentTypes w)) of
              Inl err \<Rightarrow>
                caught ''GET /api/agent-roles error:'' ''Error fetching agent roles.'' err w
            | Inr rows \<Rightarrow>
                (case map_throwing (agent_view_db model_fault w) rows of
                   Inl err \<Rightarrow>
                     caught ''GET /api/agent-roles error:'' ''Error fetching agent roles.'' err w
                 | Inr agentTypes \<Rightarrow> (respond 200 (JsonAgentTypes agentTypes), w))))
      else if ar_method req = ''POST'' then
        upsert_agent_db fault b ''agent_role is required.''
          ''Agent role created/updated successfully.''
          ''POST /api/agent-roles error:'' ''Error creating/updating agent role.'' w
      else if ar_method req = ''PUT'' then
        upsert_agent_db fault b ''agent_role is required for update.''
          ''Agent role updated successfully.''
          ''PUT /api/agent-roles error:'' ''Error updating agent role.'' w
      else if ar_method req = ''DELETE'' then
        (if \<not> truthy_str (ar_query_agent_role req)
         then (respond 400 (JsonError ''agent_role query parameter is required.''), w)
         else case failing fault
                     (Inr (deleteAgentType (or_str (ar_query_agent_role req) []) w)) of
                Inl err \<Rightarrow>
                  caught ''DELETE /api/agent-roles error:'' ''Error deleting agent role.'' err w
              | Inr w' \<Rightarrow> (respond 200 (JsonMessage ''Agent role deleted successfully.''), w'))
      else (method_not_allowed [''GET'', ''POST'', ''PUT'', ''DELETE'']
              (''Method '' @ ar_method req @ '' Not Allowed''), w))"

subsection \<open>pages/api/templates/import.js and pages/api/templates/export.js\<close>

record template_request =
  tp_method :: string
  tp_query_name :: "string js"

text \<open>
  \<open>importTemplate\<close> with \<open>wipe\<close> and \<open>exportTemplate\<close> both begin with
  \<open>await listProviders()\<close>; \<open>fault\<close> is the fault of that call. An error thrown later comes
  with the state the routine has reached.
\<close>

definition templates_import_handler ::
  "js_error option \<Rightarrow> template_request \<Rightarrow> world \<Rightarrow> response \<times> world" where
  "templates_import_handler fault req w =
     (if tp_method req \<noteq> ''POST'' then (method_not_allowed [''POST''] ''Method Not Allowed'', w)
      else
        let templateName = or_str (tp_query_name req) ''default''
        in case (case fault of
                   Some e \<Rightarrow> Inl (e, w)
                 | None \<Rightarrow> importTemplate templateName True w) of
             Inr w' \<Rightarrow>
               (respond 200
                  (JsonMessage (''Imported template '' @ [CHR 0x22] @ templateName @ [CHR 0x22] @
                                '' successfully.'')), w')
           | Inl (err, w') \<Rightarrow>
               caught ''Error importing template:''
                 ''Failed to import template. Check server logs for details.'' err w')"

definition templates_export_handler ::
  "js_error option \<Rightarrow> template_request \<Rightarrow> world \<Rightarrow> response \<times> world" where
  "templates_export_handler fault req w =
     (if tp_method req \<noteq> ''POST'' then (method_not_allowed [''POST''] ''Method Not Allowed'', w)
      else
        let templateName = or_str (tp_query_name req) ''default''
        in case (case fault of
                   Some e \<Rightarrow> Inl (e, w)
                 | None \<Rightarrow> exportTemplate templateName w) of
             Inr w' \<Rightarrow>
               (respond 200
                  (JsonMessage (''Exported template '' @ [CHR 0x22] @ templateName @ [CHR 0x22])),
                w')
           | Inl (err, w') \<Rightarrow>
               caught ''Error exporting template:'' ''Failed to export template'' err w')"

subsection \<open>What \<open>fetch\<close> gives\<close>

text \<open>
  \<open>String(e)\<close> for an error object is \<open>Error.prototype.toString\<close>: the name and the
  message, joined by a colon, or the name alone when the message is empty. A refused
  SQLite statement is an \<open>Error\<close> object.
\<close>

fun error_name :: "js_error \<Rightarrow> string" where
  "error_name (Error m) = ''Error''"
| "error_name (SqliteError m) = ''Error''"
| "error_name (SyntaxError m) = ''SyntaxError''"
| "error_name (TypeError m) = ''TypeError''"

definition String_of :: "js_error \<Rightarrow> string" where
  "String_of e = (if message e = [] then error_name e else error_name e @ '': '' @ message e)"

text \<open>
  The \<open>Response\<close> object of a \<open>fetch\<close> that was answered: \<open>ok\<close>, \<open>status\<close> and
  \<open>statusText\<close>, and what \<open>await text()\<close> and \<open>await json()\<close> give, each of which can reject.
  A \<open>fetch\<close> that is not answered rejects; the outcome of a \<open>fetch\<close> is an error or a
  \<open>Response\<close>. The request decides the URL and the options of the \<open>fetch\<close> and nothing
  else, so the handlers below take the outcome of their \<open>fetch\<close> in its place.
\<close>

record 'j fetch_response =
  fr_ok :: bool
  fr_status :: nat
  fr_statusText :: string
  fr_text :: "js_error + string"
  fr_json :: "js_error + 'j"

subsection \<open>pages/api/config/list.js, bulk\_set.js and scopes.js\<close>

text \<open>
  The value of a config entry, as the flattening reads it: a value that is no string, a
  string that stays as it is (its trimmed text is not bracketed like an array or an
  object, or \<open>JSON.parse\<close> throws on it), or a string whose trimmed text is bracketed and
  that \<open>JSON.parse\<close> reads as the given value.
\<close>

datatype cfg_value = CfgJson json | CfgText string | CfgJsonText string json

record cfg_entry =
  ce_key :: string
  ce_value :: cfg_value

fun flat_value :: "cfg_value \<Rightarrow> json" where
  "flat_value (CfgJson j) = j"
| "flat_value (CfgText s) = JStr s"
| "flat_value (CfgJsonText s j) = j"

text \<open>\<open>result[key] = v\<close>: a key that is there keeps its place.\<close>

fun set_property :: "string \<Rightarrow> json \<Rightarrow> (string \<times> json) list \<Rightarrow> (string \<times> json) list" where
  "set_property k v [] = [(k, v)]"
| "set_property k v (p # ps) = (if fst p = k then (k, v) # ps else p # set_property k v ps)"

definition flatten :: "cfg_entry list \<Rightarrow> (string \<times> json) list" where
  "flatten entries = fold (\<lambda>e result. set_property (ce_key e) (flat_value (ce_value e)) result) entries []"

definition json_method_not_allowed :: "string list \<Rightarrow> response" where
  "json_method_not_allowed allowed =
     \<lparr>res_status = 405, res_allow = Some allowed, res_body = JsonError ''Method not allowed''\<rparr>"

text \<open>The \<open>try\<close> block of \<open>list.js\<close>: \<open>throw new Error(text || backendRes.statusText)\<close>.\<close>

definition config_list_try ::
  "js_error + cfg_entry list fetch_response \<Rightarrow> js_error + (string \<times> json) list" where
  "config_list_try fetched =
     (case fetched of
        Inl e \<Rightarrow> Inl e
      | Inr backendRes \<Rightarrow>
          if \<not> fr_ok backendRes then
            (case fr_text backendRes of
               Inl e \<Rightarrow> Inl e
             | Inr errorText \<Rightarrow>
                 Inl (Error (if errorText \<noteq> [] then errorText else fr_statusText backendRes)))
          else (case fr_json backendRes of
                  Inl e \<Rightarrow> Inl e
                | Inr entries \<Rightarrow> Inr (flatten entries)))"

definition config_list_handler ::
  "string \<Rightarrow> js_error + cfg_entry list fetch_response \<Rightarrow> response" where
  "config_list_handler meth fetched =
     (if meth \<noteq> ''GET'' then json_method_not_allowed [''GET'']
      else case config_list_try fetched of
             Inr result \<Rightarrow> respond 200 (JsonConfig result)
           | Inl e \<Rightarrow> respond 500 (JsonErrorDetail ''Failed to retrieve config'' (String_of e)))"

text \<open>
  \<open>bulk_set.js\<close>: \<open>!items || typeof items !== "object"\<close> lets an array or an object
  pass. The \<open>try\<close> block: \<open>throw new Error(errorText)\<close>.
\<close>

fun is_object :: "json js \<Rightarrow> bool" where
  "is_object (Val (JArr xs)) = True"
| "is_object (Val (JObj fs)) = True"
| "is_object _ = False"

definition config_bulk_set_try :: "js_error + 'j fetch_response \<Rightarrow> js_error + unit" where
  "config_bulk_set_try fetched =
     (case fetched of
        Inl e \<Rightarrow> Inl e
      | Inr backendRes \<Rightarrow>
          if \<not> fr_ok backendRes then
            (case fr_text backendRes of
               Inl e \<Rightarrow> Inl e
             | Inr errorText \<Rightarrow> Inl (Error errorText))
          else Inr ())"

definition config_bulk_set_handler ::
  "string \<Rightarrow> json js \<Rightarrow> js_error + 'j fetch_response \<Rightarrow> response" where
  "config_bulk_set_handler meth items fetched =
     (if meth \<noteq> ''POST'' then json_method_not_allowed [''POST'']
      else if \<not> is_object items
      then respond 400 (JsonError ''Must provide 'items' as object'')
      else case config_bulk_set_try fetched of
             Inr u \<Rightarrow> respond 200 JsonOk
           | Inl e \<Rightarrow> respond 500 (JsonErrorDetail ''Failed to save config'' (String_of e)))"

definition config_scopes_try :: "js_error + json fetch_response \<Rightarrow> js_error + json" where
  "config_scopes_try fetched =
     (case fetched of
        Inl e \<Rightarrow> Inl e
      | Inr backendRes \<Rightarrow>
          if \<not> fr_ok backendRes then
            (case fr_text backendRes of
               Inl e \<Rightarrow> Inl e
             | Inr errorText \<Rightarrow> Inl (Error errorText))
          else fr_json backendRes)"

definition config_scopes_handler :: "string \<Rightarrow> js_error + json fetch_response \<Rightarrow> response" where
  "config_scopes_handler meth fetched =
     (if meth \<noteq> ''GET'' then json_method_not_allowed [''GET'']
      else case config_scopes_try fetched of
             Inr scopes \<Rightarrow> respond 200 (JsonValue scopes)
           | Inl e \<Rightarrow> respond 500 (JsonErrorDetail ''Failed to retrieve scopes'' (String_of e)))"

subsection \<open>pages/api/github/repos.js\<close>

text \<open>\<open>`${n}`\<close> for a status code: the decimal digits.\<close>

definition digit :: "nat \<Rightarrow> char" where
  "digit d = ''0123456789'' ! d"

fun decimal :: "nat \<Rightarrow> string" where
  "decimal n = (if n < 10 then [digit n] else decimal (n div 10) @ [digit (n mod 10)])"

declare decimal.simps [simp del]

text \<open>
  What a page of the GitHub API parses to: something that is no array, or an array of
  objects. The organisations of a page are read for their \<open>login\<close>, the repositories for
  their \<open>name\<close> and \<open>clone_url\<close>.
\<close>

datatype 'a page_data = NotArray | Items "'a list"

record gh_org =
  go_login :: "string js"

record gh_repo =
  gr_name :: "string js"
  gr_clone_url :: "string js"

type_synonym orgs_api = "nat \<Rightarrow> js_error + gh_org page_data fetch_response"
type_synonym repos_api = "string \<Rightarrow> nat \<Rightarrow> js_error + gh_repo page_data fetch_response"

text \<open>
  The two \<open>while (true)\<close> loops over the pages. They end at the first page that is no
  array or is empty, or with the first error; \<open>None\<close> is a loop that never ends.
\<close>

partial_function (option) fetch_orgs ::
  "orgs_api \<Rightarrow> nat \<Rightarrow> string list \<Rightarrow> (js_error + string list) option" where
  "fetch_orgs api page orgs =
     (case api page of
        Inl e \<Rightarrow> Some (Inl e)
      | Inr orgRes \<Rightarrow>
          if \<not> fr_ok orgRes
          then Some (Inl (Error (''Failed fetching orgs: '' @ decimal (fr_status orgRes))))
          else (case fr_json orgRes of
                  Inl e \<Rightarrow> Some (Inl e)
                | Inr NotArray \<Rightarrow> Some (Inr orgs)
                | Inr (Items orgData) \<Rightarrow>
                    if orgData = [] then Some (Inr orgs)
                    else fetch_orgs api (page + 1)
                           (orgs @ map (\<lambda>org. or_str (go_login org) [])
                                     (filter (\<lambda>org. truthy_str (go_login org)) orgData))))"

partial_function (option) fetch_repos ::
  "repos_api \<Rightarrow> string \<Rightarrow> nat \<Rightarrow> repository list \<Rightarrow> (js_error + repository list) option" where
  "fetch_repos api org page repositories =
     (case api org page of
        Inl e \<Rightarrow> Some (Inl e)
      | Inr reposRes \<Rightarrow>
          if \<not> fr_ok reposRes
          then Some (Inl (Error (''Failed fetching repos for org '' @ org @ '': ''
                                  @ decimal (fr_status reposRes))))
          else (case fr_json reposRes of
                  Inl e \<Rightarrow> Some (Inl e)
                | Inr NotArray \<Rightarrow> Some (Inr repositories)
                | Inr (Items reposData) \<Rightarrow>
                    if reposData = [] then Some (Inr repositories)
                    else fetch_repos api org (page + 1)
                           (repositories @
                              map (\<lambda>repo. \<lparr>rp_organization = org, rp_name = gr_name repo,
                                           rp_clone_url = gr_clone_url repo\<rparr>) reposData)))"

text \<open>\<open>for (const org of orgs)\<close>.\<close>

fun fetch_all_repos ::
  "repos_api \<Rightarrow> string list \<Rightarrow> repository list \<Rightarrow> (js_error + repository list) option" where
  "fetch_all_repos api [] repositories = Some (Inr repositories)"
| "fetch_all_repos api (org # orgs) repositories =
     (case fetch_repos api org 1 repositories of
        None \<Rightarrow> None
      | Some (Inl e) \<Rightarrow> Some (Inl e)
      | Some (Inr rs) \<Rightarrow> fetch_all_repos api orgs rs)"

text \<open>The \<open>try\<close> block of the handler.\<close>

definition github_repos_try ::
  "orgs_api \<Rightarrow> repos_api \<Rightarrow> (js_error + repository list) option" where
  "github_repos_try orgs_of repos_of =
     (case fetch_orgs orgs_of 1 [] of
        None \<Rightarrow> None
      | Some (Inl e) \<Rightarrow> Some (Inl e)
      | Some (Inr orgs) \<Rightarrow> fetch_all_repos repos_of orgs [])"

text \<open>\<open>GITHUB_TOKEN\<close> is \<open>process.env.GITHUB_TOKEN\<close>. The \<open>catch\<close> sends \<open>error.message\<close>.\<close>

definition github_repos_handler ::
  "string js \<Rightarrow> orgs_api \<Rightarrow> repos_api \<Rightarrow> world \<Rightarrow> (response \<times> world) option" where
  "github_repos_handler GITHUB_TOKEN orgs_of repos_of w =
     (if \<not> truthy_str GITHUB_TOKEN
      then Some (respond 500 (JsonError ''GITHUB_TOKEN environment variable is not set.''), w)
      else case github_repos_try orgs_of repos_of of
             None \<Rightarrow> None
           | Some (Inr repositories) \<Rightarrow>
               Some (respond 200 (JsonRepositories repositories (length repositories)), w)
           | Some (Inl error) \<Rightarrow>
               Some (respond 500 (JsonError (message error)),
                     console_log (ConsoleError ''Error fetching repositories:'' error) w))"

subsection \<open>pages/api/[...slug].js\<close>

text \<open>
  The proxy awaits its \<open>fetch\<close>, and then \<open>json()\<close> or \<open>arrayBuffer()\<close>, outside any \<open>try\<close>
  block: when one of them throws, the promise of the handler rejects (\<open>Inl\<close>) and the
  handler sends no response. Otherwise it passes on the status, the headers but
  \<open>content-length\<close>, and the body.
\<close>

record upstream_reply =
  up_status :: nat
  up_headers :: "(string \<times> string) list"
  up_json :: "js_error + json"
  up_arrayBuffer :: "js_error + string"

datatype proxy_body = SentJson json | SentBuffer string

record proxy_response =
  ps_status :: nat
  ps_headers :: "(string \<times> string) list"
  ps_body :: proxy_body

text \<open>\<open>s.includes(sub)\<close>.\<close>

fun js_includes :: "string \<Rightarrow> string \<Rightarrow> bool" where
  "js_includes [] sub = (sub = [])"
| "js_includes (c # cs) sub = (take (length sub) (c # cs) = sub \<or> js_includes cs sub)"

definition slug_handler :: "js_error + upstream_reply \<Rightarrow> js_error + proxy_response" where
  "slug_handler fetched =
     (case fetched of
        Inl e \<Rightarrow> Inl e
      | Inr upstream \<Rightarrow>
          let contentType = (case map_of (up_headers upstream) ''content-type'' of
                               Some v \<Rightarrow> v
                             | None \<Rightarrow> []);
              headers = filter (\<lambda>kv. fst kv \<noteq> ''content-length'') (up_headers upstream)
          in if js_includes contentType ''application/json''
             then (case up_json upstream of
                     Inl e \<Rightarrow> Inl e
                   | Inr j \<Rightarrow>
                       Inr \<lparr>ps_status = up_status upstream, ps_headers = headers,
                            ps_body = SentJson j\<rparr>)
             else (case up_arrayBuffer upstream of
                     Inl e \<Rightarrow> Inl e
                   | Inr buffer \<Rightarrow>
                       Inr \<lparr>ps_status = up_status upstream, ps_headers = headers,
                            ps_body = SentBuffer buffer\<rparr>))"


section \<open>Auxiliary notions for the statements\<close>

definition no_files :: template_files where
  "no_files = \<lparr>providers_yaml = None, models_yaml = None, agents_yaml = None, tasks_yaml = None\<rparr>"

text \<open>A fresh database file: four empty tables, no template folder.\<close>

definition empty_world :: world where
  "empty_world =
     \<lparr>model_providers = [], model_providers_seq = 0, models = [], models_seq = 0,
      agent_roles = [], agent_roles_seq = 0, tasks = [], tasks_seq = 0,
      console = [], templates = (\<lambda>name. no_files)\<rparr>"

text \<open>The row of \<open>models\<close> an agent role's \<open>model_id\<close> refers to, if any.\<close>

definition referenced_model :: "world \<Rightarrow> agent_row \<Rightarrow> model_row option" where
  "referenced_model w row =
     (case a_model_id row of None \<Rightarrow> None | Some i \<Rightarrow> find (\<lambda>m. m_id m = i) (models w))"

fun agent_of_body :: "response_body \<Rightarrow> agent_json option" where
  "agent_of_body (JsonAgent a) = Some a"
| "agent_of_body _ = None"

fun agents_of_body :: "response_body \<Rightarrow> agent_json list option" where
  "agents_of_body (JsonAgentTypes as) = Some as"
| "agents_of_body _ = None"

definition get_agent_role :: "string \<Rightarrow> agent_roles_request" where
  "get_agent_role K = \<lparr>ar_method = ''GET'', ar_query_agent_role = Val K, ar_body = None\<rparr>"

definition get_agent_roles :: agent_roles_request where
  "get_agent_roles = \<lparr>ar_method = ''GET'', ar_query_agent_role = Undefined, ar_body = None\<rparr>"

text \<open>
  A small store for concrete checks: one provider with a model that does not support
  reasoning and one that does, three agent roles, one task.
\<close>

definition demo_world :: world where
  "demo_world =
     \<lparr>model_providers =
        [\<lparr>p_id = 1, p_provider_name = ''openai'', p_display_name = ''OpenAI'',
          p_extra_info = Some []\<rparr>],
      model_providers_seq = 1,
      models =
        [\<lparr>m_id = 1, m_provider_id = 1, m_model_name = ''gpt-4'', m_display_name = ''gpt-4'',
          m_extra_info = Some [], m_supports_reasoning = 0\<rparr>,
         \<lparr>m_id = 2, m_provider_id = 1, m_model_name = ''o1'', m_display_name = ''o1'',
          m_extra_info = Some [], m_supports_reasoning = 1\<rparr>],
      models_seq = 2,
      agent_roles =
        [\<lparr>a_id = 1, a_agent_role = ''coder'', a_agent_description = Some ''writes code'',
          a_allowed_tools = Some (ToolsJson [''read_file'', ''set_work_completed'']),
          a_default_developer_prompt = Some [], a_default_user_prompt = Some [],
          a_model_id = Some 1, a_reasoning_level = Some ''high'',
          a_tool_choice = Some ''auto''\<rparr>,
         \<lparr>a_id = 2, a_agent_role = ''planner'', a_agent_description = Some [],
          a_allowed_tools = Some (ToolsJson [''set_work_completed'']),
          a_default_developer_prompt = Some [], a_default_user_prompt = Some [],
          a_model_id = Some 2, a_reasoning_level = Some ''low'',
          a_tool_choice = Some ''required''\<rparr>,
         \<lparr>a_id = 3, a_agent_role = ''reviewer'', a_agent_description = Some [],
          a_allowed_tools = Some (ToolsJson [''set_work_completed'']),
          a_default_developer_prompt = Some [], a_default_user_prompt = Some [],
          a_model_id = None, a_reasoning_level = Some ''medium'',
          a_tool_choice = Some ''auto''\<rparr>],
      agent_roles_seq = 3,
      tasks = [\<lparr>t_id = 1, t_task_name = ''build'', t_task_prompt = Some ''Build it''\<rparr>],
      tasks_seq = 1,
      console = [],
      templates = (\<lambda>name. no_files)\<rparr>"


definition upsert_agent_request :: "string \<Rightarrow> agent_details \<Rightarrow> agent_roles_request" where
  "upsert_agent_request meth d = \<lparr>ar_method = meth, ar_query_agent_role = Undefined, ar_body = Some d\<rparr>"

text \<open>The request body that sends the fields of a read back unchanged.\<close>

definition write_back :: "agent_json \<Rightarrow> agent_details" where
  "write_back a =
     \<lparr>d_agent_role = Val (j_agent_role a),
      d_agent_description = unbind (j_agent_description a),
      d_allowed_tools = Some (j_allowed_tools a),
      d_default_developer_prompt = unbind (j_default_developer_prompt a),
      d_default_user_prompt = unbind (j_default_user_prompt a),
      d_model_id = unbind (j_model_id a),
      d_reasoning_level = unbind (j_reasoning_level a),
      d_tool_choice = unbind (j_tool_choice a)\<rparr>"

text \<open>The columns of a row as \<open>setAgentDetails\<close> writes them from its argument.\<close>

definition written :: "agent_details \<Rightarrow> agent_row \<Rightarrow> bool" where
  "written d r \<longleftrightarrow>
       a_allowed_tools r = Some (JSON_stringify (ensureDefaultTool (d_allowed_tools d)))
     \<and> a_model_id r = bind (d_model_id d)
     \<and> a_reasoning_level r = Some (or_str (d_reasoning_level d) ''medium'')
     \<and> a_tool_choice r = Some (or_str (d_tool_choice d) ''auto'')"

text \<open>An upsert that names a role and nothing else: no \<open>allowed_tools\<close>, no levels.\<close>

definition tester_details :: agent_details where
  "tester_details = empty_details\<lparr>d_agent_role := Val ''tester''\<rparr>"

text \<open>Requests with a JSON body to the models and providers routes, and to the tasks route.\<close>

definition models_upsert_request :: "string \<Rightarrow> model_args \<Rightarrow> models_request" where
  "models_upsert_request meth b =
     \<lparr>mr_method = meth, mr_query_model_id = IdAbsent, mr_query_withProviders = False,
      mr_query_id = IdAbsent, mr_body = Some b\<rparr>"

definition providers_upsert_request :: "string \<Rightarrow> provider_args \<Rightarrow> providers_request" where
  "providers_upsert_request meth b = \<lparr>pr_method = meth, pr_query_id = IdAbsent, pr_body = Some b\<rparr>"

definition tasks_body_request :: "string \<Rightarrow> int js \<Rightarrow> string js \<Rightarrow> string js \<Rightarrow> tasks_request" where
  "tasks_body_request meth i task_name task_prompt =
     \<lparr>tr_method = meth, tr_query_task_name = Undefined, tr_query_id = IdAbsent,
      tr_body_id = i, tr_body_task_name = task_name, tr_body_task_prompt = task_prompt\<rparr>"

text \<open>Upserts that carry an id no row of \<open>demo_world\<close> has.\<close>

definition ghost_model :: model_args where
  "ghost_model = empty_model_args\<lparr>cm_id := Val 99, cm_provider_id := Val 1, cm_model_name := Val ''gpt-5''\<rparr>"

definition ghost_provider :: provider_args where
  "ghost_provider = empty_provider_args\<lparr>cp_id := Val 99, cp_provider_name := Val ''anthropic''\<rparr>"

text \<open>A \<open>PUT /models\<close> body that renames model 2 of \<open>demo_world\<close> to the name of model 1.\<close>

definition clashing_model :: model_args where
  "clashing_model = empty_model_args\<lparr>cm_id := Val 2, cm_provider_id := Val 1, cm_model_name := Val ''gpt-4''\<rparr>"

text \<open>
  A template folder \<open>default\<close> whose second model names a provider that
  \<open>providers.yaml\<close> does not have, on an empty store.
\<close>

definition orphan_template :: template_files where
  "orphan_template =
     \<lparr>providers_yaml = Some
        [\<lparr>y_provider_name = Val ''openai'', y_display_name = Val ''OpenAI'', y_extra_info = Val []\<rparr>],
      models_yaml = Some
        [\<lparr>ym_provider_name = Val ''openai'', ym_model_name = Val ''gpt-4'',
          ym_display_name = Val ''gpt-4'', ym_extra_info = Val [], ym_supports_reasoning = Val False\<rparr>,
         \<lparr>ym_provider_name = Val ''missing'', ym_model_name = Val ''m1'',
          ym_display_name = Val ''m1'', ym_extra_info = Val [], ym_supports_reasoning = Val True\<rparr>,
         \<lparr>ym_provider_name = Val ''openai'', ym_model_name = Val ''o1'',
          ym_display_name = Val ''o1'', ym_extra_info = Val [], ym_supports_reasoning = Val True\<rparr>],
      agents_yaml = None,
      tasks_yaml = None\<rparr>"

definition orphan_world :: world where
  "orphan_world =
     empty_world\<lparr>templates := (\<lambda>name. if name = ''default'' then orphan_template else no_files)\<rparr>"

text \<open>The states the import of \<open>orphan_world\<close> passes through.\<close>

definition orphan_after_providers :: world where
  "orphan_after_providers =
     orphan_world
      \<lparr>model_providers := [\<lparr>p_id = 1, p_provider_name = ''openai'', p_display_name = ''OpenAI'',
          p_extra_info = Some []\<rparr>],
       model_providers_seq := 1,
       console := [LogUpserted ''provider'' ''openai'']\<rparr>"

definition orphan_after_first_model :: world where
  "orphan_after_first_model =
     orphan_after_providers
      \<lparr>models := [\<lparr>m_id = 1, m_provider_id = 1, m_model_name = ''gpt-4'',
          m_display_name = ''gpt-4'', m_extra_info = Some [], m_supports_reasoning = 0\<rparr>],
       models_seq := 1,
       console := [LogUpserted ''provider'' ''openai'', LogInsertedUpdated 1 ''providers'',
                   LogUpserted ''model'' ''openai/gpt-4'']\<rparr>"

text \<open>
  The keys \<open>AUTOINCREMENT\<close> gives the agent roles: the counter is never negative and
  no row has the key 0.
\<close>

definition agent_ids_ok :: "world \<Rightarrow> bool" where
  "agent_ids_ok w \<longleftrightarrow> 0 \<le> agent_roles_seq w \<and> list_all (\<lambda>r. a_id r \<noteq> 0) (agent_roles w)"

text \<open>
  \<open>demo_world\<close> with a template folder \<open>default\<close> whose \<open>agents.yaml\<close> names a model
  the store does not have, then one it has, and whose \<open>tasks.yaml\<close> holds two new
  tasks, the second without a prompt.
\<close>

definition unlinked_agent :: agent_entry where
  "unlinked_agent =
     \<lparr>ya_agent_role = Val ''orphan'', ya_agent_description = Val [], ya_allowed_tools = Some [],
      ya_default_developer_prompt = Val [], ya_default_user_prompt = Val [],
      ya_reasoning_level = Val ''low'', ya_tool_choice = Val ''auto'',
      ya_provider_name = Val ''openai'', ya_model_name = Val ''nope''\<rparr>"

definition linked_agent :: agent_entry where
  "linked_agent =
     \<lparr>ya_agent_role = Val ''second'', ya_agent_description = Val [], ya_allowed_tools = Some [],
      ya_default_developer_prompt = Val [], ya_default_user_prompt = Val [],
      ya_reasoning_level = Val ''low'', ya_tool_choice = Val ''auto'',
      ya_provider_name = Val ''openai'', ya_model_name = Val ''o1''\<rparr>"

definition unlinked_world :: world where
  "unlinked_world =
     demo_world\<lparr>templates := (\<lambda>name. if name = ''default''
        then no_files\<lparr>agents_yaml := Some [unlinked_agent, linked_agent],
                      tasks_yaml := Some
                        [\<lparr>yt_task_name = Val ''deploy'', yt_task_prompt = Val ''Ship it''\<rparr>,
                         \<lparr>yt_task_name = Val ''test'', yt_task_prompt = Undefined\<rparr>]\<rparr>
        else no_files)\<rparr>"

text \<open>
  A template folder \<open>default\<close> in which every file holds two records with one natural
  key, on an empty store.
\<close>

definition dup_template :: template_files where
  "dup_template =
     \<lparr>providers_yaml = Some
        [\<lparr>y_provider_name = Val ''openai'', y_display_name = Val ''First'', y_extra_info = Val ''a''\<rparr>,
         \<lparr>y_provider_name = Val ''openai'', y_display_name = Val ''Last'', y_extra_info = Val ''b''\<rparr>],
      models_yaml = Some
        [\<lparr>ym_provider_name = Val ''openai'', ym_model_name = Val ''gpt-4'',
          ym_display_name = Val ''First'', ym_extra_info = Val ''a'', ym_supports_reasoning = Val False\<rparr>,
         \<lparr>ym_provider_name = Val ''openai'', ym_model_name = Val ''gpt-4'',
          ym_display_name = Val ''Last'', ym_extra_info = Val ''b'', ym_supports_reasoning = Val True\<rparr>],
      agents_yaml = Some
        [\<lparr>ya_agent_role = Val ''coder'', ya_agent_description = Val ''First'',
          ya_allowed_tools = Some [], ya_default_developer_prompt = Val [],
          ya_default_user_prompt = Val [], ya_reasoning_level = Val ''low'',
          ya_tool_choice = Val ''auto'', ya_provider_name = Null, ya_model_name = Null\<rparr>,
         \<lparr>ya_agent_role = Val ''coder'', ya_agent_description = Val ''Last'',
          ya_allowed_tools = Some [], ya_default_developer_prompt = Val [],
          ya_default_user_prompt = Val [], ya_reasoning_level = Val ''high'',
          ya_tool_choice = Val ''none'', ya_provider_name = Null, ya_model_name = Null\<rparr>],
      tasks_yaml = Some
        [\<lparr>yt_task_name = Val ''build'', yt_task_prompt = Val ''First''\<rparr>,
         \<lparr>yt_task_name = Val ''build'', yt_task_prompt = Val ''Last''\<rparr>]\<rparr>"

definition dup_world :: world where
  "dup_world =
     empty_world\<lparr>templates := (\<lambda>name. if name = ''default'' then dup_template else no_files)\<rparr>"

text \<open>
  Failures for concrete checks: a database file that another connection holds locked, a
  \<open>fetch\<close> that reaches nobody, a GitHub API that refuses the token, one that knows the
  organisation \<open>acme\<close> and refuses its repositories, and \<open>demo_world\<close> with an
  \<open>allowed_tools\<close> text that is no JSON.
\<close>

definition database_locked :: js_error where
  "database_locked = SqliteError ''SQLITE_BUSY: database is locked''"

definition fetch_failed :: js_error where
  "fetch_failed = TypeError ''fetch failed''"

definition orgs_forbidden :: orgs_api where
  "orgs_forbidden page =
     Inr \<lparr>fr_ok = False, fr_status = 403, fr_statusText = ''Forbidden'',
          fr_text = Inr ''Bad credentials'', fr_json = Inr NotArray\<rparr>"

definition orgs_acme :: orgs_api where
  "orgs_acme page =
     Inr \<lparr>fr_ok = True, fr_status = 200, fr_statusText = ''OK'', fr_text = Inr [],
          fr_json = Inr (Items (if page = 1 then [\<lparr>go_login = Val ''acme''\<rparr>] else []))\<rparr>"

definition repos_not_found :: repos_api where
  "repos_not_found org page =
     Inr \<lparr>fr_ok = False, fr_status = 404, fr_statusText = ''Not Found'',
          fr_text = Inr ''Not Found'', fr_json = Inr NotArray\<rparr>"

definition backend_down :: "'j \<Rightarrow> js_error + 'j fetch_response" where
  "backend_down j =
     Inr \<lparr>fr_ok = False, fr_status = 503, fr_statusText = ''Service Unavailable'',
          fr_text = Inr ''upstream connect error'', fr_json = Inr j\<rparr>"

definition garbled_world :: world where
  "garbled_world =
     demo_world\<lparr>agent_roles :=
       map (\<lambda>r. r\<lparr>a_allowed_tools := Some (Malformed ''[read_file'')\<rparr>) (agent_roles demo_world)\<rparr>"

text \<open>Requests to the tasks route that carry no body.\<close>

definition tasks_query_request :: "string \<Rightarrow> string js \<Rightarrow> query_id \<Rightarrow> tasks_request" where
  "tasks_query_request meth task_name i =
     \<lparr>tr_method = meth, tr_query_task_name = task_name, tr_query_id = i,
      tr_body_id = Undefined, tr_body_task_name = Undefined, tr_body_task_prompt = Undefined\<rparr>"

section \<open>Notions for the export/import round trip\<close>

text \<open>The tool-list normalisation an import applies to an exported agent record.\<close>

definition normalise_tools :: "agent_entry \<Rightarrow> agent_entry" where
  "normalise_tools a = a\<lparr>ya_allowed_tools := Some (ensureDefaultTool (ya_allowed_tools a))\<rparr>"

text \<open>The \<open>provider:model\<close> key the import's model map files a model under.\<close>

definition key_of_model :: "model_with_provider \<Rightarrow> string" where
  "key_of_model m = model_key (unbind (mp_provider_name m)) (Val (m_model_name (mp_row m)))"

text \<open>
  A store the round trip is stated for. Its rows hold what the managers write:
  provider names are unique and non-empty, a provider's \<open>display_name\<close> is one
  \<open>createOrUpdateProvider\<close> keeps and its \<open>extra_info\<close> is not NULL; a model's name is
  not empty and its \<open>supports_reasoning\<close> is 0 or 1; role names are unique and
  non-empty and an agent's texts are not NULL, its \<open>reasoning_level\<close> and
  \<open>tool_choice\<close> not empty; task names are unique. Its references are intact: every
  model has an existing provider, and every agent role a NULL \<open>model_id\<close> or an existing
  model. And no two models share a \<open>provider:model\<close> key.
\<close>

definition round_trip_ready :: "world \<Rightarrow> bool" where
  "round_trip_ready w \<longleftrightarrow>
       distinct (map p_provider_name (model_providers w))
     \<and> list_all (\<lambda>p. p_provider_name p \<noteq> [] \<and> p_extra_info p \<noteq> None
                    \<and> safeDisplayName (Val (p_display_name p)) (Val (p_provider_name p))
                        = Val (p_display_name p))
          (model_providers w)
     \<and> list_all (\<lambda>m. m_model_name m \<noteq> []
                    \<and> (m_supports_reasoning m = 0 \<or> m_supports_reasoning m = 1)
                    \<and> list_ex (\<lambda>p. p_id p = m_provider_id m) (model_providers w))
          (models w)
     \<and> distinct (map (\<lambda>m. key_of_model (join_provider w m)) (models w))
     \<and> distinct (map a_agent_role (agent_roles w))
     \<and> list_all (\<lambda>a. a_agent_role a \<noteq> [] \<and> a_agent_description a \<noteq> None
                    \<and> a_default_developer_prompt a \<noteq> None \<and> a_default_user_prompt a \<noteq> None
                    \<and> a_reasoning_level a \<noteq> None \<and> a_reasoning_level a \<noteq> Some []
                    \<and> a_tool_choice a \<noteq> None \<and> a_tool_choice a \<noteq> Some []
                    \<and> (case a_model_id a of
                          None \<Rightarrow> True
                        | Some i \<Rightarrow> list_ex (\<lambda>m. m_id m = i) (models w)))
          (agent_roles w)
     \<and> distinct (map t_task_name (tasks w))"

text \<open>
  The same rows up to ids. A row of the second store is the row of the first with
  another key, and its reference goes to the row that corresponds to the one the first
  row refers to: a model's \<open>provider_id\<close> to the same provider, an agent role's
  \<open>model_id\<close> to the same model, or both are NULL. An agent role's \<open>allowed_tools\<close> is
  the JSON text of the list the first row stores (the empty list for no text), with the
  sentinel tool added when it was missing.
\<close>

definition same_provider :: "provider_row \<Rightarrow> provider_row \<Rightarrow> bool" where
  "same_provider p x \<longleftrightarrow> x = p\<lparr>p_id := p_id x\<rparr>"

definition same_model :: "world \<Rightarrow> world \<Rightarrow> model_row \<Rightarrow> model_row \<Rightarrow> bool" where
  "same_model w w2 m y \<longleftrightarrow>
       y = m\<lparr>m_id := m_id y, m_provider_id := m_provider_id y\<rparr>
     \<and> (\<exists>p x. find (\<lambda>r. p_id r = m_provider_id m) (model_providers w) = Some p
            \<and> find (\<lambda>r. p_id r = m_provider_id y) (model_providers w2) = Some x
            \<and> same_provider p x)"

definition stored_tools :: "agent_row \<Rightarrow> string list" where
  "stored_tools a = (case a_allowed_tools a of Some (ToolsJson ts) \<Rightarrow> ts | _ \<Rightarrow> [])"

definition same_agent :: "world \<Rightarrow> world \<Rightarrow> agent_row \<Rightarrow> agent_row \<Rightarrow> bool" where
  "same_agent w w2 a z \<longleftrightarrow>
       z = a\<lparr>a_id := a_id z, a_model_id := a_model_id z,
             a_allowed_tools :=
               Some (JSON_stringify (ensureDefaultTool (Some (stored_tools a))))\<rparr>
     \<and> (case (a_model_id a, a_model_id z) of
          (None, None) \<Rightarrow> True
        | (Some i, Some j) \<Rightarrow>
            (\<exists>m y. find (\<lambda>r. m_id r = i) (models w) = Some m
               \<and> find (\<lambda>r. m_id r = j) (models w2) = Some y
               \<and> same_model w w2 m y)
        | _ \<Rightarrow> False)"

definition same_task :: "task_row \<Rightarrow> task_row \<Rightarrow> bool" where
  "same_task t x \<longleftrightarrow> x = t\<lparr>t_id := t_id x\<rparr>"

text \<open>
  The second store holds the rows of the first, up to ids: row for row, the tables of
  the second are the lists the export reads from the first.
\<close>

definition same_rows :: "world \<Rightarrow> world \<Rightarrow> bool" where
  "same_rows w w2 \<longleftrightarrow>
       list_all2 same_provider (listProviders w) (model_providers w2)
     \<and> list_all2 (same_model w w2) (map mp_row (listModelsWithProviderInfo w)) (models w2)
     \<and> list_all2 (same_agent w w2) (listAgentTypes w) (agent_roles w2)
     \<and> list_all2 same_task (getAllTasks w) (tasks w2)"

text \<open>
  Two template folders hold the same records: the four files have the same numbers of
  records, the same sets of provider, model and task records, and the same set of
  agent records once the first folder's tool lists are normalised.
\<close>

definition same_records :: "template_files \<Rightarrow> template_files \<Rightarrow> bool" where
  "same_records f1 f2 \<longleftrightarrow>
       set (loadYAML (providers_yaml f2)) = set (loadYAML (providers_yaml f1))
     \<and> length (loadYAML (providers_yaml f2)) = length (loadYAML (providers_yaml f1))
     \<and> set (loadYAML (models_yaml f2)) = set (loadYAML (models_yaml f1))
     \<and> length (loadYAML (models_yaml f2)) = length (loadYAML (models_yaml f1))
     \<and> set (loadYAML (agents_yaml f2)) = normalise_tools ` set (loadYAML (agents_yaml f1))
     \<and> length (loadYAML (agents_yaml f2)) = length (loadYAML (agents_yaml f1))
     \<and> set (loadYAML (tasks_yaml f2)) = set (loadYAML (tasks_yaml f1))
     \<and> length (loadYAML (tasks_yaml f2)) = length (loadYAML (tasks_yaml f1))"

text \<open>
  An agent record the agents loop takes without a conflict on a store \<open>w\<close> with the
  model map \<open>mm\<close>: its role and texts are strings, role, \<open>reasoning_level\<close> and
  \<open>tool_choice\<close> not empty, and it names no model, or one the map has under the names
  the store joins it with.
\<close>

definition agent_entry_ok :: "world \<Rightarrow> (string \<rightharpoonup> int) \<Rightarrow> agent_entry \<Rightarrow> bool" where
  "agent_entry_ok w mm e \<longleftrightarrow>
     (\<exists>r d dp up l c ts. ya_agent_role e = Val r \<and> r \<noteq> []
        \<and> ya_agent_description e = Val d \<and> ya_default_developer_prompt e = Val dp
        \<and> ya_default_user_prompt e = Val up
        \<and> ya_reasoning_level e = Val l \<and> l \<noteq> [] \<and> ya_tool_choice e = Val c \<and> c \<noteq> []
        \<and> ya_allowed_tools e = Some ts)
     \<and> ((ya_provider_name e = Null \<and> ya_model_name e = Null)
        \<or> (\<exists>pn mn i m. ya_provider_name e = Val pn \<and> ya_model_name e = Val mn
              \<and> pn \<noteq> [] \<and> mn \<noteq> [] \<and> mm (model_key (Val pn) (Val mn)) = Some i
              \<and> find (\<lambda>m. m_id m = i) (models w) = Some m \<and> m_model_name m = mn
              \<and> mp_provider_name (join_provider w m) = Some pn))"

text \<open>
  A store the managers reach: a provider is created, then a model of it, then the
  provider is deleted.
\<close>

definition dangling_world :: world where
  "dangling_world =
     (case createOrUpdateProvider
             \<lparr>cp_id = Undefined, cp_provider_name = Val ''openai'',
              cp_display_name = Val ''OpenAI'', cp_extra_info = Undefined\<rparr> empty_world of
        Inl e \<Rightarrow> empty_world
      | Inr wa \<Rightarrow>
          (case createOrUpdateModel
                  \<lparr>cm_id = Undefined, cm_provider_id = Val 1, cm_model_name = Val ''gpt-4'',
                   cm_display_name = Undefined, cm_extra_info = Undefined,
                   cm_supports_reasoning = Undefined\<rparr> wa of
             Inl e \<Rightarrow> wa
           | Inr wb \<Rightarrow> deleteProvider 1 wb))"

section \<open>Reading agent roles\<close>

lemma getAgentByType_None_iff:
  "getAgentByType K w = None \<longleftrightarrow> (\<forall>r \<in> set (agent_roles w). a_agent_role r \<noteq> K)"
  by (auto simp: getAgentByType_def find_None_iff)

lemma getAgentByType_Some_role:
  "getAgentByType K w = Some row \<Longrightarrow> a_agent_role row = K \<and> row \<in> set (agent_roles w)"
  by (auto simp: getAgentByType_def find_Some_iff)

lemma find_distinct_key:
  assumes "distinct (map f xs)" and "x \<in> set xs"
  shows "find (\<lambda>y. f y = f x) xs = Some x"
  using assms by (induction xs) (auto simp: image_iff)

text \<open>Role names are unique, so the key of a stored row finds that row.\<close>

lemma getAgentByType_stored:
  assumes "row \<in> set (agent_roles w)" and "distinct (map a_agent_role (agent_roles w))"
  shows "getAgentByType (a_agent_role row) w = Some row"
  unfolding getAgentByType_def using assms(2,1) by (rule find_distinct_key)

lemma get_single_found:
  assumes "K \<noteq> []" and "getAgentByType K w = Some row"
  shows "agent_roles_handler (get_agent_role K) w = (respond 200 (JsonAgent (agent_view w row)), w)"
  using assms by (simp add: agent_roles_handler_def get_agent_role_def)

lemma get_list_all:
  "agent_roles_handler get_agent_roles w =
     (respond 200 (JsonAgentTypes (map (agent_view w) (listAgentTypes w))), w)"
  by (simp add: agent_roles_handler_def get_agent_roles_def)

lemma set_listAgentTypes: "set (listAgentTypes w) = set (agent_roles w)"
  by (simp add: listAgentTypes_def)

lemma reasoning_level_blanked:
  assumes "a_model_id row = None \<or>
           (\<exists>m. referenced_model w row = Some m \<and> m_supports_reasoning m = 0)"
  shows "j_reasoning_level (agent_view w row) = Some []"
  using assms
  by (auto simp: agent_view_def normalizeReasoningLevel_def falsy_id_def referenced_model_def
        getModelById_def join_provider_def Let_def split: option.splits)

lemma reasoning_level_kept:
  assumes "referenced_model w row = Some m" and "m_supports_reasoning m \<noteq> 0" and "m_id m \<noteq> 0"
  shows "j_reasoning_level (agent_view w row) = a_reasoning_level row"
  using assms
  by (auto simp: agent_view_def normalizeReasoningLevel_def falsy_id_def referenced_model_def
        getModelById_def join_provider_def Let_def
        split: option.splits dest: find_Some_iff[THEN iffD1])

text \<open>
  Claim C8, as the code has it. \<open>GET /agent-roles?agent_role=K\<close> for a non-empty key
  \<open>K\<close> that no stored row has answers 200 with the blank agent: \<open>agent_role\<close> is \<open>K\<close>,
  \<open>allowed_tools\<close> is the one-element list of the sentinel tool, \<open>model_id\<close> is null,
  \<open>tool_choice\<close> is \<open>auto\<close>, and the remaining fields are empty strings. The store is
  left as it was.
\<close>

theorem C8_blank_agent_for_unknown_role:
  assumes "K \<noteq> []" and "\<forall>r \<in> set (agent_roles w). a_agent_role r \<noteq> K"
  shows "agent_roles_handler (get_agent_role K) w =
    (respond 200 (JsonAgent
       \<lparr>j_id = None, j_agent_role = K, j_agent_description = Some [],
        j_allowed_tools = [''set_work_completed''],
        j_default_developer_prompt = Some [], j_default_user_prompt = Some [],
        j_model_id = None, j_model_name = [], j_reasoning_level = Some [],
        j_tool_choice = Some ''auto''\<rparr>), w)"
proof -
  have "getAgentByType K w = None"
    using assms(2) by (simp add: getAgentByType_None_iff)
  then show ?thesis
    using assms(1)
    by (simp add: agent_roles_handler_def get_agent_role_def makeBlankAgent_def DEFAULT_TOOL_def)
qed

theorem C8_blank_agent_witness:
  "fst (agent_roles_handler (get_agent_role ''nonexistent'') demo_world) =
    respond 200 (JsonAgent
       \<lparr>j_id = None, j_agent_role = ''nonexistent'', j_agent_description = Some [],
        j_allowed_tools = [''set_work_completed''],
        j_default_developer_prompt = Some [], j_default_user_prompt = Some [],
        j_model_id = None, j_model_name = [], j_reasoning_level = Some [],
        j_tool_choice = Some ''auto''\<rparr>)"
  using C8_blank_agent_for_unknown_role [of "''nonexistent''" demo_world]
  by (simp add: demo_world_def)

text \<open>
  The claim as the spec words it (every other field empty) fails on \<open>tool_choice\<close>:
  the blank agent for \<open>nonexistent\<close> carries \<open>auto\<close> there.
\<close>

theorem C8_tool_choice_counterexample:
  "map_option j_tool_choice
     (agent_of_body (res_body
        (fst (agent_roles_handler (get_agent_role ''nonexistent'') empty_world))))
   = Some (Some ''auto'')"
  by (simp add: agent_roles_handler_def get_agent_role_def getAgentByType_def empty_world_def
      respond_def makeBlankAgent_def)

text \<open>
  Claim C3. Let \<open>row\<close> be a stored agent role (role names are unique in the table, and
  the role is not the empty string, which the query cannot ask for). The single fetch
  \<open>GET /agent-roles?agent_role=\<close> for its role answers 200 with the view of that row,
  and the list \<open>GET /agent-roles\<close> answers 200 with the views of all rows, this one
  among them. In that view \<open>reasoning_level\<close> is the empty string when the row's
  \<open>model_id\<close> is null or the model it refers to has \<open>supports_reasoning\<close> false,
  whatever the row stores; it is the stored value when the model's
  \<open>supports_reasoning\<close> is true (model ids are never 0: they come from
  \<open>AUTOINCREMENT\<close>).
\<close>

theorem C3_reasoning_level_on_read:
  assumes "row \<in> set (agent_roles w)"
    and "distinct (map a_agent_role (agent_roles w))"
    and "a_agent_role row \<noteq> []"
  shows "fst (agent_roles_handler (get_agent_role (a_agent_role row)) w)
              = respond 200 (JsonAgent (agent_view w row))
       \<and> fst (agent_roles_handler get_agent_roles w)
              = respond 200 (JsonAgentTypes (map (agent_view w) (listAgentTypes w)))
       \<and> row \<in> set (listAgentTypes w)
       \<and> (a_model_id row = None \<or>
            (\<exists>m. referenced_model w row = Some m \<and> m_supports_reasoning m = 0)
           \<longrightarrow> j_reasoning_level (agent_view w row) = Some [])
       \<and> (\<forall>m. referenced_model w row = Some m \<and> m_supports_reasoning m \<noteq> 0 \<and> m_id m \<noteq> 0
           \<longrightarrow> j_reasoning_level (agent_view w row) = a_reasoning_level row)"
proof -
  have found: "getAgentByType (a_agent_role row) w = Some row"
    using assms(1,2) by (rule getAgentByType_stored)
  have single: "fst (agent_roles_handler (get_agent_role (a_agent_role row)) w)
              = respond 200 (JsonAgent (agent_view w row))"
    using get_single_found [OF assms(3) found] by simp
  have listed: "fst (agent_roles_handler get_agent_roles w)
              = respond 200 (JsonAgentTypes (map (agent_view w) (listAgentTypes w)))"
    by (simp add: get_list_all)
  have mem: "row \<in> set (listAgentTypes w)"
    using assms(1) by (simp add: set_listAgentTypes)
  have blank: "a_model_id row = None \<or>
            (\<exists>m. referenced_model w row = Some m \<and> m_supports_reasoning m = 0)
           \<longrightarrow> j_reasoning_level (agent_view w row) = Some []"
    using reasoning_level_blanked by blast
  have kept: "\<forall>m. referenced_model w row = Some m \<and> m_supports_reasoning m \<noteq> 0 \<and> m_id m \<noteq> 0
           \<longrightarrow> j_reasoning_level (agent_view w row) = a_reasoning_level row"
    using reasoning_level_kept by blast
  from single listed mem blank kept show ?thesis by blast
qed

text \<open>
  On \<open>demo_world\<close>: \<open>planner\<close> stores \<open>low\<close> and its model supports reasoning, so both
  reads return \<open>low\<close>; \<open>coder\<close> stores \<open>high\<close> on a model that does not, and
  \<open>reviewer\<close> stores \<open>medium\<close> with no model, so both reads return the empty string.
\<close>

theorem C3_reasoning_level_witness:
  "map_option j_reasoning_level
     (agent_of_body (res_body (fst (agent_roles_handler (get_agent_role ''planner'') demo_world))))
     = Some (Some ''low'')
   \<and> map_option j_reasoning_level
     (agent_of_body (res_body (fst (agent_roles_handler (get_agent_role ''coder'') demo_world))))
     = Some (Some [])
   \<and> map_option j_reasoning_level
     (agent_of_body (res_body (fst (agent_roles_handler (get_agent_role ''reviewer'') demo_world))))
     = Some (Some [])
   \<and> map_option (map (\<lambda>a. (j_agent_role a, j_reasoning_level a)))
       (agents_of_body (res_body (fst (agent_roles_handler get_agent_roles demo_world))))
     = Some [(''coder'', Some []), (''planner'', Some ''low''), (''reviewer'', Some [])]"
proof -
  define coder where "coder = agent_roles demo_world ! 0"
  define planner where "planner = agent_roles demo_world ! 1"
  define reviewer where "reviewer = agent_roles demo_world ! 2"
  have roles: "distinct (map a_agent_role (agent_roles demo_world))"
    by (simp add: demo_world_def)
  have c: "coder \<in> set (agent_roles demo_world)" "a_agent_role coder = ''coder''"
      "a_model_id coder = Some 1" "a_reasoning_level coder = Some ''high''"
    and p: "planner \<in> set (agent_roles demo_world)" "a_agent_role planner = ''planner''"
      "a_model_id planner = Some 2" "a_reasoning_level planner = Some ''low''"
    and r: "reviewer \<in> set (agent_roles demo_world)" "a_agent_role reviewer = ''reviewer''"
      "a_model_id reviewer = None" "a_reasoning_level reviewer = Some ''medium''"
    by (simp_all add: coder_def planner_def reviewer_def demo_world_def)
  have ne: "a_agent_role coder \<noteq> []" "a_agent_role planner \<noteq> []" "a_agent_role reviewer \<noteq> []"
    by (simp_all add: c(2) p(2) r(2))
  have mc: "\<exists>m. referenced_model demo_world coder = Some m \<and> m_supports_reasoning m = 0"
    by (simp add: referenced_model_def c(3)) (simp add: demo_world_def)
  have mp: "\<exists>m. referenced_model demo_world planner = Some m \<and> m_supports_reasoning m \<noteq> 0
               \<and> m_id m \<noteq> 0"
    by (simp add: referenced_model_def p(3)) (simp add: demo_world_def)
  note C = C3_reasoning_level_on_read [OF c(1) roles ne(1)]
  note P = C3_reasoning_level_on_read [OF p(1) roles ne(2)]
  note R = C3_reasoning_level_on_read [OF r(1) roles ne(3)]
  have vc: "j_reasoning_level (agent_view demo_world coder) = Some []"
    using C mc by blast
  have "j_reasoning_level (agent_view demo_world planner) = a_reasoning_level planner"
    using P mp by blast
  then have vp: "j_reasoning_level (agent_view demo_world planner) = Some ''low''"
    by (simp add: p(4))
  have vr: "j_reasoning_level (agent_view demo_world reviewer) = Some []"
    using R r(3) by blast
  have sc: "fst (agent_roles_handler (get_agent_role ''coder'') demo_world)
      = respond 200 (JsonAgent (agent_view demo_world coder))"
    using C unfolding c(2) by (rule conjunct1)
  have sp: "fst (agent_roles_handler (get_agent_role ''planner'') demo_world)
      = respond 200 (JsonAgent (agent_view demo_world planner))"
    using P unfolding p(2) by (rule conjunct1)
  have sr: "fst (agent_roles_handler (get_agent_role ''reviewer'') demo_world)
      = respond 200 (JsonAgent (agent_view demo_world reviewer))"
    using R unfolding r(2) by (rule conjunct1)
  have rows: "listAgentTypes demo_world = [coder, planner, reviewer]"
    by (simp add: listAgentTypes_def coder_def planner_def reviewer_def demo_world_def)
  have names: "j_agent_role (agent_view demo_world x) = a_agent_role x" for x
    by (simp add: agent_view_def Let_def)
  have "fst (agent_roles_handler get_agent_roles demo_world)
      = respond 200 (JsonAgentTypes (map (agent_view demo_world) (listAgentTypes demo_world)))"
    using C by (rule conjunct2 [THEN conjunct1])
  then have sl: "fst (agent_roles_handler get_agent_roles demo_world)
      = respond 200 (JsonAgentTypes (map (agent_view demo_world) [coder, planner, reviewer]))"
    unfolding rows .
  show ?thesis
    unfolding sc sp sr sl
    by (simp add: respond_def vc vp vr names c(2) p(2) r(2))
qed

section \<open>Writing agent roles\<close>


lemma find_map_upd:
  assumes "find P xs = Some e" and "\<And>r. P (f r) = P r"
  shows "find P (map (\<lambda>r. if P r then f r else r) xs) = Some (f e)"
  using assms by (induction xs) (auto split: if_splits)

lemma find_append_new:
  assumes "find P xs = None" and "P x"
  shows "find P (xs @ [x]) = Some x"
  using assms by (induction xs) (auto split: if_splits)

text \<open>The two ways \<open>setAgentDetails\<close> returns: the update and the insert.\<close>

lemma setAgentDetails_cases:
  assumes "setAgentDetails d w = Inr w'"
  obtains (update) role e where "d_agent_role d = Val role" "role \<noteq> []"
      "find (\<lambda>r. a_agent_role r = role) (agent_roles w) = Some e" "a_id e \<noteq> 0"
      "w' = w\<lparr>agent_roles := map (\<lambda>r. if a_agent_role r = role
           then update_agent_row d (JSON_stringify (ensureDefaultTool (d_allowed_tools d))) r else r)
           (agent_roles w)\<rparr>"
  | (insert) role where "d_agent_role d = Val role" "role \<noteq> []"
      "find (\<lambda>r. a_agent_role r = role) (agent_roles w) = None"
      "w' = w\<lparr>agent_roles := agent_roles w @
             [insert_agent_row (next_id (agent_roles_seq w) (map a_id (agent_roles w))) role d
                (JSON_stringify (ensureDefaultTool (d_allowed_tools d)))],
            agent_roles_seq := next_id (agent_roles_seq w) (map a_id (agent_roles w))\<rparr>"
proof (cases "d_agent_role d")
  case (Val role)
  show ?thesis
  proof (cases "find (\<lambda>r. a_agent_role r = role) (agent_roles w)")
    case None
    with Val assms insert show ?thesis
      by (simp add: setAgentDetails_def Let_def split: if_splits)
  next
    case (Some e)
    with Val assms update show ?thesis
      by (simp add: setAgentDetails_def Let_def split: if_splits)
  qed
qed (use assms in \<open>simp_all add: setAgentDetails_def\<close>)

text \<open>What a row holds once \<open>setAgentDetails\<close> has written \<open>d\<close> to it.\<close>

lemma update_agent_row_fields:
  "a_agent_role (update_agent_row d t r) = a_agent_role r"
  "a_id (update_agent_row d t r) = a_id r"
  "a_allowed_tools (update_agent_row d t r) = Some t"
  "a_model_id (update_agent_row d t r) = bind (d_model_id d)"
  "a_reasoning_level (update_agent_row d t r) = Some (or_str (d_reasoning_level d) ''medium'')"
  "a_tool_choice (update_agent_row d t r) = Some (or_str (d_tool_choice d) ''auto'')"
  by (simp_all add: update_agent_row_def)

lemma insert_agent_row_fields:
  "a_agent_role (insert_agent_row i role d t) = role"
  "a_id (insert_agent_row i role d t) = i"
  "a_allowed_tools (insert_agent_row i role d t) = Some t"
  "a_model_id (insert_agent_row i role d t) = bind (d_model_id d)"
  "a_reasoning_level (insert_agent_row i role d t) = Some (or_str (d_reasoning_level d) ''medium'')"
  "a_tool_choice (insert_agent_row i role d t) = Some (or_str (d_tool_choice d) ''auto'')"
  by (simp_all add: insert_agent_row_def)

lemma setAgentDetails_found:
  assumes "setAgentDetails d w = Inr w'"
  shows "\<exists>role row. d_agent_role d = Val role \<and> role \<noteq> [] \<and> getAgentByType role w' = Some row
           \<and> a_agent_role row = role \<and> written d row"
  using assms
proof (cases rule: setAgentDetails_cases)
  case (update role e)
  let ?f = "update_agent_row d (JSON_stringify (ensureDefaultTool (d_allowed_tools d)))"
  have "find (\<lambda>r. a_agent_role r = role)
          (map (\<lambda>r. if a_agent_role r = role then ?f r else r) (agent_roles w)) = Some (?f e)"
    by (rule find_map_upd [OF update(3)]) (simp add: update_agent_row_fields)
  moreover have "a_agent_role e = role"
    using update(3) by (auto simp: find_Some_iff)
  ultimately show ?thesis
    using update(1,2,5) by (simp add: getAgentByType_def written_def update_agent_row_fields)
next
  case (insert role)
  then show ?thesis
    by (simp add: getAgentByType_def written_def find_append_new insert_agent_row_fields)
qed

lemma setAgentDetails_rows:
  assumes "setAgentDetails d w = Inr w'" and "d_agent_role d = Val role"
    and "r \<in> set (agent_roles w')" and "a_agent_role r = role"
  shows "written d r"
  using assms(1)
proof (cases rule: setAgentDetails_cases)
  case (update role' e)
  let ?f = "update_agent_row d (JSON_stringify (ensureDefaultTool (d_allowed_tools d)))"
  have same: "role' = role" using update(1) assms(2) by simp
  have "agent_roles w' = map (\<lambda>r. if a_agent_role r = role then ?f r else r) (agent_roles w)"
    using update(5) same by simp
  then have "r \<in> (\<lambda>r. if a_agent_role r = role then ?f r else r) ` set (agent_roles w)"
    using assms(3) by (simp only: set_map)
  then obtain r0 where r0: "r = (if a_agent_role r0 = role then ?f r0 else r0)"
    by (rule imageE)
  show ?thesis
  proof (cases "a_agent_role r0 = role")
    case True
    then have "r = ?f r0" using r0 by simp
    then show ?thesis by (simp add: written_def update_agent_row_fields)
  next
    case False
    then have "r = r0" using r0 by simp
    with False assms(4) show ?thesis by simp
  qed
next
  case (insert role')
  have same: "role' = role" using insert(1) assms(2) by simp
  have old: "\<forall>x \<in> set (agent_roles w). a_agent_role x \<noteq> role"
    using insert(3) same by (auto simp: find_None_iff)
  have "set (agent_roles w') = set (agent_roles w) \<union>
      {insert_agent_row (next_id (agent_roles_seq w) (map a_id (agent_roles w))) role d
         (JSON_stringify (ensureDefaultTool (d_allowed_tools d)))}"
    using insert(4) same by simp
  with assms(3,4) old
  have "r = insert_agent_row (next_id (agent_roles_seq w) (map a_id (agent_roles w))) role d
         (JSON_stringify (ensureDefaultTool (d_allowed_tools d)))"
    by blast
  then show ?thesis by (simp add: written_def insert_agent_row_fields)
qed



lemma getAgentByType_console [simp]:
  "getAgentByType K (console_log l w) = getAgentByType K w"
  by (simp add: getAgentByType_def console_log_def)







lemma or_str_nonempty: "d \<noteq> [] \<Longrightarrow> or_str x d \<noteq> []"
  by (cases x) auto

lemma or_str_falsy: "\<not> truthy_str x \<Longrightarrow> or_str x d = d"
  by (cases x) auto

lemma setAgentDetails_ok:
  assumes "d_agent_role d = Val role" and "role \<noteq> []"
    and "\<forall>e \<in> set (agent_roles w). a_id e \<noteq> 0"
  shows "\<exists>w'. setAgentDetails d w = Inr w'"
proof (cases "find (\<lambda>r. a_agent_role r = role) (agent_roles w)")
  case None
  with assms show ?thesis by (simp add: setAgentDetails_def Let_def)
next
  case (Some e)
  then have "e \<in> set (agent_roles w)" by (auto simp: find_Some_iff)
  with assms(3) have "a_id e \<noteq> 0" by blast
  with Some assms(1,2) show ?thesis by (simp add: setAgentDetails_def Let_def)
qed

lemma upsert_agent_Inr:
  assumes "truthy_str (d_agent_role b)"
    and "setAgentDetails (b\<lparr>d_allowed_tools := Some (ensureDefaultTool (d_allowed_tools b))\<rparr>) w = Inr w'"
  shows "upsert_agent b required ok label failed w = (respond 200 (JsonMessage ok), w')"
  using assms by (simp add: upsert_agent_def Let_def)

lemma put_handler:
  "agent_roles_handler (upsert_agent_request ''PUT'' d) w =
     upsert_agent d ''agent_role is required for update.'' ''Agent role updated successfully.''
          ''PUT /api/agent-roles error:'' ''Error updating agent role.'' w"
  by (simp add: agent_roles_handler_def upsert_agent_request_def)

lemma written_levels:
  assumes "setAgentDetails d w = Inr w'" and "d_agent_role d = Val role"
  shows "(\<exists>r \<in> set (agent_roles w'). a_agent_role r = role)
     \<and> (\<forall>r \<in> set (agent_roles w'). a_agent_role r = role \<longrightarrow>
           a_reasoning_level r = Some (or_str (d_reasoning_level d) ''medium'')
         \<and> a_tool_choice r = Some (or_str (d_tool_choice d) ''auto'')
         \<and> a_reasoning_level r \<noteq> None \<and> a_reasoning_level r \<noteq> Some []
         \<and> a_tool_choice r \<noteq> None \<and> a_tool_choice r \<noteq> Some []
         \<and> (\<not> truthy_str (d_reasoning_level d) \<longrightarrow> a_reasoning_level r = Some ''medium'')
         \<and> (\<not> truthy_str (d_tool_choice d) \<longrightarrow> a_tool_choice r = Some ''auto''))"
proof (intro conjI ballI impI)
  from setAgentDetails_found [OF assms(1)] assms(2)
  obtain row where "getAgentByType role w' = Some row" by auto
  then show "\<exists>r \<in> set (agent_roles w'). a_agent_role r = role"
    using getAgentByType_Some_role by blast
next
  fix r assume r: "r \<in> set (agent_roles w')" "a_agent_role r = role"
  have wr: "written d r" by (rule setAgentDetails_rows [OF assms r])
  show "a_reasoning_level r = Some (or_str (d_reasoning_level d) ''medium'')"
       "a_tool_choice r = Some (or_str (d_tool_choice d) ''auto'')"
       "a_reasoning_level r \<noteq> None" "a_tool_choice r \<noteq> None"
    using wr by (simp_all add: written_def)
  show "a_reasoning_level r \<noteq> Some []" "a_tool_choice r \<noteq> Some []"
    using wr or_str_nonempty [of "''medium''"] or_str_nonempty [of "''auto''"]
    by (simp_all add: written_def)
  { assume "\<not> truthy_str (d_reasoning_level d)"
    then show "a_reasoning_level r = Some ''medium''"
      using wr by (simp add: written_def or_str_falsy) }
  { assume "\<not> truthy_str (d_tool_choice d)"
    then show "a_tool_choice r = Some ''auto''"
      using wr by (simp add: written_def or_str_falsy) }
qed

lemma write_back_blanked:
  assumes "K \<noteq> []" and "getAgentByType K w0 = Some row0"
    and "\<forall>e \<in> set (agent_roles w0). a_id e \<noteq> 0"
    and "j_reasoning_level (agent_view w0 row0) = Some []"
  shows "\<exists>w1 row1. agent_roles_handler (upsert_agent_request ''PUT'' (write_back (agent_view w0 row0))) w0
            = (respond 200 (JsonMessage ''Agent role updated successfully.''), w1)
          \<and> getAgentByType K w1 = Some row1 \<and> a_reasoning_level row1 = Some ''medium''"
proof -
  let ?d = "write_back (agent_view w0 row0)"
  let ?d' = "?d\<lparr>d_allowed_tools := Some (ensureDefaultTool (d_allowed_tools ?d))\<rparr>"
  have roleK: "a_agent_role row0 = K" using assms(2) getAgentByType_Some_role by blast
  have role: "d_agent_role ?d' = Val K"
    by (simp add: write_back_def agent_view_def Let_def roleK)
  have lvl: "d_reasoning_level ?d' = Val []"
    using assms(4) by (simp add: write_back_def)
  from setAgentDetails_ok [OF role assms(1,3)]
  obtain w1 where w1: "setAgentDetails ?d' w0 = Inr w1" by blast
  from setAgentDetails_found [OF w1] role
  obtain row1 where row1: "getAgentByType K w1 = Some row1" "written ?d' row1" by auto
  have "a_reasoning_level row1 = Some ''medium''"
    using row1(2) lvl by (simp add: written_def)
  moreover have "truthy_str (d_agent_role ?d)"
    using assms(1) by (simp add: write_back_def agent_view_def Let_def roleK)
  then have "agent_roles_handler (upsert_agent_request ''PUT'' ?d) w0
            = (respond 200 (JsonMessage ''Agent role updated successfully.''), w1)"
    using w1 by (simp add: put_handler upsert_agent_Inr)
  ultimately show ?thesis using row1(1) by blast
qed

text \<open>
  Claim C10. Every row \<open>setAgentDetails\<close> writes (there is one) has a
  \<open>reasoning_level\<close> and a \<open>tool_choice\<close> that are neither NULL nor empty: the
  value given, or \<open>medium\<close> and \<open>auto\<close> when the value given is falsy. So when a read
  blanks the \<open>reasoning_level\<close> of a stored role, sending the fields of that read back
  with \<open>PUT /agent-roles\<close> answers 200 and leaves \<open>medium\<close> in the row, whatever
  it held before.
\<close>

theorem C10_levels_never_empty:
  assumes "setAgentDetails d w = Inr w'" and "d_agent_role d = Val role"
  shows "(\<exists>r \<in> set (agent_roles w'). a_agent_role r = role)
     \<and> (\<forall>r \<in> set (agent_roles w'). a_agent_role r = role \<longrightarrow>
           a_reasoning_level r = Some (or_str (d_reasoning_level d) ''medium'')
         \<and> a_tool_choice r = Some (or_str (d_tool_choice d) ''auto'')
         \<and> a_reasoning_level r \<noteq> None \<and> a_reasoning_level r \<noteq> Some []
         \<and> a_tool_choice r \<noteq> None \<and> a_tool_choice r \<noteq> Some []
         \<and> (\<not> truthy_str (d_reasoning_level d) \<longrightarrow> a_reasoning_level r = Some ''medium'')
         \<and> (\<not> truthy_str (d_tool_choice d) \<longrightarrow> a_tool_choice r = Some ''auto''))
     \<and> (K \<noteq> [] \<and> getAgentByType K w0 = Some row0
          \<and> (\<forall>e \<in> set (agent_roles w0). a_id e \<noteq> 0)
          \<and> j_reasoning_level (agent_view w0 row0) = Some []
         \<longrightarrow> (\<exists>w1 row1.
                agent_roles_handler
                  (upsert_agent_request ''PUT'' (write_back (agent_view w0 row0))) w0
                  = (respond 200 (JsonMessage ''Agent role updated successfully.''), w1)
              \<and> getAgentByType K w1 = Some row1
              \<and> a_reasoning_level row1 = Some ''medium''))"
  using written_levels [OF assms] write_back_blanked [of K w0 row0] by blast

theorem C10_levels_witness:
  "\<exists>w' w1 row1.
      setAgentDetails tester_details demo_world = Inr w'
    \<and> map (\<lambda>r. (a_reasoning_level r, a_tool_choice r))
         (filter (\<lambda>r. a_agent_role r = ''tester'') (agent_roles w'))
       = [(Some ''medium'', Some ''auto'')]
    \<and> map_option a_reasoning_level (getAgentByType ''coder'' demo_world) = Some (Some ''high'')
    \<and> agent_roles_handler
         (upsert_agent_request ''PUT'' (write_back (agent_view demo_world (hd (agent_roles demo_world)))))
         demo_world
       = (respond 200 (JsonMessage ''Agent role updated successfully.''), w1)
    \<and> getAgentByType ''coder'' w1 = Some row1
    \<and> a_reasoning_level row1 = Some ''medium''"
proof -
  let ?coder = "hd (agent_roles demo_world)"
  have role: "d_agent_role tester_details = Val ''tester''"
    by (simp add: tester_details_def empty_details_def)
  have w': "setAgentDetails tester_details demo_world =
      Inr (demo_world\<lparr>agent_roles := agent_roles demo_world @
             [insert_agent_row 4 ''tester'' tester_details (ToolsJson [''set_work_completed''])],
            agent_roles_seq := 4\<rparr>)"
    by (simp add: setAgentDetails_def Let_def tester_details_def empty_details_def demo_world_def
        next_id_def ensureDefaultTool_def DEFAULT_TOOL_def JSON_stringify_def)
  have rows: "map (\<lambda>r. (a_reasoning_level r, a_tool_choice r))
         (filter (\<lambda>r. a_agent_role r = ''tester'')
            (agent_roles (demo_world\<lparr>agent_roles := agent_roles demo_world @
             [insert_agent_row 4 ''tester'' tester_details (ToolsJson [''set_work_completed''])],
            agent_roles_seq := 4\<rparr>)))
       = [(Some ''medium'', Some ''auto'')]"
    by (simp add: demo_world_def insert_agent_row_def tester_details_def empty_details_def)
  have found: "getAgentByType ''coder'' demo_world = Some ?coder"
    by (simp add: demo_world_def getAgentByType_def)
  have high: "map_option a_reasoning_level (getAgentByType ''coder'' demo_world) = Some (Some ''high'')"
    by (simp add: demo_world_def getAgentByType_def)
  have ids: "\<forall>e \<in> set (agent_roles demo_world). a_id e \<noteq> 0"
    by (simp add: demo_world_def)
  have blank: "j_reasoning_level (agent_view demo_world ?coder) = Some []"
    by (rule reasoning_level_blanked) (simp add: demo_world_def referenced_model_def)
  from C10_levels_never_empty [OF w' role, of "''coder''" demo_world ?coder] found ids blank
  obtain w1 row1 where
    put: "agent_roles_handler
         (upsert_agent_request ''PUT'' (write_back (agent_view demo_world ?coder))) demo_world
       = (respond 200 (JsonMessage ''Agent role updated successfully.''), w1)"
    and got: "getAgentByType ''coder'' w1 = Some row1"
    and med: "a_reasoning_level row1 = Some ''medium''"
    by auto
  show ?thesis
    by (intro exI conjI) (rule w', rule rows, rule high, rule put, rule got, rule med)
qed

section \<open>Upserts by id, and what the routes answer\<close>

lemma list_ex_no: "(\<forall>r \<in> set xs. f r \<noteq> i) \<Longrightarrow> \<not> list_ex (\<lambda>r. f r = i) xs"
  by (simp add: list_ex_iff)

lemma createOrUpdateModel_unknown_id:
  assumes "cm_id a = Val i" and "i \<noteq> 0" and "\<forall>r \<in> set (models w). m_id r \<noteq> i"
  shows "createOrUpdateModel a w = Inr w"
  using assms(1,2) list_ex_no [OF assms(3)]
  by (simp add: createOrUpdateModel_def Let_def)

lemma createOrUpdateProvider_unknown_id:
  assumes "cp_id a = Val i" and "i \<noteq> 0" and "\<forall>r \<in> set (model_providers w). p_id r \<noteq> i"
  shows "createOrUpdateProvider a w = Inr w"
  using assms(1,2) list_ex_no [OF assms(3)]
  by (simp add: createOrUpdateProvider_def Let_def)

lemma models_handler_upsert:
  assumes "meth = ''POST'' \<or> meth = ''PUT''"
    and "truthy_num (cm_provider_id b)" and "truthy_str (cm_model_name b)"
  shows "models_handler (models_upsert_request meth b) w =
     (case createOrUpdateModel (b\<lparr>cm_display_name := Undefined\<rparr>) w of
        Inr w' \<Rightarrow> (respond 200 (JsonMessage ''Model created/updated successfully.''), w')
      | Inl err \<Rightarrow> (respond 500 (JsonError ''Error updating model.''),
                   console_log (ConsoleError ''Error updating model:'' err) w))"
  using assms by (auto simp: models_handler_def models_upsert_request_def)

lemma providers_handler_upsert:
  assumes "meth = ''POST'' \<or> meth = ''PUT''" and "truthy_str (cp_provider_name b)"
  shows "model_providers_handler (providers_upsert_request meth b) w =
     (case createOrUpdateProvider (b\<lparr>cp_display_name := Undefined\<rparr>) w of
        Inr w' \<Rightarrow> (respond 200 (JsonMessage ''Provider created/updated successfully.''), w')
      | Inl err \<Rightarrow> (respond 500 (JsonError ''Error updating model provider.''),
                   console_log (ConsoleError ''Error updating provider:'' err) w))"
  using assms by (auto simp: model_providers_handler_def providers_upsert_request_def)

text \<open>
  Claim C9. \<open>createOrUpdateModel\<close> and \<open>createOrUpdateProvider\<close> called with an \<open>id\<close>
  (a number other than 0, so that \<open>if (id)\<close> holds) that no row has return without
  error and leave the whole store as it was: the \<open>UPDATE\<close> matches no row and nothing
  is inserted. \<open>POST\<close> and \<open>PUT\<close> on \<open>/models\<close> and \<open>/model-providers\<close> with such a
  body (one that passes the route's check of its required fields) answer 200 with the
  created/updated message.
\<close>

theorem C9_update_of_unknown_id_is_silent:
  assumes "i \<noteq> 0"
  shows "(cm_id a = Val i \<and> (\<forall>r \<in> set (models w). m_id r \<noteq> i)
            \<longrightarrow> createOrUpdateModel a w = Inr w)
     \<and> (cp_id p = Val i \<and> (\<forall>r \<in> set (model_providers w). p_id r \<noteq> i)
            \<longrightarrow> createOrUpdateProvider p w = Inr w)
     \<and> (cm_id a = Val i \<and> (\<forall>r \<in> set (models w). m_id r \<noteq> i)
          \<and> (meth = ''POST'' \<or> meth = ''PUT'')
          \<and> truthy_num (cm_provider_id a) \<and> truthy_str (cm_model_name a)
            \<longrightarrow> models_handler (models_upsert_request meth a) w
                 = (respond 200 (JsonMessage ''Model created/updated successfully.''), w))
     \<and> (cp_id p = Val i \<and> (\<forall>r \<in> set (model_providers w). p_id r \<noteq> i)
          \<and> (meth = ''POST'' \<or> meth = ''PUT'') \<and> truthy_str (cp_provider_name p)
            \<longrightarrow> model_providers_handler (providers_upsert_request meth p) w
                 = (respond 200 (JsonMessage ''Provider created/updated successfully.''), w))"
proof (intro conjI impI)
  assume "cm_id a = Val i \<and> (\<forall>r \<in> set (models w). m_id r \<noteq> i)"
  then show "createOrUpdateModel a w = Inr w"
    using assms createOrUpdateModel_unknown_id by blast
next
  assume "cp_id p = Val i \<and> (\<forall>r \<in> set (model_providers w). p_id r \<noteq> i)"
  then show "createOrUpdateProvider p w = Inr w"
    using assms createOrUpdateProvider_unknown_id by blast
next
  assume h: "cm_id a = Val i \<and> (\<forall>r \<in> set (models w). m_id r \<noteq> i)
          \<and> (meth = ''POST'' \<or> meth = ''PUT'')
          \<and> truthy_num (cm_provider_id a) \<and> truthy_str (cm_model_name a)"
  have "createOrUpdateModel (a\<lparr>cm_display_name := Undefined\<rparr>) w = Inr w"
    by (rule createOrUpdateModel_unknown_id [of _ i]) (use h assms in simp_all)
  with h show "models_handler (models_upsert_request meth a) w
                 = (respond 200 (JsonMessage ''Model created/updated successfully.''), w)"
    by (simp add: models_handler_upsert)
next
  assume h: "cp_id p = Val i \<and> (\<forall>r \<in> set (model_providers w). p_id r \<noteq> i)
          \<and> (meth = ''POST'' \<or> meth = ''PUT'') \<and> truthy_str (cp_provider_name p)"
  have "createOrUpdateProvider (p\<lparr>cp_display_name := Undefined\<rparr>) w = Inr w"
    by (rule createOrUpdateProvider_unknown_id [of _ i]) (use h assms in simp_all)
  with h show "model_providers_handler (providers_upsert_request meth p) w
                 = (respond 200 (JsonMessage ''Provider created/updated successfully.''), w)"
    by (simp add: providers_handler_upsert)
qed

theorem C9_unknown_id_witness:
  "createOrUpdateModel ghost_model demo_world = Inr demo_world
   \<and> createOrUpdateProvider ghost_provider demo_world = Inr demo_world
   \<and> models_handler (models_upsert_request ''PUT'' ghost_model) demo_world
        = (respond 200 (JsonMessage ''Model created/updated successfully.''), demo_world)
   \<and> model_providers_handler (providers_upsert_request ''PUT'' ghost_provider) demo_world
        = (respond 200 (JsonMessage ''Provider created/updated successfully.''), demo_world)"
proof -
  have m: "cm_id ghost_model = Val 99" "truthy_num (cm_provider_id ghost_model)"
      "truthy_str (cm_model_name ghost_model)"
    by (simp_all add: ghost_model_def empty_model_args_def)
  have p: "cp_id ghost_provider = Val 99" "truthy_str (cp_provider_name ghost_provider)"
    by (simp_all add: ghost_provider_def empty_provider_args_def)
  have rows: "\<forall>r \<in> set (models demo_world). m_id r \<noteq> 99"
      "\<forall>r \<in> set (model_providers demo_world). p_id r \<noteq> 99"
    by (simp_all add: demo_world_def)
  have "(99::int) \<noteq> 0" by simp
  from C9_update_of_unknown_id_is_silent [OF this, of ghost_model demo_world ghost_provider "''PUT''"]
    m p rows
  show ?thesis by simp
qed



section \<open>The import loops\<close>

lemma import_models_append:
  "import_models pm (xs @ ys) w =
     (case import_models pm xs w of Inl ew \<Rightarrow> Inl ew | Inr w' \<Rightarrow> import_models pm ys w')"
  by (induction xs arbitrary: w) (auto split: js.splits sum.splits)

lemma import_models_unknown_provider:
  assumes "map_get pm (ym_provider_name e) = Undefined"
  shows "import_models pm (e # es) w = Inl (provider_not_found (ym_provider_name e), w)"
  using assms by simp

lemma templates_console [simp]: "templates (console_log l w) = templates w"
  by (simp add: console_log_def)

lemma tables_console [simp]:
  "model_providers (console_log l w) = model_providers w"
  "models (console_log l w) = models w"
  "agent_roles (console_log l w) = agent_roles w"
  "tasks (console_log l w) = tasks w"
  by (simp_all add: console_log_def)

lemma import_providers_block_Inr:
  assumes "import_providers (loadYAML (providers_yaml (templates w1 name))) w1 = Inr w2"
  shows "import_providers_block name w1 =
     import_models_block name (provMap_of w2)
       (console_log (LogInsertedUpdated
          (length (loadYAML (providers_yaml (templates w1 name)))) ''providers'') w2)"
  using assms by (simp add: import_providers_block_def Let_def)

lemma import_models_block_Inr:
  assumes "import_models provMap (loadYAML (models_yaml (templates w3 name))) w3 = Inr w4"
  shows "import_models_block name provMap w3 =
     import_agents_block name (modelMap_of w4)
       (console_log (LogInsertedUpdated
          (length (loadYAML (models_yaml (templates w3 name)))) ''models'') w4)"
  using assms by (simp add: import_models_block_def Let_def)

lemma import_agents_block_Inr:
  assumes "import_agents modelMap (loadYAML (agents_yaml (templates w5 name))) w5 = Inr w6"
  shows "import_agents_block name modelMap w5 =
     import_tasks_block name
       (console_log (LogInsertedUpdated
          (length (loadYAML (agents_yaml (templates w5 name)))) ''agents'') w6)"
  using assms by (simp add: import_agents_block_def Let_def)

lemma importTemplate_block:
  "w1 = (if wipe then wipe_all w0 else w0) \<Longrightarrow>
     importTemplate name wipe w0 = import_providers_block name w1"
  by (simp only: importTemplate_def)

text \<open>
  Claim C5. When an entry of \<open>models.yaml\<close> names a provider that the provider
  name-to-id map lacks (or names none), the models loop throws
  \<open>Provider not found\<close> at that entry: the loop, the models block and the whole
  import return that error, with the store as the entries before the bad one left it.
  No later model row is written, and the agents and tasks files are not read.
\<close>

theorem C5_unknown_provider_aborts_models_loop:
  assumes absent: "map_get provMap (ym_provider_name bad) = Undefined"
    and yaml: "loadYAML (models_yaml (templates w3 name)) = pre @ bad # post"
    and pre: "import_models provMap pre w3 = Inr w4"
  shows "import_models provMap (pre @ bad # post) w3
            = Inl (provider_not_found (ym_provider_name bad), w4)
     \<and> import_models_block name provMap w3
            = Inl (provider_not_found (ym_provider_name bad), w4)
     \<and> (import_providers (loadYAML (providers_yaml (templates w1 name))) w1 = Inr w2
          \<and> provMap = provMap_of w2
          \<and> w3 = console_log (LogInsertedUpdated
                     (length (loadYAML (providers_yaml (templates w1 name)))) ''providers'') w2
          \<and> w1 = (if wipe then wipe_all w0 else w0)
         \<longrightarrow> importTemplate name wipe w0 = Inl (provider_not_found (ym_provider_name bad), w4))"
proof (intro conjI impI)
  show loop: "import_models provMap (pre @ bad # post) w3
            = Inl (provider_not_found (ym_provider_name bad), w4)"
    using absent pre by (simp add: import_models_append)
  show block: "import_models_block name provMap w3
            = Inl (provider_not_found (ym_provider_name bad), w4)"
    using loop yaml by (simp add: import_models_block_def del: import_models.simps)
  assume h: "import_providers (loadYAML (providers_yaml (templates w1 name))) w1 = Inr w2
          \<and> provMap = provMap_of w2
          \<and> w3 = console_log (LogInsertedUpdated
                     (length (loadYAML (providers_yaml (templates w1 name)))) ''providers'') w2
          \<and> w1 = (if wipe then wipe_all w0 else w0)"
  then have "importTemplate name wipe w0 = import_providers_block name w1"
    using importTemplate_block by blast
  also have "\<dots> = import_models_block name provMap w3"
    using h import_providers_block_Inr [of w1 name w2] by metis
  finally show "importTemplate name wipe w0 = Inl (provider_not_found (ym_provider_name bad), w4)"
    using block by simp
qed

lemma wipe_all_orphan_world: "wipe_all orphan_world = orphan_world"
  by (simp add: orphan_world_def empty_world_def wipe_all_def listProviders_def
      listModelsWithProviderInfo_def listAgentTypes_def getAllTasks_def log_wiped_def)

lemma import_providers_orphan_world:
  "import_providers (loadYAML (providers_yaml (templates orphan_world ''default''))) orphan_world
     = Inr orphan_after_providers"
  by (simp add: orphan_world_def empty_world_def orphan_after_providers_def orphan_template_def
      loadYAML_def createOrUpdateProvider_def safeDisplayName_def trim_nonempty_def
      is_white_space_def next_id_def console_log_def)

theorem C5_unknown_provider_witness:
  "importTemplate ''default'' True orphan_world
     = Inl (provider_not_found (Val ''missing''), orphan_after_first_model)
   \<and> map m_model_name (models orphan_after_first_model) = [''gpt-4'']
   \<and> agent_roles orphan_after_first_model = []"
proof -
  let ?pm = "provMap_of orphan_after_providers"
  let ?w3 = "console_log (LogInsertedUpdated
               (length (loadYAML (providers_yaml (templates orphan_world ''default''))))
               ''providers'') orphan_after_providers"
  let ?gpt4 = "\<lparr>ym_provider_name = Val ''openai'', ym_model_name = Val ''gpt-4'',
          ym_display_name = Val ''gpt-4'', ym_extra_info = Val [], ym_supports_reasoning = Val False\<rparr>"
  let ?bad = "\<lparr>ym_provider_name = Val ''missing'', ym_model_name = Val ''m1'',
          ym_display_name = Val ''m1'', ym_extra_info = Val [], ym_supports_reasoning = Val True\<rparr>"
  let ?o1 = "\<lparr>ym_provider_name = Val ''openai'', ym_model_name = Val ''o1'',
          ym_display_name = Val ''o1'', ym_extra_info = Val [], ym_supports_reasoning = Val True\<rparr>"
  have absent: "map_get ?pm (ym_provider_name ?bad) = Undefined"
    by (simp add: provMap_of_def listProviders_def orphan_after_providers_def js_Map_def
        map_get_def)
  have yaml: "loadYAML (models_yaml (templates ?w3 ''default'')) = [?gpt4] @ ?bad # [?o1]"
    by (simp add: orphan_after_providers_def orphan_world_def orphan_template_def loadYAML_def)
  have pre: "import_models ?pm [?gpt4] ?w3 = Inr orphan_after_first_model"
    by (simp add: provMap_of_def listProviders_def js_Map_def map_get_def
        orphan_after_providers_def orphan_after_first_model_def orphan_world_def empty_world_def
        orphan_template_def loadYAML_def createOrUpdateModel_def next_id_def console_log_def
        model_key_def)
  have wiped: "orphan_world = (if True then wipe_all orphan_world else orphan_world)"
    by (simp add: wipe_all_orphan_world)
  from C5_unknown_provider_aborts_models_loop [OF absent yaml pre,
         of orphan_world orphan_after_providers True orphan_world]
    import_providers_orphan_world wiped
  have "importTemplate ''default'' True orphan_world
     = Inl (provider_not_found (Val ''missing''), orphan_after_first_model)"
    by simp
  then show ?thesis
    by (simp add: orphan_after_first_model_def orphan_after_providers_def orphan_world_def
        empty_world_def)
qed

lemma fold_max_ge: "seq \<le> fold max ids (seq::int)"
proof (induction ids arbitrary: seq)
  case Nil
  show ?case by simp
next
  case (Cons i ids)
  have "seq \<le> max i seq" by simp
  also have "\<dots> \<le> fold max ids (max i seq)" by (rule Cons.IH)
  finally show ?case by simp
qed

lemma next_id_positive: "0 \<le> seq \<Longrightarrow> 0 < next_id seq ids"
  using fold_max_ge [of seq ids] by (simp add: next_id_def)

lemma agent_ids_ok_console [simp]: "agent_ids_ok (console_log l w) = agent_ids_ok w"
  by (simp add: agent_ids_ok_def console_log_def)

lemma setAgentDetails_ids_ok:
  assumes "setAgentDetails d w = Inr w'" and "agent_ids_ok w"
  shows "agent_ids_ok w'"
  using assms(1)
proof (cases rule: setAgentDetails_cases)
  case (update role e)
  then show ?thesis
    using assms(2) by (auto simp: agent_ids_ok_def list_all_iff update_agent_row_fields)
next
  case (insert role)
  have "0 < next_id (agent_roles_seq w) (map a_id (agent_roles w))"
    using assms(2) by (simp add: agent_ids_ok_def next_id_positive)
  with insert show ?thesis
    using assms(2) by (simp add: agent_ids_ok_def list_all_iff insert_agent_row_fields)
qed

lemma setAgentDetails_ok':
  assumes "truthy_str (d_agent_role d)" and "agent_ids_ok w"
  shows "\<exists>w'. setAgentDetails d w = Inr w'"
proof -
  from assms(1) obtain role where role: "d_agent_role d = Val role" "role \<noteq> []"
    by (cases "d_agent_role d") auto
  have "\<forall>e \<in> set (agent_roles w). a_id e \<noteq> 0"
    using assms(2) by (simp add: agent_ids_ok_def list_all_iff)
  with role show ?thesis by (rule setAgentDetails_ok)
qed

lemma resolve_model_ids [simp]: "agent_ids_ok (snd (resolve_model mm a w)) = agent_ids_ok w"
  by (simp add: resolve_model_def Let_def split: js.splits)

lemma import_agents_step:
  "import_agents mm (a # as) w =
     (case setAgentDetails (spread_agent a (fst (resolve_model mm a w))) (snd (resolve_model mm a w)) of
        Inl err \<Rightarrow> Inl (err, snd (resolve_model mm a w))
      | Inr w2 \<Rightarrow> import_agents mm as
                   (console_log (LogUpserted ''agent'' (interpolate (ya_agent_role a))) w2))"
  by (cases "resolve_model mm a w") (simp split: sum.split)

lemma import_agents_all_roles:
  assumes "\<forall>x \<in> set as. truthy_str (ya_agent_role x)" and "agent_ids_ok w"
  shows "\<exists>w'. import_agents mm as w = Inr w' \<and> agent_ids_ok w'"
  using assms
proof (induction as arbitrary: w)
  case Nil
  then show ?case by simp
next
  case (Cons a as)
  let ?w1 = "snd (resolve_model mm a w)"
  let ?d = "spread_agent a (fst (resolve_model mm a w))"
  have "truthy_str (d_agent_role ?d)" using Cons.prems(1) by (simp add: spread_agent_def)
  moreover have ok1: "agent_ids_ok ?w1" using Cons.prems(2) by simp
  ultimately obtain w2 where w2: "setAgentDetails ?d ?w1 = Inr w2"
    using setAgentDetails_ok' by blast
  have "agent_ids_ok w2" by (rule setAgentDetails_ids_ok [OF w2 ok1])
  then have "agent_ids_ok (console_log (LogUpserted ''agent'' (interpolate (ya_agent_role a))) w2)"
    by simp
  with Cons.IH Cons.prems(1)
  obtain w' where "import_agents mm as
      (console_log (LogUpserted ''agent'' (interpolate (ya_agent_role a))) w2) = Inr w'"
      "agent_ids_ok w'"
    by (metis list.set_intros(2))
  with w2 show ?case by (simp add: import_agents_step del: import_agents.simps)
qed

lemma import_agents_append:
  "import_agents mm (xs @ ys) w =
     (case import_agents mm xs w of Inl ew \<Rightarrow> Inl ew | Inr w' \<Rightarrow> import_agents mm ys w')"
  by (induction xs arbitrary: w) (auto split: prod.splits sum.splits)

lemma resolve_model_unresolved:
  assumes "truthy_str (ya_provider_name a)" and "truthy_str (ya_model_name a)"
    and "mm (model_key (ya_provider_name a) (ya_model_name a)) = None"
  shows "resolve_model mm a w =
     (Undefined, console_log (WarnModelNotFound (model_key (ya_provider_name a) (ya_model_name a))) w)"
  using assms by (simp add: resolve_model_def map_get_def Let_def)

text \<open>What the agents loop leaves alone, and the roles it leaves rows for.\<close>

lemma resolve_model_console: "\<exists>l. snd (resolve_model mm a w) = console_log l w"
  by (auto simp: resolve_model_def Let_def split: js.splits)

lemma setAgentDetails_frame:
  assumes "setAgentDetails d w = Inr w'"
  shows "tasks w' = tasks w" and "templates w' = templates w" and "console w' = console w"
    and "models w' = models w" and "model_providers w' = model_providers w"
  using assms by (cases rule: setAgentDetails_cases; simp)+

lemma setAgentDetails_roles:
  assumes "setAgentDetails d w = Inr w'"
  shows "\<exists>r. d_agent_role d = Val r
           \<and> a_agent_role ` set (agent_roles w') = insert r (a_agent_role ` set (agent_roles w))"
  using assms
proof (cases rule: setAgentDetails_cases)
  case (update role e)
  let ?f = "\<lambda>r. if a_agent_role r = role
      then update_agent_row d (JSON_stringify (ensureDefaultTool (d_allowed_tools d))) r else r"
  have same: "a_agent_role (?f r) = a_agent_role r" for r
    by (simp add: update_agent_row_fields)
  have "e \<in> set (agent_roles w) \<and> a_agent_role e = role"
    using update(3) by (auto simp: find_Some_iff)
  then have mem: "role \<in> a_agent_role ` set (agent_roles w)"
    by (metis imageI)
  have ar: "agent_roles w' = map ?f (agent_roles w)"
    by (simp add: update(5))
  have "a_agent_role ` set (agent_roles w') = (\<lambda>r. a_agent_role (?f r)) ` set (agent_roles w)"
    unfolding ar set_map image_image ..
  also have "\<dots> = a_agent_role ` set (agent_roles w)"
    by (simp only: same)
  also have "\<dots> = insert role (a_agent_role ` set (agent_roles w))"
    using mem by blast
  finally show ?thesis using update(1) by simp
next
  case (insert role)
  then show ?thesis by (simp add: insert_agent_row_fields)
qed

lemma find_append_not: "\<not> P x \<Longrightarrow> find P (xs @ [x]) = find P xs"
  by (induction xs) simp_all

lemma find_map_other:
  assumes "\<And>x. P (g x) = P x" and "\<And>x. P x \<Longrightarrow> g x = x"
  shows "find P (map g xs) = find P xs"
  by (induction xs) (simp_all add: assms)

lemma setAgentDetails_other_role:
  assumes "setAgentDetails d w = Inr w'" and "d_agent_role d \<noteq> Val role"
  shows "getAgentByType role w' = getAgentByType role w"
  using assms(1)
proof (cases rule: setAgentDetails_cases)
  case (update role' e)
  let ?f = "\<lambda>r. if a_agent_role r = role'
      then update_agent_row d (JSON_stringify (ensureDefaultTool (d_allowed_tools d))) r else r"
  have ne: "role' \<noteq> role" using update(1) assms(2) by simp
  have "find (\<lambda>r. a_agent_role r = role) (map ?f (agent_roles w))
      = find (\<lambda>r. a_agent_role r = role) (agent_roles w)"
    by (rule find_map_other) (use ne in \<open>auto simp: update_agent_row_fields\<close>)
  then show ?thesis by (simp add: getAgentByType_def update(5))
next
  case (insert role')
  have ne: "role' \<noteq> role" using insert(1) assms(2) by simp
  show ?thesis
    using ne by (simp add: getAgentByType_def insert(4) insert_agent_row_fields find_append_not)
qed

lemma import_agents_Cons_Inr:
  assumes "import_agents mm (a # as) w = Inr w'"
  obtains l w2 where "snd (resolve_model mm a w) = console_log l w"
    "setAgentDetails (spread_agent a (fst (resolve_model mm a w))) (console_log l w) = Inr w2"
    "import_agents mm as (console_log (LogUpserted ''agent'' (interpolate (ya_agent_role a))) w2)
       = Inr w'"
proof -
  obtain l where l: "snd (resolve_model mm a w) = console_log l w"
    using resolve_model_console by blast
  show ?thesis
  proof (cases "setAgentDetails (spread_agent a (fst (resolve_model mm a w))) (console_log l w)")
    case (Inl err)
    then show ?thesis
      using assms by (simp add: import_agents_step l del: import_agents.simps)
  next
    case (Inr w2)
    then show ?thesis
      using assms that [OF l Inr] by (simp add: import_agents_step l del: import_agents.simps)
  qed
qed

lemma import_agents_frame:
  assumes "import_agents mm es w = Inr w'"
  shows "tasks w' = tasks w \<and> templates w' = templates w
     \<and> (\<exists>c. console w' = console w @ c)
     \<and> a_agent_role ` set (agent_roles w) \<subseteq> a_agent_role ` set (agent_roles w')
     \<and> (\<forall>x \<in> set es. \<exists>r. ya_agent_role x = Val r \<and> r \<in> a_agent_role ` set (agent_roles w'))"
  using assms
proof (induction es arbitrary: w)
  case Nil
  then show ?case by simp
next
  case (Cons a as)
  from Cons.prems obtain l w2 where l: "snd (resolve_model mm a w) = console_log l w"
    and w2: "setAgentDetails (spread_agent a (fst (resolve_model mm a w))) (console_log l w)
               = Inr w2"
    and rec: "import_agents mm as
                (console_log (LogUpserted ''agent'' (interpolate (ya_agent_role a))) w2) = Inr w'"
    by (rule import_agents_Cons_Inr)
  let ?w3 = "console_log (LogUpserted ''agent'' (interpolate (ya_agent_role a))) w2"
  note f = setAgentDetails_frame [OF w2]
  obtain r where r: "ya_agent_role a = Val r"
      "a_agent_role ` set (agent_roles w2) = insert r (a_agent_role ` set (agent_roles w))"
    using setAgentDetails_roles [OF w2] by (auto simp: spread_agent_def console_log_def)
  from Cons.IH [OF rec] obtain c where ih:
      "tasks w' = tasks ?w3" "templates w' = templates ?w3" "console w' = console ?w3 @ c"
      "a_agent_role ` set (agent_roles ?w3) \<subseteq> a_agent_role ` set (agent_roles w')"
      "\<forall>x \<in> set as. \<exists>r. ya_agent_role x = Val r \<and> r \<in> a_agent_role ` set (agent_roles w')"
    by blast
  have t: "tasks w' = tasks w" using ih(1) f(1) by simp
  have tp: "templates w' = templates w" using ih(2) f(2) by simp
  have "console w' = console w @ (l # LogUpserted ''agent'' (interpolate (ya_agent_role a)) # c)"
    using ih(3) f(3) by (simp add: console_log_def)
  then have co: "\<exists>c. console w' = console w @ c" by blast
  have sub: "insert r (a_agent_role ` set (agent_roles w)) \<subseteq> a_agent_role ` set (agent_roles w')"
    using ih(4) r(2) by simp
  then have old: "a_agent_role ` set (agent_roles w) \<subseteq> a_agent_role ` set (agent_roles w')"
    and new: "r \<in> a_agent_role ` set (agent_roles w')"
    by auto
  have all: "\<forall>x \<in> set (a # as). \<exists>r. ya_agent_role x = Val r
      \<and> r \<in> a_agent_role ` set (agent_roles w')"
    using ih(5) r(1) new by simp
  from t tp co old all show ?case by blast
qed

lemma import_agents_other_roles:
  assumes "import_agents mm es w = Inr w'" and "\<forall>x \<in> set es. ya_agent_role x \<noteq> Val role"
  shows "getAgentByType role w' = getAgentByType role w"
  using assms
proof (induction es arbitrary: w)
  case Nil
  then show ?case by simp
next
  case (Cons a as)
  from Cons.prems(1) obtain l w2 where l: "snd (resolve_model mm a w) = console_log l w"
    and w2: "setAgentDetails (spread_agent a (fst (resolve_model mm a w))) (console_log l w)
               = Inr w2"
    and rec: "import_agents mm as
                (console_log (LogUpserted ''agent'' (interpolate (ya_agent_role a))) w2) = Inr w'"
    by (rule import_agents_Cons_Inr)
  have "d_agent_role (spread_agent a (fst (resolve_model mm a w))) \<noteq> Val role"
    using Cons.prems(2) by (simp add: spread_agent_def)
  then have "getAgentByType role w2 = getAgentByType role (console_log l w)"
    by (rule setAgentDetails_other_role [OF w2])
  moreover have "getAgentByType role w'
      = getAgentByType role (console_log (LogUpserted ''agent'' (interpolate (ya_agent_role a))) w2)"
    using Cons.IH [OF rec] Cons.prems(2) by simp
  ultimately show ?case by simp
qed

text \<open>
  The tasks loop on records that name new, pairwise different tasks: one row per
  record, in file order, with the record's name and prompt (the empty string for a
  prompt the record does not have).
\<close>

lemma import_tasks_rows:
  assumes "\<forall>e \<in> set es. \<exists>n. yt_task_name e = Val n"
    and "distinct (map yt_task_name es)"
    and "\<forall>e \<in> set es. \<forall>r \<in> set (tasks w). yt_task_name e \<noteq> Val (t_task_name r)"
  shows "\<exists>w' T. import_tasks es w = Inr w'
      \<and> tasks w' = tasks w @ T
      \<and> map (\<lambda>r. (Val (t_task_name r), t_task_prompt r)) T
          = map (\<lambda>e. (yt_task_name e,
                       bind (case yt_task_prompt e of Undefined \<Rightarrow> Val [] | p \<Rightarrow> p))) es
      \<and> agent_roles w' = agent_roles w
      \<and> (\<exists>c. console w' = console w @ c)"
  using assms
proof (induction es arbitrary: w)
  case Nil
  then show ?case by simp
next
  case (Cons e es)
  obtain n where n: "yt_task_name e = Val n"
    using Cons.prems(1) by auto
  let ?p = "bind (case yt_task_prompt e of Undefined \<Rightarrow> Val [] | p \<Rightarrow> p)"
  let ?i = "next_id (tasks_seq w) (map t_id (tasks w))"
  let ?row = "\<lparr>t_id = ?i, t_task_name = n, t_task_prompt = ?p\<rparr>"
  let ?v1 = "w\<lparr>tasks := tasks w @ [?row], tasks_seq := ?i\<rparr>"
  let ?v2 = "console_log (LogUpserted ''task'' n) ?v1"
  have no: "\<not> list_ex (\<lambda>r. t_task_name r = n) (tasks w)"
    using Cons.prems(3) n by (auto simp: list_ex_iff)
  have step: "createTask (Val n) (yt_task_prompt e) w = Inr ?v1"
    by (simp add: createTask_def Let_def no)
  have unfold: "import_tasks (e # es) w = import_tasks es ?v2"
    by (simp add: step n)
  have tab: "tasks ?v2 = tasks w @ [?row]"
    by (simp add: console_log_def)
  have p1: "\<forall>e \<in> set es. \<exists>n. yt_task_name e = Val n"
    using Cons.prems(1) by simp
  have p2: "distinct (map yt_task_name es)"
    using Cons.prems(2) by simp
  have ne: "yt_task_name q \<noteq> Val n" if "q \<in> set es" for q
  proof
    assume "yt_task_name q = Val n"
    then have "yt_task_name e = yt_task_name q" using n by simp
    then have "yt_task_name e \<in> yt_task_name ` set es"
      using that by (rule image_eqI)
    then show False using Cons.prems(2) by simp
  qed
  have p3: "\<forall>q \<in> set es. \<forall>r \<in> set (tasks ?v2). yt_task_name q \<noteq> Val (t_task_name r)"
    unfolding tab using Cons.prems(3) ne by auto
  obtain w' T c where r: "import_tasks es ?v2 = Inr w'" "tasks w' = tasks ?v2 @ T"
      "map (\<lambda>r. (Val (t_task_name r), t_task_prompt r)) T
          = map (\<lambda>e. (yt_task_name e,
                       bind (case yt_task_prompt e of Undefined \<Rightarrow> Val [] | p \<Rightarrow> p))) es"
      "agent_roles w' = agent_roles ?v2" "console w' = console ?v2 @ c"
    using Cons.IH [OF p1 p2 p3] by blast
  have r1: "import_tasks (e # es) w = Inr w'"
    using unfold r(1) by simp
  have r2: "tasks w' = tasks w @ (?row # T)"
    using r(2) unfolding tab by simp
  have r3: "map (\<lambda>r. (Val (t_task_name r), t_task_prompt r)) (?row # T)
          = map (\<lambda>e. (yt_task_name e,
                       bind (case yt_task_prompt e of Undefined \<Rightarrow> Val [] | p \<Rightarrow> p))) (e # es)"
    using r(3) n by simp
  have r4: "agent_roles w' = agent_roles w"
    using r(4) by (simp add: console_log_def)
  have "console w' = console w @ (LogUpserted ''task'' n # c)"
    using r(5) by (simp add: console_log_def)
  then have r5: "\<exists>c. console w' = console w @ c" by blast
  from r1 r2 r3 r4 r5 show ?case by blast
qed

lemma getAgentByType_frame:
  "agent_roles w' = agent_roles w \<Longrightarrow> getAgentByType r w' = getAgentByType r w"
  by (simp add: getAgentByType_def)

lemma getAgentByType_role_mem:
  "r \<in> a_agent_role ` set (agent_roles w) \<Longrightarrow> \<exists>row. getAgentByType r w = Some row"
  using getAgentByType_None_iff [of r w] by (cases "getAgentByType r w") auto

text \<open>
  Claim C6. An entry \<open>a\<close> of \<open>agents.yaml\<close> that names a provider and a model whose key
  the model map lacks does not fail the import. Its turn of the agents loop succeeds:
  the row stored for its role has a NULL \<open>model_id\<close> and the console holds the
  \<open>Model not found\<close> warning. The loop then runs the entries after it to the end, and
  the tasks loop runs on \<open>tasks.yaml\<close>: the agents block returns a store \<open>w'\<close>, and so
  does \<open>importTemplate\<close> when its providers and models loops returned. In \<open>w'\<close> every
  entry from \<open>a\<close> on has a row for its role, the row of \<open>a\<close> still has a NULL
  \<open>model_id\<close> when no later entry names its role, the warning is on the console, and
  the tasks table has one new row for each record of \<open>tasks.yaml\<close>, in file order, with
  the record's name and prompt.

  What else could stop the import is assumed away: every agent entry names a non-empty
  role (\<open>setAgentDetails\<close> throws without one), the agent keys are those
  \<open>AUTOINCREMENT\<close> gives, and the task records name new, pairwise different tasks
  (\<open>createTask\<close> throws on a name that exists).
\<close>

theorem C6_unknown_model_is_not_fatal:
  assumes unresolved: "truthy_str (ya_provider_name a)" "truthy_str (ya_model_name a)"
      "modelMap (model_key (ya_provider_name a) (ya_model_name a)) = None"
    and role: "ya_agent_role a = Val role" "role \<noteq> []"
    and before: "import_agents modelMap pre w0 = Inr w" "agent_ids_ok w"
    and rest: "\<forall>x \<in> set rest. truthy_str (ya_agent_role x)"
    and yaml: "loadYAML (agents_yaml (templates w0 name)) = pre @ a # rest"
    and tasks: "\<forall>e \<in> set (loadYAML (tasks_yaml (templates w0 name))). \<exists>n. yt_task_name e = Val n"
      "distinct (map yt_task_name (loadYAML (tasks_yaml (templates w0 name))))"
      "\<forall>e \<in> set (loadYAML (tasks_yaml (templates w0 name))). \<forall>r \<in> set (tasks w0).
         yt_task_name e \<noteq> Val (t_task_name r)"
  shows "\<exists>w1 w2 w' T.
           import_agents modelMap [a] w = Inr w1
         \<and> (\<exists>row. getAgentByType role w1 = Some row \<and> a_model_id row = None)
         \<and> WarnModelNotFound (model_key (ya_provider_name a) (ya_model_name a)) \<in> set (console w1)
         \<and> import_agents modelMap rest w1 = Inr w2
         \<and> import_agents modelMap (pre @ a # rest) w0 = Inr w2
         \<and> import_agents_block name modelMap w0
              = import_tasks_block name
                  (console_log (LogInsertedUpdated (length (pre @ a # rest)) ''agents'') w2)
         \<and> import_agents_block name modelMap w0 = Inr w'
         \<and> (\<forall>x \<in> set (a # rest). \<exists>r row. ya_agent_role x = Val r \<and> getAgentByType r w' = Some row)
         \<and> ((\<forall>x \<in> set rest. ya_agent_role x \<noteq> Val role)
              \<longrightarrow> (\<exists>row. getAgentByType role w' = Some row \<and> a_model_id row = None))
         \<and> WarnModelNotFound (model_key (ya_provider_name a) (ya_model_name a)) \<in> set (console w')
         \<and> tasks w' = tasks w0 @ T
         \<and> map (\<lambda>r. (Val (t_task_name r), t_task_prompt r)) T
              = map (\<lambda>e. (yt_task_name e,
                           bind (case yt_task_prompt e of Undefined \<Rightarrow> Val [] | p \<Rightarrow> p)))
                    (loadYAML (tasks_yaml (templates w0 name)))
         \<and> (import_providers (loadYAML (providers_yaml (templates wA name))) wA = Inr wB
              \<and> import_models (provMap_of wB) (loadYAML (models_yaml (templates wC name))) wC = Inr wD
              \<and> wC = console_log (LogInsertedUpdated
                         (length (loadYAML (providers_yaml (templates wA name)))) ''providers'') wB
              \<and> w0 = console_log (LogInsertedUpdated
                         (length (loadYAML (models_yaml (templates wC name)))) ''models'') wD
              \<and> modelMap = modelMap_of wD
              \<and> wA = (if wipe then wipe_all wS else wS)
             \<longrightarrow> importTemplate name wipe wS = Inr w')"
proof -
  let ?key = "model_key (ya_provider_name a) (ya_model_name a)"
  let ?wa = "console_log (WarnModelNotFound ?key) w"
  let ?d = "spread_agent a Undefined"
  let ?ts = "loadYAML (tasks_yaml (templates w0 name))"
  have res: "resolve_model modelMap a w = (Undefined, ?wa)"
    using unresolved by (rule resolve_model_unresolved)
  have drole: "d_agent_role ?d = Val role" using role(1) by (simp add: spread_agent_def)
  have "agent_ids_ok ?wa" using before(2) by simp
  moreover have "truthy_str (d_agent_role ?d)" using drole role(2) by simp
  ultimately obtain wb where wb: "setAgentDetails ?d ?wa = Inr wb"
    using setAgentDetails_ok' by blast
  let ?w1 = "console_log (LogUpserted ''agent'' (interpolate (ya_agent_role a))) wb"
  have one: "import_agents modelMap [a] w = Inr ?w1"
    using res wb by (simp add: import_agents_step del: import_agents.simps(2))
  from setAgentDetails_found [OF wb] drole
  obtain row where row: "getAgentByType role wb = Some row" "written ?d row" by auto
  have null: "a_model_id row = None"
    using row(2) by (simp add: written_def spread_agent_def)
  have found: "getAgentByType role ?w1 = Some row" using row(1) by simp
  have "console wb = console ?wa"
    using wb by (cases rule: setAgentDetails_cases) (simp_all add: console_log_def)
  then have warn: "WarnModelNotFound ?key \<in> set (console ?w1)"
    by (simp add: console_log_def)
  have "agent_ids_ok wb"
    using wb \<open>agent_ids_ok ?wa\<close> by (rule setAgentDetails_ids_ok)
  then have "agent_ids_ok ?w1" by simp
  with rest obtain w2 where w2: "import_agents modelMap rest ?w1 = Inr w2"
    using import_agents_all_roles by blast
  have cons: "import_agents modelMap (a # rest) w = Inr w2"
    using res wb w2 by (simp add: import_agents_step del: import_agents.simps(2))
  have whole: "import_agents modelMap (pre @ a # rest) w0 = Inr w2"
    using before(1) cons by (simp add: import_agents_append del: import_agents.simps(2))
  define w7 where
    "w7 = console_log (LogInsertedUpdated (length (pre @ a # rest)) ''agents'') w2"
  have block: "import_agents_block name modelMap w0 = import_tasks_block name w7"
    unfolding w7_def
    using whole yaml by (simp add: import_agents_block_def Let_def del: import_agents.simps(2))
  have w7: "tasks w7 = tasks w2" "templates w7 = templates w2" "agent_roles w7 = agent_roles w2"
    "console w7 = console w2 @ [LogInsertedUpdated (length (pre @ a # rest)) ''agents'']"
    by (simp_all add: w7_def console_log_def)

  \<comment> \<open>what the loop left for the tasks block\<close>
  obtain c1 where f1: "tasks w2 = tasks w0" "templates w2 = templates w0"
      "console w2 = console w0 @ c1"
    using import_agents_frame [OF whole] by blast
  obtain c2 where f2: "console w2 = console ?w1 @ c2"
      "a_agent_role ` set (agent_roles ?w1) \<subseteq> a_agent_role ` set (agent_roles w2)"
      "\<forall>x \<in> set rest. \<exists>r. ya_agent_role x = Val r \<and> r \<in> a_agent_role ` set (agent_roles w2)"
    using import_agents_frame [OF w2] by blast
  have "role \<in> a_agent_role ` set (agent_roles ?w1)"
    using found getAgentByType_None_iff [of role ?w1] by auto
  then have role2: "role \<in> a_agent_role ` set (agent_roles w2)"
    using f2(2) by blast
  have warn2: "WarnModelNotFound ?key \<in> set (console w2)"
    using warn f2(1) by simp

  \<comment> \<open>the tasks block\<close>
  have ty: "loadYAML (tasks_yaml (templates w7 name)) = ?ts"
    by (simp add: w7 f1(2))
  have t3: "\<forall>e \<in> set ?ts. \<forall>r \<in> set (tasks w7). yt_task_name e \<noteq> Val (t_task_name r)"
    using tasks(3) by (simp add: w7 f1(1))
  obtain w8 T c3 where T: "import_tasks ?ts w7 = Inr w8" "tasks w8 = tasks w7 @ T"
      "map (\<lambda>r. (Val (t_task_name r), t_task_prompt r)) T
          = map (\<lambda>e. (yt_task_name e,
                       bind (case yt_task_prompt e of Undefined \<Rightarrow> Val [] | p \<Rightarrow> p))) ?ts"
      "agent_roles w8 = agent_roles w7" "console w8 = console w7 @ c3"
    using import_tasks_rows [OF tasks(1,2) t3] by blast
  define w' where
    "w' = console_log (LogImported name) (console_log (LogInsertedUpdated (length ?ts) ''tasks'') w8)"
  have fin: "import_tasks_block name w7 = Inr w'"
    unfolding import_tasks_block_def Let_def ty by (simp add: T(1) w'_def)
  have imported: "import_agents_block name modelMap w0 = Inr w'"
    using block fin by simp
  have ar: "agent_roles w' = agent_roles w2"
    by (simp add: w'_def console_log_def T(4) w7)
  have get: "getAgentByType r w' = getAgentByType r w2" for r
    using ar by (rule getAgentByType_frame)
  have tw: "tasks w' = tasks w0 @ T"
    by (simp add: w'_def console_log_def T(2) f1(1) w7)
  have warn': "WarnModelNotFound ?key \<in> set (console w')"
    using warn2 by (simp add: w'_def console_log_def T(5) w7)
  have rows: "\<forall>x \<in> set (a # rest). \<exists>r row. ya_agent_role x = Val r \<and> getAgentByType r w' = Some row"
  proof
    fix x assume "x \<in> set (a # rest)"
    then have "\<exists>r. ya_agent_role x = Val r \<and> r \<in> a_agent_role ` set (agent_roles w2)"
      using f2(3) role(1) role2 by auto
    then show "\<exists>r row. ya_agent_role x = Val r \<and> getAgentByType r w' = Some row"
      using getAgentByType_role_mem [of _ w2] unfolding get by blast
  qed
  have kept: "(\<forall>x \<in> set rest. ya_agent_role x \<noteq> Val role)
              \<longrightarrow> (\<exists>row. getAgentByType role w' = Some row \<and> a_model_id row = None)"
  proof
    assume "\<forall>x \<in> set rest. ya_agent_role x \<noteq> Val role"
    then have "getAgentByType role w2 = getAgentByType role ?w1"
      by (rule import_agents_other_roles [OF w2])
    then show "\<exists>row. getAgentByType role w' = Some row \<and> a_model_id row = None"
      unfolding get using found null by simp
  qed
  have whole_import:
    "import_providers (loadYAML (providers_yaml (templates wA name))) wA = Inr wB
              \<and> import_models (provMap_of wB) (loadYAML (models_yaml (templates wC name))) wC = Inr wD
              \<and> wC = console_log (LogInsertedUpdated
                         (length (loadYAML (providers_yaml (templates wA name)))) ''providers'') wB
              \<and> w0 = console_log (LogInsertedUpdated
                         (length (loadYAML (models_yaml (templates wC name)))) ''models'') wD
              \<and> modelMap = modelMap_of wD
              \<and> wA = (if wipe then wipe_all wS else wS)
             \<longrightarrow> importTemplate name wipe wS = Inr w'"
  proof
    assume h: "import_providers (loadYAML (providers_yaml (templates wA name))) wA = Inr wB
              \<and> import_models (provMap_of wB) (loadYAML (models_yaml (templates wC name))) wC = Inr wD
              \<and> wC = console_log (LogInsertedUpdated
                         (length (loadYAML (providers_yaml (templates wA name)))) ''providers'') wB
              \<and> w0 = console_log (LogInsertedUpdated
                         (length (loadYAML (models_yaml (templates wC name)))) ''models'') wD
              \<and> modelMap = modelMap_of wD
              \<and> wA = (if wipe then wipe_all wS else wS)"
    then have "importTemplate name wipe wS = import_providers_block name wA"
      using importTemplate_block by blast
    also have "\<dots> = import_models_block name (provMap_of wB) wC"
      using h import_providers_block_Inr [of wA name wB] by metis
    also have "\<dots> = import_agents_block name modelMap w0"
      using h import_models_block_Inr [of "provMap_of wB" wC name wD] by metis
    finally show "importTemplate name wipe wS = Inr w'"
      using imported by simp
  qed
  show ?thesis
    apply (rule exI [of _ ?w1], rule exI [of _ w2], rule exI [of _ w'], rule exI [of _ T])
    using one found null warn w2 whole block [unfolded w7_def] imported rows kept warn' tw T(3)
      whole_import
    by blast
qed

text \<open>
  On \<open>unlinked_world\<close>, imported without a wipe: \<open>orphan\<close> names the model
  \<open>openai:nope\<close>, which the store does not have. The import returns; \<open>orphan\<close> has a
  row with a NULL \<open>model_id\<close>, the entry after it has its row, the warning is on the
  console, and both task records are rows after the task the store had.
\<close>

theorem C6_unknown_model_witness:
  "\<exists>w'. importTemplate ''default'' False unlinked_world = Inr w'
    \<and> (\<exists>row. getAgentByType ''orphan'' w' = Some row \<and> a_model_id row = None)
    \<and> (\<exists>row. getAgentByType ''second'' w' = Some row)
    \<and> WarnModelNotFound ''openai:nope'' \<in> set (console w')
    \<and> map (\<lambda>r. (t_task_name r, t_task_prompt r)) (tasks w')
        = [(''build'', Some ''Build it''), (''deploy'', Some ''Ship it''), (''test'', Some [])]"
proof -
  define wC where "wC = console_log (LogInsertedUpdated 0 ''providers'') unlinked_world"
  define w0 where "w0 = console_log (LogInsertedUpdated 0 ''models'') wC"
  let ?mm = "modelMap_of wC"
  let ?deploy = "\<lparr>yt_task_name = Val ''deploy'', yt_task_prompt = Val ''Ship it''\<rparr>"
  let ?test = "\<lparr>yt_task_name = Val ''test'', yt_task_prompt = Undefined\<rparr>"
  have key: "model_key (ya_provider_name unlinked_agent) (ya_model_name unlinked_agent)
               = ''openai:nope''"
    by (simp add: unlinked_agent_def model_key_def)
  have unresolved: "truthy_str (ya_provider_name unlinked_agent)"
      "truthy_str (ya_model_name unlinked_agent)"
      "?mm (model_key (ya_provider_name unlinked_agent) (ya_model_name unlinked_agent)) = None"
    by (simp_all add: unlinked_agent_def modelMap_of_def listModelsWithProviderInfo_def
        wC_def console_log_def unlinked_world_def demo_world_def join_provider_def js_Map_def
        model_key_def)
  have role: "ya_agent_role unlinked_agent = Val ''orphan''" "''orphan'' \<noteq> []"
    by (simp_all add: unlinked_agent_def)
  have before: "import_agents ?mm [] w0 = Inr w0" "agent_ids_ok w0"
    by (simp_all add: w0_def wC_def agent_ids_ok_def unlinked_world_def demo_world_def
        console_log_def)
  have rest: "\<forall>x \<in> set [linked_agent]. truthy_str (ya_agent_role x)"
    by (simp add: linked_agent_def)
  have yaml: "loadYAML (agents_yaml (templates w0 ''default''))
                = [] @ unlinked_agent # [linked_agent]"
    by (simp add: w0_def wC_def unlinked_world_def loadYAML_def)
  have ty: "loadYAML (tasks_yaml (templates w0 ''default'')) = [?deploy, ?test]"
    by (simp add: w0_def wC_def unlinked_world_def loadYAML_def)
  have tw: "tasks w0 = [\<lparr>t_id = 1, t_task_name = ''build'', t_task_prompt = Some ''Build it''\<rparr>]"
    by (simp add: w0_def wC_def unlinked_world_def demo_world_def console_log_def)
  have tasks: "\<forall>e \<in> set (loadYAML (tasks_yaml (templates w0 ''default''))). \<exists>n. yt_task_name e = Val n"
      "distinct (map yt_task_name (loadYAML (tasks_yaml (templates w0 ''default''))))"
      "\<forall>e \<in> set (loadYAML (tasks_yaml (templates w0 ''default''))). \<forall>r \<in> set (tasks w0).
         yt_task_name e \<noteq> Val (t_task_name r)"
    unfolding ty tw by simp_all
  have earlier:
    "import_providers (loadYAML (providers_yaml (templates unlinked_world ''default'')))
         unlinked_world = Inr unlinked_world
     \<and> import_models (provMap_of unlinked_world)
         (loadYAML (models_yaml (templates wC ''default''))) wC = Inr wC
     \<and> wC = console_log (LogInsertedUpdated
                (length (loadYAML (providers_yaml (templates unlinked_world ''default''))))
                ''providers'') unlinked_world
     \<and> w0 = console_log (LogInsertedUpdated
                (length (loadYAML (models_yaml (templates wC ''default'')))) ''models'') wC
     \<and> ?mm = modelMap_of wC
     \<and> unlinked_world = (if False then wipe_all unlinked_world else unlinked_world)"
    by (simp add: w0_def wC_def unlinked_world_def loadYAML_def no_files_def)
  from C6_unknown_model_is_not_fatal [OF unresolved role before rest yaml tasks,
      where wA = unlinked_world and wB = unlinked_world and wC = wC and wD = wC
        and wipe = False and wS = unlinked_world]
  obtain w' T where
    rows: "\<forall>x \<in> set (unlinked_agent # [linked_agent]).
             \<exists>r row. ya_agent_role x = Val r \<and> getAgentByType r w' = Some row"
    and kept: "(\<forall>x \<in> set [linked_agent]. ya_agent_role x \<noteq> Val ''orphan'')
              \<longrightarrow> (\<exists>row. getAgentByType ''orphan'' w' = Some row \<and> a_model_id row = None)"
    and warn: "WarnModelNotFound
                 (model_key (ya_provider_name unlinked_agent) (ya_model_name unlinked_agent))
               \<in> set (console w')"
    and tab: "tasks w' = tasks w0 @ T"
    and new: "map (\<lambda>r. (Val (t_task_name r), t_task_prompt r)) T
              = map (\<lambda>e. (yt_task_name e,
                           bind (case yt_task_prompt e of Undefined \<Rightarrow> Val [] | p \<Rightarrow> p)))
                    (loadYAML (tasks_yaml (templates w0 ''default'')))"
    and whole: "import_providers (loadYAML (providers_yaml (templates unlinked_world ''default'')))
         unlinked_world = Inr unlinked_world
     \<and> import_models (provMap_of unlinked_world)
         (loadYAML (models_yaml (templates wC ''default''))) wC = Inr wC
     \<and> wC = console_log (LogInsertedUpdated
                (length (loadYAML (providers_yaml (templates unlinked_world ''default''))))
                ''providers'') unlinked_world
     \<and> w0 = console_log (LogInsertedUpdated
                (length (loadYAML (models_yaml (templates wC ''default'')))) ''models'') wC
     \<and> ?mm = modelMap_of wC
     \<and> unlinked_world = (if False then wipe_all unlinked_world else unlinked_world)
     \<longrightarrow> importTemplate ''default'' False unlinked_world = Inr w'"
    by (elim exE conjE)
  have imported: "importTemplate ''default'' False unlinked_world = Inr w'"
    using whole earlier by (rule mp)
  have orphan: "\<exists>row. getAgentByType ''orphan'' w' = Some row \<and> a_model_id row = None"
    using kept by (simp add: linked_agent_def)
  have second: "\<exists>row. getAgentByType ''second'' w' = Some row"
    using rows by (simp add: linked_agent_def)
  have warn': "WarnModelNotFound ''openai:nope'' \<in> set (console w')"
    using warn key by simp
  have "map (\<lambda>r. (Val (t_task_name r), t_task_prompt r)) T
      = [(Val ''deploy'', Some ''Ship it''), (Val ''test'', Some [])]"
    using new unfolding ty by simp
  then obtain r1 r2 where T: "T = [r1, r2]" "t_task_name r1 = ''deploy''"
      "t_task_prompt r1 = Some ''Ship it''" "t_task_name r2 = ''test''" "t_task_prompt r2 = Some []"
    by (auto simp: map_eq_Cons_conv)
  have written: "map (\<lambda>r. (t_task_name r, t_task_prompt r)) (tasks w')
        = [(''build'', Some ''Build it''), (''deploy'', Some ''Ship it''), (''test'', Some [])]"
    by (simp add: tab tw T)
  show ?thesis
    by (rule exI [of _ w']) (simp add: imported orphan second warn' written)
qed

text \<open>
  Claim C4, at a template whose four files each hold two records with one natural
  key, imported into an empty store. Providers, models and agent roles end with one
  row holding the last record's values. The tasks loop does not: \<open>createTask\<close> is a
  plain \<open>INSERT\<close>, the second record violates the \<open>UNIQUE\<close> constraint on
  \<open>task_name\<close>, the import throws, and the one task row holds the first record's
  values.
\<close>

lemmas import_eval_defs =
  importTemplate_def import_providers_block_def import_models_block_def
  import_agents_block_def import_tasks_block_def wipe_all_def listProviders_def
  listModelsWithProviderInfo_def listAgentTypes_def getAllTasks_def log_wiped_def
  loadYAML_def createOrUpdateProvider_def safeDisplayName_def trim_nonempty_def
  is_white_space_def next_id_def console_log_def provMap_of_def js_Map_def map_get_def
  createOrUpdateModel_def modelMap_of_def model_key_def join_provider_def resolve_model_def
  spread_agent_def setAgentDetails_def update_agent_row_def insert_agent_row_def
  ensureDefaultTool_def DEFAULT_TOOL_def JSON_stringify_def createTask_def unique_failed_def
  Let_def

theorem C4_duplicate_task_name_aborts_import:
  "(case importTemplate ''default'' True dup_world of
      Inl (err, w) \<Rightarrow>
          err = SqliteError ''SQLITE_CONSTRAINT: UNIQUE constraint failed: tasks.task_name''
        \<and> map (\<lambda>r. (t_task_name r, t_task_prompt r)) (tasks w) = [(''build'', Some ''First'')]
        \<and> map (\<lambda>r. (p_provider_name r, p_display_name r, p_extra_info r)) (model_providers w)
            = [(''openai'', ''Last'', Some ''b'')]
        \<and> map (\<lambda>r. (m_model_name r, m_display_name r, m_extra_info r, m_supports_reasoning r))
              (models w) = [(''gpt-4'', ''Last'', Some ''b'', 1)]
        \<and> map (\<lambda>r. (a_agent_role r, a_agent_description r, a_reasoning_level r, a_tool_choice r))
              (agent_roles w) = [(''coder'', Some ''Last'', Some ''high'', Some ''none'')]
    | Inr w \<Rightarrow> False)"
  by (simp add: dup_world_def dup_template_def empty_world_def import_eval_defs)

section \<open>Export, then import\<close>

subsection \<open>The wipe empties the four tables\<close>

lemma fold_deleteProvider:
  "fold (\<lambda>p. deleteProvider (p_id p)) ps w =
     w\<lparr>model_providers := filter (\<lambda>r. p_id r \<notin> p_id ` set ps) (model_providers w)\<rparr>"
proof (induction ps arbitrary: w)
  case Nil
  show ?case by simp
next
  case (Cons p ps)
  show ?case
    by (simp add: Cons.IH, simp add: deleteProvider_def conj_commute)
qed

lemma fold_deleteModel:
  "fold (\<lambda>m. deleteModel (m_id (mp_row m))) ms w =
     w\<lparr>models := filter (\<lambda>r. m_id r \<notin> (\<lambda>m. m_id (mp_row m)) ` set ms) (models w)\<rparr>"
proof (induction ms arbitrary: w)
  case Nil
  show ?case by simp
next
  case (Cons m ms)
  show ?case
    by (simp add: Cons.IH, simp add: deleteModel_def conj_commute)
qed

lemma fold_deleteAgentType:
  "fold (\<lambda>a. deleteAgentType (a_agent_role a)) as w =
     w\<lparr>agent_roles := filter (\<lambda>r. a_agent_role r \<notin> a_agent_role ` set as) (agent_roles w)\<rparr>"
proof (induction as arbitrary: w)
  case Nil
  show ?case by simp
next
  case (Cons a as)
  show ?case
    by (simp add: Cons.IH, simp add: deleteAgentType_def conj_commute)
qed

lemma fold_deleteTask:
  "fold (\<lambda>t w. snd (deleteTask (t_id t) w)) ts w =
     w\<lparr>tasks := filter (\<lambda>r. t_id r \<notin> t_id ` set ts) (tasks w)\<rparr>"
proof (induction ts arbitrary: w)
  case Nil
  show ?case by simp
next
  case (Cons t ts)
  show ?case
    by (simp add: Cons.IH, simp add: deleteTask_def conj_commute)
qed

lemma filter_none: "(\<And>x. x \<in> set xs \<Longrightarrow> \<not> P x) \<Longrightarrow> filter P xs = []"
  by (induction xs) auto

lemma log_wiped_shape: "\<exists>c. log_wiped n what w = w\<lparr>console := c\<rparr>"
  by (auto simp: log_wiped_def console_log_def intro: exI [of _ "console w"])

lemma mp_row_join [simp]: "mp_row (join_provider w m) = m"
  by (simp add: join_provider_def Let_def)

lemma wipe_providers:
  "fold (\<lambda>p. deleteProvider (p_id p)) (listProviders w) w = w\<lparr>model_providers := []\<rparr>"
  by (simp add: fold_deleteProvider listProviders_def filter_none)

lemma wipe_models:
  "fold (\<lambda>m. deleteModel (m_id (mp_row m))) (listModelsWithProviderInfo w) w = w\<lparr>models := []\<rparr>"
proof -
  have "(\<lambda>m. m_id (mp_row m)) ` set (listModelsWithProviderInfo w) = m_id ` set (models w)"
    by (simp add: listModelsWithProviderInfo_def image_image)
  then show ?thesis
    by (simp add: fold_deleteModel filter_none)
qed

lemma wipe_agents:
  "fold (\<lambda>a. deleteAgentType (a_agent_role a)) (listAgentTypes w) w = w\<lparr>agent_roles := []\<rparr>"
  by (simp add: fold_deleteAgentType listAgentTypes_def filter_none)

lemma wipe_tasks:
  "fold (\<lambda>t w. snd (deleteTask (t_id t) w)) (getAllTasks w) w = w\<lparr>tasks := []\<rparr>"
  by (simp add: fold_deleteTask getAllTasks_def filter_none)

lemma wipe_all_shape:
  "\<exists>c. wipe_all t = t\<lparr>model_providers := [], models := [], agent_roles := [], tasks := [],
                       console := c\<rparr>"
proof -
  obtain c1 where w1: "log_wiped (length (listProviders t)) ''providers''
      (fold (\<lambda>p. deleteProvider (p_id p)) (listProviders t) t) = t\<lparr>model_providers := [], console := c1\<rparr>"
    using log_wiped_shape [of "length (listProviders t)" "''providers''" "t\<lparr>model_providers := []\<rparr>"]
    by (auto simp: wipe_providers)
  let ?w1 = "t\<lparr>model_providers := [], console := c1\<rparr>"
  obtain c2 where w2: "log_wiped (length (listModelsWithProviderInfo ?w1)) ''models''
      (fold (\<lambda>m. deleteModel (m_id (mp_row m))) (listModelsWithProviderInfo ?w1) ?w1)
        = t\<lparr>model_providers := [], models := [], console := c2\<rparr>"
    using log_wiped_shape [of "length (listModelsWithProviderInfo ?w1)" "''models''" "?w1\<lparr>models := []\<rparr>"]
    by (auto simp: wipe_models)
  let ?w2 = "t\<lparr>model_providers := [], models := [], console := c2\<rparr>"
  obtain c3 where w3: "log_wiped (length (listAgentTypes ?w2)) ''agents''
      (fold (\<lambda>a. deleteAgentType (a_agent_role a)) (listAgentTypes ?w2) ?w2)
        = t\<lparr>model_providers := [], models := [], agent_roles := [], console := c3\<rparr>"
    using log_wiped_shape [of "length (listAgentTypes ?w2)" "''agents''" "?w2\<lparr>agent_roles := []\<rparr>"]
    by (auto simp: wipe_agents)
  let ?w3 = "t\<lparr>model_providers := [], models := [], agent_roles := [], console := c3\<rparr>"
  obtain c4 where w4: "log_wiped (length (getAllTasks ?w3)) ''tasks''
      (fold (\<lambda>t w. snd (deleteTask (t_id t) w)) (getAllTasks ?w3) ?w3)
        = t\<lparr>model_providers := [], models := [], agent_roles := [], tasks := [], console := c4\<rparr>"
    using log_wiped_shape [of "length (getAllTasks ?w3)" "''tasks''" "?w3\<lparr>tasks := []\<rparr>"]
    by (auto simp: wipe_tasks)
  show ?thesis
    unfolding wipe_all_def Let_def w1 w2 w3 w4 by blast
qed

subsection \<open>What the export writes\<close>

lemma join_provider_frame:
  "model_providers w' = model_providers w \<Longrightarrow> join_provider w' = join_provider w"
  by (rule ext) (simp add: join_provider_def)

lemma join_model_frame:
  "models w' = models w \<Longrightarrow> model_providers w' = model_providers w \<Longrightarrow>
     join_model w' = join_model w"
  by (rule ext) (simp add: join_model_def cong: option.case_cong)

lemma listProviders_frame:
  "model_providers w' = model_providers w \<Longrightarrow> listProviders w' = listProviders w"
  by (simp add: listProviders_def)

lemma listModelsWithProviderInfo_frame:
  "models w' = models w \<Longrightarrow> model_providers w' = model_providers w \<Longrightarrow>
     listModelsWithProviderInfo w' = listModelsWithProviderInfo w"
  using join_provider_frame [of w' w] by (simp add: listModelsWithProviderInfo_def)

lemma listAgentTypesWithModelInfo_frame:
  "agent_roles w' = agent_roles w \<Longrightarrow> models w' = models w \<Longrightarrow>
     model_providers w' = model_providers w \<Longrightarrow>
     listAgentTypesWithModelInfo w' = listAgentTypesWithModelInfo w"
  using join_model_frame [of w' w] by (simp add: listAgentTypesWithModelInfo_def)

lemma getAllTasks_frame: "tasks w' = tasks w \<Longrightarrow> getAllTasks w' = getAllTasks w"
  by (simp add: getAllTasks_def)

lemma tables_save [simp]:
  "model_providers (save_providers n ps w) = model_providers w"
  "models (save_providers n ps w) = models w"
  "agent_roles (save_providers n ps w) = agent_roles w"
  "tasks (save_providers n ps w) = tasks w"
  "model_providers (save_models n ms w) = model_providers w"
  "models (save_models n ms w) = models w"
  "agent_roles (save_models n ms w) = agent_roles w"
  "tasks (save_models n ms w) = tasks w"
  "model_providers (save_agents n as w) = model_providers w"
  "models (save_agents n as w) = models w"
  "agent_roles (save_agents n as w) = agent_roles w"
  "tasks (save_agents n as w) = tasks w"
  "model_providers (save_tasks n ts w) = model_providers w"
  "models (save_tasks n ts w) = models w"
  "agent_roles (save_tasks n ts w) = agent_roles w"
  "tasks (save_tasks n ts w) = tasks w"
  by (simp_all add: save_providers_def save_models_def save_agents_def save_tasks_def)

lemma lists_console [simp]:
  "listProviders (console_log l w) = listProviders w"
  "listModelsWithProviderInfo (console_log l w) = listModelsWithProviderInfo w"
  "listAgentTypesWithModelInfo (console_log l w) = listAgentTypesWithModelInfo w"
  "getAllTasks (console_log l w) = getAllTasks w"
  by (rule listProviders_frame listModelsWithProviderInfo_frame
        listAgentTypesWithModelInfo_frame getAllTasks_frame; simp)+

lemma lists_save [simp]:
  "listModelsWithProviderInfo (save_providers n ps w) = listModelsWithProviderInfo w"
  "listAgentTypesWithModelInfo (save_providers n ps w) = listAgentTypesWithModelInfo w"
  "listAgentTypesWithModelInfo (save_models n ms w) = listAgentTypesWithModelInfo w"
  "getAllTasks (save_providers n ps w) = getAllTasks w"
  "getAllTasks (save_models n ms w) = getAllTasks w"
  "getAllTasks (save_agents n as w) = getAllTasks w"
  by (rule listModelsWithProviderInfo_frame listAgentTypesWithModelInfo_frame
        getAllTasks_frame; simp)+

lemma files_save [simp]:
  "providers_yaml (templates (save_providers n ps w) n) = Some ps"
  "providers_yaml (templates (save_models n ms w) n) = providers_yaml (templates w n)"
  "providers_yaml (templates (save_agents n as w) n) = providers_yaml (templates w n)"
  "providers_yaml (templates (save_tasks n ts w) n) = providers_yaml (templates w n)"
  "models_yaml (templates (save_models n ms w) n) = Some ms"
  "models_yaml (templates (save_agents n as w) n) = models_yaml (templates w n)"
  "models_yaml (templates (save_tasks n ts w) n) = models_yaml (templates w n)"
  "agents_yaml (templates (save_agents n as w) n) = Some as"
  "agents_yaml (templates (save_tasks n ts w) n) = agents_yaml (templates w n)"
  "tasks_yaml (templates (save_tasks n ts w) n) = Some ts"
  by (simp_all add: save_providers_def save_models_def save_agents_def save_tasks_def)

text \<open>
  An export succeeds exactly when every stored tool list parses. It leaves the tables
  as they are and writes the four lists of records into the folder.
\<close>

lemma exportTemplate_Inr:
  assumes "map_throwing export_agent (listAgentTypesWithModelInfo w) = Inr as"
  shows "\<exists>w1. exportTemplate name w = Inr w1
    \<and> model_providers w1 = model_providers w \<and> models w1 = models w
    \<and> agent_roles w1 = agent_roles w \<and> tasks w1 = tasks w
    \<and> providers_yaml (templates w1 name) = Some (map export_provider (listProviders w))
    \<and> models_yaml (templates w1 name) = Some (map export_model (listModelsWithProviderInfo w))
    \<and> agents_yaml (templates w1 name) = Some as
    \<and> tasks_yaml (templates w1 name) = Some (map export_task (getAllTasks w))"
  using assms by (simp add: exportTemplate_def Let_def)

lemma exportTemplate_parses:
  assumes "exportTemplate name w = Inr w1"
  shows "\<exists>as. map_throwing export_agent (listAgentTypesWithModelInfo w) = Inr as"
proof (cases "map_throwing export_agent (listAgentTypesWithModelInfo w)")
  case (Inl e)
  then have "exportTemplate name w
     = Inl (e, console_log (LogWrote (length (listModelsWithProviderInfo w)) ''models'')
                 (save_models name (map export_model (listModelsWithProviderInfo w))
                   (console_log (LogWrote (length (listProviders w)) ''providers'')
                     (save_providers name (map export_provider (listProviders w)) w))))"
    by (simp add: exportTemplate_def Let_def)
  with assms show ?thesis by simp
next
  case (Inr as)
  then show ?thesis by blast
qed

subsection \<open>The providers loop on exported records\<close>

lemma fold_max_mem: "i \<in> set ids \<Longrightarrow> i \<le> fold max ids (seq::int)"
proof (induction ids arbitrary: seq)
  case Nil
  then show ?case by simp
next
  case (Cons a ids)
  show ?case
  proof (cases "i = a")
    case True
    have "a \<le> max a seq" by simp
    also have "\<dots> \<le> fold max ids (max a seq)" by (rule fold_max_ge)
    finally show ?thesis using True by simp
  next
    case False
    with Cons.prems have "i \<in> set ids" by simp
    then show ?thesis using Cons.IH by simp
  qed
qed

lemma next_id_fresh: "next_id seq ids \<notin> set ids"
proof
  assume "next_id seq ids \<in> set ids"
  then have "next_id seq ids \<le> fold max ids seq" by (rule fold_max_mem)
  then show False by (simp add: next_id_def)
qed

lemma or_str_empty [simp]: "or_str (Val x) [] = x"
  by simp

lemma createOrUpdateProvider_insert:
  assumes "safeDisplayName (Val d) (Val n) = Val d"
    and "n \<notin> p_provider_name ` set (model_providers v)"
  shows "createOrUpdateProvider
           \<lparr>cp_id = Undefined, cp_provider_name = Val n, cp_display_name = Val d,
            cp_extra_info = Val x\<rparr> v
         = Inr (v\<lparr>model_providers := model_providers v @
                     [\<lparr>p_id = next_id (model_providers_seq v) (map p_id (model_providers v)),
                       p_provider_name = n, p_display_name = d, p_extra_info = Some x\<rparr>],
                   model_providers_seq :=
                     next_id (model_providers_seq v) (map p_id (model_providers v))\<rparr>)"
proof -
  have no: "\<not> list_ex (\<lambda>r. p_provider_name r = n) (model_providers v)"
    using assms(2) by (auto simp: list_ex_iff)
  show ?thesis
    by (simp add: createOrUpdateProvider_def Let_def no assms(1))
qed

lemma import_providers_fresh:
  assumes "distinct (map p_provider_name ps)"
    and "\<forall>p \<in> set ps. p_extra_info p \<noteq> None
           \<and> safeDisplayName (Val (p_display_name p)) (Val (p_provider_name p))
               = Val (p_display_name p)"
    and "\<forall>p \<in> set ps. p_provider_name p \<notin> p_provider_name ` set (model_providers v)"
    and "distinct (map p_id (model_providers v))"
  shows "\<exists>v' X. import_providers (map export_provider ps) v = Inr v'
      \<and> model_providers v' = model_providers v @ X
      \<and> map export_provider X = map export_provider ps
      \<and> distinct (map p_id (model_providers v'))
      \<and> models v' = models v \<and> agent_roles v' = agent_roles v \<and> tasks v' = tasks v
      \<and> templates v' = templates v"
  using assms
proof (induction ps arbitrary: v)
  case Nil
  then show ?case by simp
next
  case (Cons p ps)
  obtain x where x: "p_extra_info p = Some x"
    using Cons.prems(2) by auto
  let ?n = "p_provider_name p" and ?d = "p_display_name p"
  let ?i = "next_id (model_providers_seq v) (map p_id (model_providers v))"
  let ?row = "\<lparr>p_id = ?i, p_provider_name = ?n, p_display_name = ?d, p_extra_info = Some x\<rparr>"
  let ?v1 = "v\<lparr>model_providers := model_providers v @ [?row], model_providers_seq := ?i\<rparr>"
  let ?v2 = "console_log (LogUpserted ''provider'' ?n) ?v1"
  have entry: "export_provider p
      = \<lparr>y_provider_name = Val ?n, y_display_name = Val ?d, y_extra_info = Val x\<rparr>"
    by (simp add: export_provider_def x)
  have same: "export_provider ?row = export_provider p"
    by (simp add: export_provider_def x)
  have safe: "safeDisplayName (Val ?d) (Val ?n) = Val ?d"
    using Cons.prems(2) by simp
  have fresh: "?n \<notin> p_provider_name ` set (model_providers v)"
    using Cons.prems(3) by simp
  have step: "createOrUpdateProvider
           \<lparr>cp_id = Undefined, cp_provider_name = Val ?n, cp_display_name = Val ?d,
            cp_extra_info = Val x\<rparr> v = Inr ?v1"
    by (rule createOrUpdateProvider_insert [OF safe fresh])
  have unfold: "import_providers (map export_provider (p # ps)) v
      = import_providers (map export_provider ps) ?v2"
    by (simp add: entry step)
  have tab: "model_providers ?v2 = model_providers v @ [?row]"
    by simp
  have p1: "distinct (map p_provider_name ps)"
    using Cons.prems(1) by simp
  have p2: "\<forall>p \<in> set ps. p_extra_info p \<noteq> None
           \<and> safeDisplayName (Val (p_display_name p)) (Val (p_provider_name p))
               = Val (p_display_name p)"
    using Cons.prems(2) by simp
  have ne: "p_provider_name q \<noteq> ?n" if "q \<in> set ps" for q
  proof
    assume "p_provider_name q = ?n"
    with that have "?n \<in> p_provider_name ` set ps" by (metis imageI)
    then show False using Cons.prems(1) by simp
  qed
  have p3: "\<forall>q \<in> set ps. p_provider_name q \<notin> p_provider_name ` set (model_providers ?v2)"
    using Cons.prems(3) ne by (auto simp: tab)
  have p4: "distinct (map p_id (model_providers ?v2))"
    using Cons.prems(4) next_id_fresh [of "model_providers_seq v" "map p_id (model_providers v)"]
    by (simp add: tab)
  obtain v' X where r:
      "import_providers (map export_provider ps) ?v2 = Inr v'"
      "model_providers v' = model_providers ?v2 @ X"
      "map export_provider X = map export_provider ps"
      "distinct (map p_id (model_providers v'))"
      "models v' = models ?v2" "agent_roles v' = agent_roles ?v2" "tasks v' = tasks ?v2"
      "templates v' = templates ?v2"
    using Cons.IH [OF p1 p2 p3 p4] by blast
  have r2: "model_providers v' = model_providers v @ (?row # X)"
    using r(2) by (simp add: tab)
  have r3: "map export_provider (?row # X) = map export_provider (p # ps)"
    using r(3) same by simp
  have r5: "models v' = models v" using r(5) by simp
  have r6: "agent_roles v' = agent_roles v" using r(6) by simp
  have r7: "tasks v' = tasks v" using r(7) by simp
  have r8: "templates v' = templates v" using r(8) by simp
  from unfold r(1) have r1: "import_providers (map export_provider (p # ps)) v = Inr v'"
    by simp
  from r1 r2 r3 r(4) r5 r6 r7 r8 show ?case by blast
qed

subsection \<open>The tasks loop on exported records\<close>

lemma bind_unbind [simp]: "bind (unbind x) = x"
  by (cases x) simp_all

lemma unbind_defined [simp]: "unbind x \<noteq> Undefined"
  by (cases x) simp_all

lemma createTask_insert:
  assumes "n \<notin> t_task_name ` set (tasks v)" and "pr \<noteq> Undefined"
  shows "createTask (Val n) pr v
         = Inr (v\<lparr>tasks := tasks v @
                     [\<lparr>t_id = next_id (tasks_seq v) (map t_id (tasks v)),
                       t_task_name = n, t_task_prompt = bind pr\<rparr>],
                   tasks_seq := next_id (tasks_seq v) (map t_id (tasks v))\<rparr>)"
proof -
  have no: "\<not> list_ex (\<lambda>r. t_task_name r = n) (tasks v)"
    using assms(1) by (auto simp: list_ex_iff)
  show ?thesis
    using assms(2) by (cases pr) (simp_all add: createTask_def Let_def no)
qed

lemma import_tasks_fresh:
  assumes "distinct (map t_task_name ts)"
    and "\<forall>t \<in> set ts. t_task_name t \<notin> t_task_name ` set (tasks v)"
  shows "\<exists>v' X. import_tasks (map export_task ts) v = Inr v'
      \<and> tasks v' = tasks v @ X
      \<and> map export_task X = map export_task ts
      \<and> model_providers v' = model_providers v \<and> models v' = models v
      \<and> agent_roles v' = agent_roles v \<and> templates v' = templates v"
  using assms
proof (induction ts arbitrary: v)
  case Nil
  then show ?case by simp
next
  case (Cons t ts)
  let ?n = "t_task_name t"
  let ?i = "next_id (tasks_seq v) (map t_id (tasks v))"
  let ?row = "\<lparr>t_id = ?i, t_task_name = ?n, t_task_prompt = t_task_prompt t\<rparr>"
  let ?v1 = "v\<lparr>tasks := tasks v @ [?row], tasks_seq := ?i\<rparr>"
  let ?v2 = "console_log (LogUpserted ''task'' ?n) ?v1"
  have same: "export_task ?row = export_task t"
    by (simp add: export_task_def)
  have fresh: "?n \<notin> t_task_name ` set (tasks v)"
    using Cons.prems(2) by simp
  have step: "createTask (Val ?n) (unbind (t_task_prompt t)) v = Inr ?v1"
    using createTask_insert [OF fresh, of "unbind (t_task_prompt t)"] by simp
  have unfold: "import_tasks (map export_task (t # ts)) v
      = import_tasks (map export_task ts) ?v2"
    by (simp add: export_task_def step)
  have tab: "tasks ?v2 = tasks v @ [?row]"
    by simp
  have p1: "distinct (map t_task_name ts)"
    using Cons.prems(1) by simp
  have ne: "t_task_name q \<noteq> ?n" if "q \<in> set ts" for q
  proof
    assume "t_task_name q = ?n"
    with that have "?n \<in> t_task_name ` set ts" by (metis imageI)
    then show False using Cons.prems(1) by simp
  qed
  have p2: "\<forall>q \<in> set ts. t_task_name q \<notin> t_task_name ` set (tasks ?v2)"
    using Cons.prems(2) ne by (auto simp: tab)
  obtain v' X where r:
      "import_tasks (map export_task ts) ?v2 = Inr v'"
      "tasks v' = tasks ?v2 @ X"
      "map export_task X = map export_task ts"
      "model_providers v' = model_providers ?v2" "models v' = models ?v2"
      "agent_roles v' = agent_roles ?v2" "templates v' = templates ?v2"
    using Cons.IH [OF p1 p2] by blast
  have r2: "tasks v' = tasks v @ (?row # X)"
    using r(2) by (simp add: tab)
  have r3: "map export_task (?row # X) = map export_task (t # ts)"
    using r(3) same by simp
  have r4: "model_providers v' = model_providers v" using r(4) by simp
  have r5: "models v' = models v" using r(5) by simp
  have r6: "agent_roles v' = agent_roles v" using r(6) by simp
  have r7: "templates v' = templates v" using r(7) by simp
  from unfold r(1) have r1: "import_tasks (map export_task (t # ts)) v = Inr v'"
    by simp
  from r1 r2 r3 r4 r5 r6 r7 show ?case by blast
qed

subsection \<open>The models loop on exported records\<close>

lemma createOrUpdateModel_insert:
  assumes "ex \<noteq> Undefined"
    and "\<not> list_ex (\<lambda>r. m_provider_id r = i \<and> m_model_name r = mn) (models v)"
  shows "createOrUpdateModel
           \<lparr>cm_id = Undefined, cm_provider_id = Val i, cm_model_name = Val mn,
            cm_display_name = Val d, cm_extra_info = ex, cm_supports_reasoning = Val b\<rparr> v
         = Inr (v\<lparr>models := models v @
                     [\<lparr>m_id = next_id (models_seq v) (map m_id (models v)),
                       m_provider_id = i, m_model_name = mn, m_display_name = d,
                       m_extra_info = bind ex,
                       m_supports_reasoning = (if b then 1 else 0)\<rparr>],
                   models_seq := next_id (models_seq v) (map m_id (models v))\<rparr>)"
  using assms by (cases ex) (simp_all add: createOrUpdateModel_def Let_def)

lemma import_models_fresh:
  assumes "\<forall>m \<in> set ms. \<exists>pn i p. mp_provider_name m = Some pn \<and> pm pn = Some i
             \<and> find (\<lambda>p. p_id p = i) (model_providers v) = Some p \<and> p_provider_name p = pn"
    and "distinct (map (\<lambda>m. (mp_provider_name m, m_model_name (mp_row m))) ms)"
    and "\<forall>m \<in> set ms. (mp_provider_name m, m_model_name (mp_row m))
             \<notin> (\<lambda>r. (mp_provider_name (join_provider v r), m_model_name r)) ` set (models v)"
    and "distinct (map m_id (models v))"
  shows "\<exists>v' Y. import_models pm (map export_model ms) v = Inr v'
      \<and> models v' = models v @ Y
      \<and> map (\<lambda>r. export_model (join_provider v r)) Y = map export_model ms
      \<and> (\<forall>y \<in> set Y. m_supports_reasoning y = 0 \<or> m_supports_reasoning y = 1)
      \<and> distinct (map m_id (models v'))
      \<and> model_providers v' = model_providers v \<and> agent_roles v' = agent_roles v
      \<and> tasks v' = tasks v \<and> templates v' = templates v"
  using assms
proof (induction ms arbitrary: v)
  case Nil
  then show ?case by simp
next
  case (Cons m ms)
  obtain pn i p where link: "mp_provider_name m = Some pn" "pm pn = Some i"
      "find (\<lambda>p. p_id p = i) (model_providers v) = Some p" "p_provider_name p = pn"
    using Cons.prems(1) by auto
  let ?mn = "m_model_name (mp_row m)" and ?d = "m_display_name (mp_row m)"
  let ?ex = "m_extra_info (mp_row m)" and ?b = "m_supports_reasoning (mp_row m) \<noteq> 0"
  let ?i = "next_id (models_seq v) (map m_id (models v))"
  let ?row = "\<lparr>m_id = ?i, m_provider_id = i, m_model_name = ?mn, m_display_name = ?d,
               m_extra_info = ?ex, m_supports_reasoning = (if ?b then 1 else 0)\<rparr>"
  let ?v1 = "v\<lparr>models := models v @ [?row], models_seq := ?i\<rparr>"
  let ?v2 = "console_log (LogUpserted ''model'' (pn @ ''/'' @ ?mn)) ?v1"
  have entry: "export_model m
      = \<lparr>ym_provider_name = Val pn, ym_model_name = Val ?mn, ym_display_name = Val ?d,
         ym_extra_info = unbind ?ex, ym_supports_reasoning = Val ?b\<rparr>"
    by (simp add: export_model_def link(1))
  have joined: "mp_provider_name (join_provider v r) = Some pn" if "m_provider_id r = i" for r
    using that link(3,4) by (simp add: join_provider_def)
  have same: "export_model (join_provider v ?row) = export_model m"
    using joined [of ?row] by (simp add: export_model_def link(1))
  have no: "\<not> list_ex (\<lambda>r. m_provider_id r = i \<and> m_model_name r = ?mn) (models v)"
  proof
    assume "list_ex (\<lambda>r. m_provider_id r = i \<and> m_model_name r = ?mn) (models v)"
    then obtain r where r: "r \<in> set (models v)" "m_provider_id r = i" "m_model_name r = ?mn"
      by (auto simp: list_ex_iff)
    have "(mp_provider_name m, ?mn)
        = (\<lambda>r. (mp_provider_name (join_provider v r), m_model_name r)) r"
      using joined [OF r(2)] r(3) link(1) by simp
    then have "(mp_provider_name m, ?mn)
        \<in> (\<lambda>r. (mp_provider_name (join_provider v r), m_model_name r)) ` set (models v)"
      using r(1) by (rule image_eqI)
    then show False using Cons.prems(3) by simp
  qed
  have step: "createOrUpdateModel
           \<lparr>cm_id = Undefined, cm_provider_id = Val i, cm_model_name = Val ?mn,
            cm_display_name = Val ?d, cm_extra_info = unbind ?ex,
            cm_supports_reasoning = Val ?b\<rparr> v = Inr ?v1"
    using createOrUpdateModel_insert [where d = ?d and b = ?b, OF unbind_defined no] by simp
  have unfold: "import_models pm (map export_model (m # ms)) v
      = import_models pm (map export_model ms) ?v2"
    by (simp add: entry map_get_def link(2) step)
  have tab: "models ?v2 = models v @ [?row]"
    by simp
  have prov: "model_providers ?v2 = model_providers v"
    by simp
  have jp: "join_provider ?v2 = join_provider v"
    by (rule join_provider_frame) simp
  have p1: "\<forall>m \<in> set ms. \<exists>pn i p. mp_provider_name m = Some pn \<and> pm pn = Some i
             \<and> find (\<lambda>p. p_id p = i) (model_providers ?v2) = Some p \<and> p_provider_name p = pn"
    using Cons.prems(1) by (simp add: prov)
  have p2: "distinct (map (\<lambda>m. (mp_provider_name m, m_model_name (mp_row m))) ms)"
    using Cons.prems(2) by simp
  have ne: "(mp_provider_name q, m_model_name (mp_row q)) \<noteq> (Some pn, ?mn)"
    if "q \<in> set ms" for q
  proof
    assume "(mp_provider_name q, m_model_name (mp_row q)) = (Some pn, ?mn)"
    then have "(mp_provider_name m, ?mn)
        = (\<lambda>m. (mp_provider_name m, m_model_name (mp_row m))) q"
      using link(1) by simp
    then have "(mp_provider_name m, ?mn)
        \<in> (\<lambda>m. (mp_provider_name m, m_model_name (mp_row m))) ` set ms"
      using that by (rule image_eqI)
    then show False using Cons.prems(2) by simp
  qed
  have p3: "\<forall>q \<in> set ms. (mp_provider_name q, m_model_name (mp_row q))
             \<notin> (\<lambda>r. (mp_provider_name (join_provider ?v2 r), m_model_name r)) ` set (models ?v2)"
  proof
    fix q assume q: "q \<in> set ms"
    have old: "(mp_provider_name q, m_model_name (mp_row q))
             \<notin> (\<lambda>r. (mp_provider_name (join_provider v r), m_model_name r)) ` set (models v)"
      using Cons.prems(3) q by simp
    have new: "(mp_provider_name q, m_model_name (mp_row q))
             \<noteq> (mp_provider_name (join_provider v ?row), m_model_name ?row)"
      using ne [OF q] joined [of ?row] by simp
    show "(mp_provider_name q, m_model_name (mp_row q))
             \<notin> (\<lambda>r. (mp_provider_name (join_provider ?v2 r), m_model_name r)) ` set (models ?v2)"
      unfolding jp tab using old new by simp
  qed
  have p4: "distinct (map m_id (models ?v2))"
    using Cons.prems(4) next_id_fresh [of "models_seq v" "map m_id (models v)"]
    by (simp add: tab)
  obtain v' Y where r:
      "import_models pm (map export_model ms) ?v2 = Inr v'"
      "models v' = models ?v2 @ Y"
      "map (\<lambda>r. export_model (join_provider ?v2 r)) Y = map export_model ms"
      "distinct (map m_id (models v'))"
      "model_providers v' = model_providers ?v2" "agent_roles v' = agent_roles ?v2"
      "tasks v' = tasks ?v2" "templates v' = templates ?v2"
      "\<forall>y \<in> set Y. m_supports_reasoning y = 0 \<or> m_supports_reasoning y = 1"
    using Cons.IH [OF p1 p2 p3 p4] by blast
  have r9: "\<forall>y \<in> set (?row # Y). m_supports_reasoning y = 0 \<or> m_supports_reasoning y = 1"
    using r(9) by simp
  have r2: "models v' = models v @ (?row # Y)"
    using r(2) by (simp add: tab)
  have r3: "map (\<lambda>r. export_model (join_provider v r)) (?row # Y) = map export_model (m # ms)"
    using r(3) same unfolding jp by simp
  have r5: "model_providers v' = model_providers v" using r(5) by simp
  have r6: "agent_roles v' = agent_roles v" using r(6) by simp
  have r7: "tasks v' = tasks v" using r(7) by simp
  have r8: "templates v' = templates v" using r(8) by simp
  from unfold r(1) have r1: "import_models pm (map export_model (m # ms)) v = Inr v'"
    by simp
  from r1 r2 r3 r9 r(4) r5 r6 r7 r8 show ?case by blast
qed

subsection \<open>The agents loop on exported records\<close>

lemma am_row_join [simp]: "am_row (join_model w r) = r"
  by (simp add: join_model_def Let_def)

lemma unbind_bind: "x \<noteq> Undefined \<Longrightarrow> unbind (bind x) = x"
  by (cases x) simp_all

lemma setAgentDetails_insert:
  assumes "d_agent_role d = Val r" and "r \<noteq> []"
    and "r \<notin> a_agent_role ` set (agent_roles v)"
  shows "setAgentDetails d v
         = Inr (v\<lparr>agent_roles := agent_roles v @
                     [insert_agent_row (next_id (agent_roles_seq v) (map a_id (agent_roles v)))
                        r d (JSON_stringify (ensureDefaultTool (d_allowed_tools d)))],
                   agent_roles_seq :=
                     next_id (agent_roles_seq v) (map a_id (agent_roles v))\<rparr>)"
proof -
  have "find (\<lambda>x. a_agent_role x = r) (agent_roles v) = None"
    using assms(3) by (auto simp: find_None_iff)
  then show ?thesis
    using assms(1,2) by (simp add: setAgentDetails_def Let_def)
qed

lemma agent_entry_ok_frame:
  assumes "models v' = models v" and "model_providers v' = model_providers v"
  shows "agent_entry_ok v' mm e = agent_entry_ok v mm e"
  using assms join_provider_frame [of v' v] by (simp add: agent_entry_ok_def)

text \<open>What the loop resolves an agent record's model to.\<close>

lemma resolve_model_ok:
  assumes "agent_entry_ok v mm e"
  shows "\<exists>mid l. resolve_model mm e v = (mid, console_log l v) \<and> mid \<noteq> Undefined
     \<and> ((mid = Null \<and> ya_model_name e = Null)
          \<or> ((\<exists>i. mid = Val i) \<and> ya_model_name e \<noteq> Null))
     \<and> (\<forall>k r. am_provider_name
                 (join_model v (insert_agent_row k r (spread_agent e mid)
                    (JSON_stringify (ensureDefaultTool (ya_allowed_tools e)))))
               = bind (ya_provider_name e)
             \<and> am_model_name
                 (join_model v (insert_agent_row k r (spread_agent e mid)
                    (JSON_stringify (ensureDefaultTool (ya_allowed_tools e)))))
               = bind (ya_model_name e))"
proof -
  consider (none) "ya_provider_name e = Null" "ya_model_name e = Null"
    | (linked) pn mn i m where "ya_provider_name e = Val pn" "ya_model_name e = Val mn"
        "pn \<noteq> []" "mn \<noteq> []" "mm (model_key (Val pn) (Val mn)) = Some i"
        "find (\<lambda>m. m_id m = i) (models v) = Some m" "m_model_name m = mn"
        "mp_provider_name (join_provider v m) = Some pn"
    using assms unfolding agent_entry_ok_def by blast
  then show ?thesis
  proof cases
    case none
    have res: "resolve_model mm e v = (Null, console_log (LogNoModel (interpolate (ya_agent_role e))) v)"
      by (simp add: resolve_model_def none)
    have names: "am_provider_name
                 (join_model v (insert_agent_row k r (spread_agent e Null)
                    (JSON_stringify (ensureDefaultTool (ya_allowed_tools e)))))
               = bind (ya_provider_name e)
             \<and> am_model_name
                 (join_model v (insert_agent_row k r (spread_agent e Null)
                    (JSON_stringify (ensureDefaultTool (ya_allowed_tools e)))))
               = bind (ya_model_name e)" for k r
      by (simp add: join_model_def insert_agent_row_def spread_agent_def none)
    from res names none(2) show ?thesis by blast
  next
    case linked
    let ?key = "model_key (Val pn) (Val mn)"
    have res: "resolve_model mm e v
        = (Val i, console_log (LogLinking (interpolate (ya_agent_role e)) ?key) v)"
      by (simp add: resolve_model_def linked map_get_def Let_def)
    have prov: "map_option p_provider_name
        (find (\<lambda>p. p_id p = m_provider_id m) (model_providers v)) = Some pn"
      using linked(8) by (simp add: join_provider_def Let_def)
    have names: "am_provider_name
                 (join_model v (insert_agent_row k r (spread_agent e (Val i))
                    (JSON_stringify (ensureDefaultTool (ya_allowed_tools e)))))
               = bind (ya_provider_name e)
             \<and> am_model_name
                 (join_model v (insert_agent_row k r (spread_agent e (Val i))
                    (JSON_stringify (ensureDefaultTool (ya_allowed_tools e)))))
               = bind (ya_model_name e)" for k r
      by (simp add: join_model_def insert_agent_row_def spread_agent_def linked prov)
    have "ya_model_name e \<noteq> Null"
      by (simp add: linked)
    with res names show ?thesis by blast
  qed
qed

lemma export_inserted_agent:
  assumes ok: "agent_entry_ok v mm e" and role: "ya_agent_role e = Val r"
    and names: "am_provider_name (join_model v row) = bind (ya_provider_name e)"
               "am_model_name (join_model v row) = bind (ya_model_name e)"
    and row: "row = insert_agent_row k r (spread_agent e mid)
                      (JSON_stringify (ensureDefaultTool (ya_allowed_tools e)))"
  shows "export_agent (join_model v row) = Inr (normalise_tools e)"
proof -
  obtain d dp up l c ts where f: "ya_agent_description e = Val d"
      "ya_default_developer_prompt e = Val dp" "ya_default_user_prompt e = Val up"
      "ya_reasoning_level e = Val l" "l \<noteq> []" "ya_tool_choice e = Val c" "c \<noteq> []"
      "ya_allowed_tools e = Some ts"
    using ok unfolding agent_entry_ok_def by blast
  have defined: "ya_provider_name e \<noteq> Undefined" "ya_model_name e \<noteq> Undefined"
    using ok unfolding agent_entry_ok_def by auto
  have tools: "a_allowed_tools row = Some (ToolsJson (ensureDefaultTool (Some ts)))"
    by (simp add: row insert_agent_row_def JSON_stringify_def f)
  have fields: "a_agent_role row = r" "a_agent_description row = Some d"
      "a_default_developer_prompt row = Some dp" "a_default_user_prompt row = Some up"
      "a_reasoning_level row = Some l" "a_tool_choice row = Some c"
    using f(5,7) by (simp_all add: row insert_agent_row_def spread_agent_def f)
  have exported: "export_agent (join_model v row)
      = Inr \<lparr>ya_agent_role = Val r, ya_agent_description = Val d,
             ya_allowed_tools = Some (ensureDefaultTool (Some ts)),
             ya_default_developer_prompt = Val dp, ya_default_user_prompt = Val up,
             ya_reasoning_level = Val l, ya_tool_choice = Val c,
             ya_provider_name = ya_provider_name e, ya_model_name = ya_model_name e\<rparr>"
    by (simp add: export_agent_def Let_def tools fields names unbind_bind defined)
  have "normalise_tools e
      = \<lparr>ya_agent_role = Val r, ya_agent_description = Val d,
         ya_allowed_tools = Some (ensureDefaultTool (Some ts)),
         ya_default_developer_prompt = Val dp, ya_default_user_prompt = Val up,
         ya_reasoning_level = Val l, ya_tool_choice = Val c,
         ya_provider_name = ya_provider_name e, ya_model_name = ya_model_name e\<rparr>"
    by (rule agent_entry.equality) (simp_all add: normalise_tools_def role f)
  with exported show ?thesis by simp
qed

lemma import_agents_fresh:
  assumes "\<forall>e \<in> set es. agent_entry_ok v mm e"
    and "distinct (map ya_agent_role es)"
    and "\<forall>e \<in> set es. \<forall>a \<in> set (agent_roles v). ya_agent_role e \<noteq> Val (a_agent_role a)"
  shows "\<exists>v' Z. import_agents mm es v = Inr v'
      \<and> agent_roles v' = agent_roles v @ Z
      \<and> map (\<lambda>z. export_agent (join_model v z)) Z = map (\<lambda>e. Inr (normalise_tools e)) es
      \<and> map (\<lambda>z. a_model_id z = None) Z = map (\<lambda>e. ya_model_name e = Null) es
      \<and> model_providers v' = model_providers v \<and> models v' = models v
      \<and> tasks v' = tasks v \<and> templates v' = templates v"
  using assms
proof (induction es arbitrary: v)
  case Nil
  then show ?case by simp
next
  case (Cons e es)
  have ok: "agent_entry_ok v mm e"
    using Cons.prems(1) by simp
  obtain r where role: "ya_agent_role e = Val r" "r \<noteq> []"
    using ok unfolding agent_entry_ok_def by blast
  obtain mid l where res: "resolve_model mm e v = (mid, console_log l v)"
    and null: "(mid = Null \<and> ya_model_name e = Null)
          \<or> ((\<exists>i. mid = Val i) \<and> ya_model_name e \<noteq> Null)"
    and names: "\<And>k r. am_provider_name
                 (join_model v (insert_agent_row k r (spread_agent e mid)
                    (JSON_stringify (ensureDefaultTool (ya_allowed_tools e)))))
               = bind (ya_provider_name e)
             \<and> am_model_name
                 (join_model v (insert_agent_row k r (spread_agent e mid)
                    (JSON_stringify (ensureDefaultTool (ya_allowed_tools e)))))
               = bind (ya_model_name e)"
    using resolve_model_ok [OF ok] by blast
  let ?v0 = "console_log l v"
  let ?k = "next_id (agent_roles_seq ?v0) (map a_id (agent_roles ?v0))"
  let ?row = "insert_agent_row ?k r (spread_agent e mid)
                (JSON_stringify (ensureDefaultTool (ya_allowed_tools e)))"
  let ?v1 = "?v0\<lparr>agent_roles := agent_roles ?v0 @ [?row], agent_roles_seq := ?k\<rparr>"
  let ?v2 = "console_log (LogUpserted ''agent'' r) ?v1"
  have fresh: "r \<notin> a_agent_role ` set (agent_roles ?v0)"
    using Cons.prems(3) role(1) by auto
  have step: "setAgentDetails (spread_agent e mid) ?v0 = Inr ?v1"
    using setAgentDetails_insert [of "spread_agent e mid" r ?v0, OF _ role(2) fresh]
    by (simp add: spread_agent_def role(1))
  have unfold: "import_agents mm (e # es) v = import_agents mm es ?v2"
    by (simp add: res step role(1))
  have same: "export_agent (join_model v ?row) = Inr (normalise_tools e)"
    using names [of ?k r]
    by (intro export_inserted_agent [OF ok role(1), where k = ?k and mid = mid]) simp_all
  have tab: "agent_roles ?v2 = agent_roles v @ [?row]"
    by simp
  have jm: "join_model ?v2 = join_model v"
    by (rule join_model_frame) simp_all
  have p1: "\<forall>e \<in> set es. agent_entry_ok ?v2 mm e"
  proof
    fix x assume "x \<in> set es"
    then have "agent_entry_ok v mm x" using Cons.prems(1) by simp
    moreover have "agent_entry_ok ?v2 mm x = agent_entry_ok v mm x"
      by (rule agent_entry_ok_frame) simp_all
    ultimately show "agent_entry_ok ?v2 mm x" by simp
  qed
  have p2: "distinct (map ya_agent_role es)"
    using Cons.prems(2) by simp
  have ne: "ya_agent_role q \<noteq> Val r" if "q \<in> set es" for q
  proof
    assume "ya_agent_role q = Val r"
    then have "ya_agent_role e = ya_agent_role q" using role(1) by simp
    then have "ya_agent_role e \<in> ya_agent_role ` set es"
      using that by (rule image_eqI)
    then show False using Cons.prems(2) by simp
  qed
  have rowrole: "a_agent_role ?row = r"
    by (simp add: insert_agent_row_def)
  have p3: "\<forall>q \<in> set es. \<forall>a \<in> set (agent_roles ?v2). ya_agent_role q \<noteq> Val (a_agent_role a)"
    unfolding tab using Cons.prems(3) ne rowrole by auto
  obtain v' Z where q:
      "import_agents mm es ?v2 = Inr v'"
      "agent_roles v' = agent_roles ?v2 @ Z"
      "map (\<lambda>z. export_agent (join_model ?v2 z)) Z = map (\<lambda>e. Inr (normalise_tools e)) es"
      "model_providers v' = model_providers ?v2" "models v' = models ?v2"
      "tasks v' = tasks ?v2" "templates v' = templates ?v2"
      "map (\<lambda>z. a_model_id z = None) Z = map (\<lambda>e. ya_model_name e = Null) es"
    using Cons.IH [OF p1 p2 p3] by blast
  have "a_model_id ?row = bind mid"
    by (simp add: insert_agent_row_def spread_agent_def)
  moreover have "bind mid = None \<longleftrightarrow> ya_model_name e = Null"
    using null by auto
  ultimately have r8: "map (\<lambda>z. a_model_id z = None) (?row # Z)
      = map (\<lambda>e. ya_model_name e = Null) (e # es)"
    using q(8) by simp
  have r2: "agent_roles v' = agent_roles v @ (?row # Z)"
    using q(2) unfolding tab by simp
  have r3: "map (\<lambda>z. export_agent (join_model v z)) (?row # Z)
      = map (\<lambda>e. Inr (normalise_tools e)) (e # es)"
    using q(3) same unfolding jm by simp
  have r4: "model_providers v' = model_providers v" using q(4) by simp
  have r5: "models v' = models v" using q(5) by simp
  have r6: "tasks v' = tasks v" using q(6) by simp
  have r7: "templates v' = templates v" using q(7) by simp
  from unfold q(1) have r1: "import_agents mm (e # es) v = Inr v'"
    by simp
  from r1 r2 r3 r8 r4 r5 r6 r7 show ?case by blast
qed

subsection \<open>Names and keys in an imported store\<close>

lemma distinct_map_sort_key [simp]:
  "distinct (map f (sort_key k xs)) = distinct (map f xs)"
  by (simp add: distinct_map)

lemma distinct_map_of_comp:
  assumes "distinct (map (\<lambda>x. g (f x)) xs)"
  shows "distinct (map f xs)"
  using assms by (induction xs) auto

lemma js_Map_distinct:
  assumes "distinct (map fst l)" and "(k, v) \<in> set l"
  shows "js_Map l k = Some v"
proof -
  have "distinct (map fst (rev l))"
    using assms(1) by (simp add: rev_map [symmetric])
  moreover have "(k, v) \<in> set (rev l)"
    using assms(2) by simp
  ultimately show ?thesis
    unfolding js_Map_def by (rule map_of_is_SomeI)
qed

lemma map_throwing_Inr:
  "map f xs = map Inr ys \<Longrightarrow> map_throwing f xs = Inr ys"
  by (induction xs arbitrary: ys) auto

lemma map_throwing_maps:
  "map_throwing f xs = Inr ys \<Longrightarrow> map f xs = map Inr ys"
  by (induction xs arbitrary: ys) (auto split: sum.splits)

lemma provMap_of_finds:
  assumes "distinct (map p_provider_name (model_providers v))"
    and "distinct (map p_id (model_providers v))"
    and "x \<in> set (model_providers v)"
  shows "provMap_of v (p_provider_name x) = Some (p_id x)"
    and "find (\<lambda>p. p_id p = p_id x) (model_providers v) = Some x"
proof -
  let ?l = "map (\<lambda>p. (p_provider_name p, p_id p)) (listProviders v)"
  have "distinct (map fst ?l)"
    using assms(1) by (simp add: listProviders_def comp_def)
  moreover have "(p_provider_name x, p_id x) \<in> set ?l"
    using assms(3) by (auto simp: listProviders_def)
  ultimately show "provMap_of v (p_provider_name x) = Some (p_id x)"
    unfolding provMap_of_def by (rule js_Map_distinct)
  show "find (\<lambda>p. p_id p = p_id x) (model_providers v) = Some x"
    using assms(2,3) by (rule find_distinct_key)
qed

lemma key_of_model_export:
  "key_of_model m = model_key (ym_provider_name (export_model m)) (ym_model_name (export_model m))"
  by (simp add: key_of_model_def export_model_def)

lemma modelMap_of_finds:
  assumes "distinct (map (\<lambda>r. key_of_model (join_provider v r)) (models v))"
    and "distinct (map m_id (models v))"
    and "y \<in> set (models v)"
  shows "modelMap_of v (key_of_model (join_provider v y)) = Some (m_id y)"
    and "find (\<lambda>m. m_id m = m_id y) (models v) = Some y"
proof -
  let ?l = "map (\<lambda>m. (model_key (unbind (mp_provider_name m)) (Val (m_model_name (mp_row m))),
                        m_id (mp_row m)))
                 (listModelsWithProviderInfo v)"
  have keys: "map fst ?l = map key_of_model (listModelsWithProviderInfo v)"
    by (simp add: comp_def key_of_model_def)
  have dk: "distinct (map key_of_model (listModelsWithProviderInfo v))"
    using assms(1) by (simp add: listModelsWithProviderInfo_def comp_def)
  have "distinct (map fst ?l)"
    unfolding keys by (rule dk)
  moreover have "(key_of_model (join_provider v y), m_id y) \<in> set ?l"
  proof -
    have "join_provider v y \<in> set (listModelsWithProviderInfo v)"
      using assms(3) by (simp add: listModelsWithProviderInfo_def)
    then have "(\<lambda>m. (model_key (unbind (mp_provider_name m)) (Val (m_model_name (mp_row m))),
                        m_id (mp_row m))) (join_provider v y) \<in> set ?l"
      unfolding set_map by (rule imageI)
    then show ?thesis by (simp add: key_of_model_def)
  qed
  ultimately show "modelMap_of v (key_of_model (join_provider v y)) = Some (m_id y)"
    unfolding modelMap_of_def by (rule js_Map_distinct)
  show "find (\<lambda>m. m_id m = m_id y) (models v) = Some y"
    using assms(2,3) by (rule find_distinct_key)
qed

lemma unbind_inject [simp]: "unbind x = unbind y \<longleftrightarrow> x = y"
  by (cases x; cases y) simp_all

lemma export_provider_name:
  "export_provider x = export_provider p \<Longrightarrow> p_provider_name x = p_provider_name p"
  by (simp add: export_provider_def)

lemma export_model_names:
  assumes "export_model a = export_model b"
  shows "mp_provider_name a = mp_provider_name b"
    and "m_model_name (mp_row a) = m_model_name (mp_row b)"
  using assms by (simp_all add: export_model_def)

lemma export_task_name:
  "export_task x = export_task t \<Longrightarrow> t_task_name x = t_task_name t"
  by (simp add: export_task_def)

lemma map_eq_names:
  assumes "map e xs = map e ys" and "\<And>x y. e x = e y \<Longrightarrow> n x = n y"
  shows "map n xs = map n ys"
  using assms(1)
proof (induction xs arbitrary: ys)
  case Nil
  then show ?case by simp
next
  case (Cons x xs)
  then obtain y ys' where ys: "ys = y # ys'" by (cases ys) auto
  with Cons.prems have hd: "e x = e y" and tl: "map e xs = map e ys'" by simp_all
  have "n x = n y" using hd by (rule assms(2))
  moreover have "map n xs = map n ys'" using tl by (rule Cons.IH)
  ultimately show ?case using ys by simp
qed

subsection \<open>A ready store's export is one the import loops take\<close>

lemma find_Some_mem: "find P xs = Some x \<Longrightarrow> x \<in> set xs \<and> P x"
  by (induction xs) (auto split: if_splits)

lemma list_ex_find: "list_ex P xs \<Longrightarrow> \<exists>x. find P xs = Some x"
  by (induction xs) auto

lemma ready_providers:
  assumes "round_trip_ready w"
  shows "distinct (map p_provider_name (listProviders w))"
    and "\<forall>p \<in> set (listProviders w). p_extra_info p \<noteq> None
           \<and> safeDisplayName (Val (p_display_name p)) (Val (p_provider_name p))
               = Val (p_display_name p)"
  using assms by (simp_all add: round_trip_ready_def listProviders_def list_all_iff)

lemma ready_tasks:
  assumes "round_trip_ready w"
  shows "distinct (map t_task_name (getAllTasks w))"
  using assms by (simp add: round_trip_ready_def getAllTasks_def)

text \<open>Every model of a ready store has a provider, whose name is not empty.\<close>

lemma ready_model_provider:
  assumes "round_trip_ready w" and "r \<in> set (models w)"
  shows "\<exists>p. p \<in> set (model_providers w) \<and> p_provider_name p \<noteq> []
           \<and> mp_provider_name (join_provider w r) = Some (p_provider_name p)
           \<and> m_model_name r \<noteq> []"
proof -
  have ex: "list_ex (\<lambda>p. p_id p = m_provider_id r) (model_providers w)"
    and mn: "m_model_name r \<noteq> []"
    using assms by (simp_all add: round_trip_ready_def list_all_iff)
  obtain p where p: "find (\<lambda>p. p_id p = m_provider_id r) (model_providers w) = Some p"
    using list_ex_find [OF ex] by blast
  then have mem: "p \<in> set (model_providers w)"
    using find_Some_mem by fastforce
  have "p_provider_name p \<noteq> []"
    using assms(1) mem by (simp add: round_trip_ready_def list_all_iff)
  moreover have "mp_provider_name (join_provider w r) = Some (p_provider_name p)"
    by (simp add: join_provider_def p)
  ultimately show ?thesis using mem mn by blast
qed

lemma ready_model_pairs:
  assumes "round_trip_ready w"
  shows "distinct (map (\<lambda>m. (mp_provider_name m, m_model_name (mp_row m)))
                     (listModelsWithProviderInfo w))"
proof -
  let ?pair = "\<lambda>r. (mp_provider_name (join_provider w r), m_model_name r)"
  let ?g = "\<lambda>pr. model_key (unbind (fst pr)) (Val (snd pr))"
  have "distinct (map (\<lambda>r. key_of_model (join_provider w r)) (models w))"
    using assms by (simp add: round_trip_ready_def)
  then have "distinct (map (\<lambda>r. ?g (?pair r)) (models w))"
    by (simp add: key_of_model_def)
  then have "distinct (map ?pair (models w))"
    by (rule distinct_map_of_comp)
  then show ?thesis
    by (simp add: listModelsWithProviderInfo_def comp_def)
qed

lemma ready_models:
  assumes ready: "round_trip_ready w"
    and same: "map export_provider (model_providers v) = map export_provider (listProviders w)"
    and ids: "distinct (map p_id (model_providers v))"
  shows "\<forall>m \<in> set (listModelsWithProviderInfo w).
           \<exists>pn i p. mp_provider_name m = Some pn \<and> provMap_of v pn = Some i
             \<and> find (\<lambda>p. p_id p = i) (model_providers v) = Some p \<and> p_provider_name p = pn"
proof
  fix m assume "m \<in> set (listModelsWithProviderInfo w)"
  then obtain r where r: "r \<in> set (models w)" "m = join_provider w r"
    by (auto simp: listModelsWithProviderInfo_def)
  obtain p where p: "p \<in> set (model_providers w)"
      "mp_provider_name (join_provider w r) = Some (p_provider_name p)"
    using ready_model_provider [OF ready r(1)] by blast
  have names: "map p_provider_name (model_providers v) = map p_provider_name (listProviders w)"
    using same export_provider_name by (rule map_eq_names)
  have dn: "distinct (map p_provider_name (model_providers v))"
    unfolding names by (rule ready_providers(1) [OF ready])
  have "export_provider p \<in> set (map export_provider (listProviders w))"
    using p(1) by (simp add: listProviders_def)
  then have "export_provider p \<in> set (map export_provider (model_providers v))"
    unfolding same .
  then obtain x where x: "x \<in> set (model_providers v)" "export_provider x = export_provider p"
    by auto
  have xn: "p_provider_name x = p_provider_name p"
    using x(2) by (rule export_provider_name)
  have "provMap_of v (p_provider_name x) = Some (p_id x)"
    and "find (\<lambda>q. p_id q = p_id x) (model_providers v) = Some x"
    using provMap_of_finds [OF dn ids x(1)] by simp_all
  then show "\<exists>pn i p. mp_provider_name m = Some pn \<and> provMap_of v pn = Some i
             \<and> find (\<lambda>p. p_id p = i) (model_providers v) = Some p \<and> p_provider_name p = pn"
    using p(2) r(2) xn by auto
qed

text \<open>The names an agent row is joined with: none, or those of a stored model.\<close>

lemma join_model_names:
  obtains (unlinked) "am_model_name (join_model w a) = None"
      "am_provider_name (join_model w a) = None"
  | (linked) m where "m \<in> set (models w)"
      "am_model_name (join_model w a) = Some (m_model_name m)"
      "am_provider_name (join_model w a) = mp_provider_name (join_provider w m)"
proof (cases "a_model_id a")
  case None
  then show ?thesis
    using unlinked by (simp add: join_model_def)
next
  case (Some i)
  show ?thesis
  proof (cases "find (\<lambda>m. m_id m = i) (models w)")
    case None
    with Some show ?thesis
      using unlinked by (simp add: join_model_def)
  next
    case (Some m)
    then have "m \<in> set (models w)"
      using find_Some_mem by fastforce
    moreover have "am_model_name (join_model w a) = Some (m_model_name m)"
      using Some \<open>a_model_id a = Some i\<close> by (simp add: join_model_def)
    moreover have "am_provider_name (join_model w a) = mp_provider_name (join_provider w m)"
      using Some \<open>a_model_id a = Some i\<close> by (simp add: join_model_def join_provider_def Let_def)
    ultimately show ?thesis by (rule linked)
  qed
qed

lemma export_agent_Inr:
  assumes "export_agent jm = Inr e"
  shows "\<exists>tools. e =
     \<lparr>ya_agent_role = Val (a_agent_role (am_row jm)),
      ya_agent_description = unbind (a_agent_description (am_row jm)),
      ya_allowed_tools = Some tools,
      ya_default_developer_prompt = unbind (a_default_developer_prompt (am_row jm)),
      ya_default_user_prompt = unbind (a_default_user_prompt (am_row jm)),
      ya_reasoning_level = unbind (a_reasoning_level (am_row jm)),
      ya_tool_choice = unbind (a_tool_choice (am_row jm)),
      ya_provider_name = unbind (am_provider_name jm),
      ya_model_name = unbind (am_model_name jm)\<rparr>"
proof -
  let ?parsed = "if truthy_text (a_allowed_tools (am_row jm))
            then (case a_allowed_tools (am_row jm) of Some t \<Rightarrow> JSON_parse t | None \<Rightarrow> Inr [])
            else Inr []"
  show ?thesis
  proof (cases ?parsed)
    case (Inl err)
    then have "export_agent jm = Inl err"
      by (simp add: export_agent_def Let_def)
    with assms show ?thesis by simp
  next
    case (Inr tools)
    then have "export_agent jm = Inr
     \<lparr>ya_agent_role = Val (a_agent_role (am_row jm)),
      ya_agent_description = unbind (a_agent_description (am_row jm)),
      ya_allowed_tools = Some tools,
      ya_default_developer_prompt = unbind (a_default_developer_prompt (am_row jm)),
      ya_default_user_prompt = unbind (a_default_user_prompt (am_row jm)),
      ya_reasoning_level = unbind (a_reasoning_level (am_row jm)),
      ya_tool_choice = unbind (a_tool_choice (am_row jm)),
      ya_provider_name = unbind (am_provider_name jm),
      ya_model_name = unbind (am_model_name jm)\<rparr>"
      by (simp add: export_agent_def Let_def)
    with assms show ?thesis by (intro exI [of _ tools]) simp
  qed
qed

lemma map_Inr_names:
  assumes "map f xs = map Inr ys" and "\<And>x y. f x = Inr y \<Longrightarrow> n y = k x"
  shows "map n ys = map k xs"
  using assms(1)
proof (induction xs arbitrary: ys)
  case Nil
  then show ?case by simp
next
  case (Cons x xs)
  then obtain y ys' where ys: "ys = y # ys'" by (cases ys) auto
  with Cons.prems have hd: "f x = Inr y" and tl: "map f xs = map Inr ys'" by simp_all
  have "n y = k x" using hd by (rule assms(2))
  moreover have "map n ys' = map k xs" using tl by (rule Cons.IH)
  ultimately show ?case using ys by simp
qed

lemma ready_agent_roles:
  assumes ready: "round_trip_ready w"
    and parsed: "map_throwing export_agent (listAgentTypesWithModelInfo w) = Inr as"
  shows "distinct (map ya_agent_role as)"
proof -
  let ?rows = "sort_key a_id (agent_roles w)"
  have "map (\<lambda>a. export_agent (join_model w a)) ?rows = map Inr as"
    using map_throwing_maps [OF parsed] by (simp add: listAgentTypesWithModelInfo_def comp_def)
  moreover have "ya_agent_role e = Val (a_agent_role a)"
    if "export_agent (join_model w a) = Inr e" for a e
    using export_agent_Inr [OF that] by auto
  ultimately have "map ya_agent_role as = map (\<lambda>a. Val (a_agent_role a)) ?rows"
    by (rule map_Inr_names)
  moreover have "distinct (map (\<lambda>a. Val (a_agent_role a) :: string js) ?rows)"
  proof -
    have "distinct (map a_agent_role (agent_roles w))"
      using ready by (simp add: round_trip_ready_def)
    then show ?thesis
      by (simp add: distinct_map inj_on_def)
  qed
  ultimately show ?thesis by simp
qed

lemma ready_agents:
  assumes ready: "round_trip_ready w"
    and parsed: "map_throwing export_agent (listAgentTypesWithModelInfo w) = Inr as"
    and same: "map (\<lambda>r. export_model (join_provider v r)) (models v)
                 = map export_model (listModelsWithProviderInfo w)"
    and ids: "distinct (map m_id (models v))"
  shows "\<forall>e \<in> set as. agent_entry_ok v (modelMap_of v) e"
proof
  fix e assume "e \<in> set as"
  then have "Inr e \<in> set (map Inr as)" by simp
  then have "Inr e \<in> set (map export_agent (listAgentTypesWithModelInfo w))"
    using map_throwing_maps [OF parsed] by simp
  then obtain a where a: "a \<in> set (agent_roles w)" "export_agent (join_model w a) = Inr e"
    by (auto simp: listAgentTypesWithModelInfo_def)
  obtain tools where e: "e =
     \<lparr>ya_agent_role = Val (a_agent_role a),
      ya_agent_description = unbind (a_agent_description a),
      ya_allowed_tools = Some tools,
      ya_default_developer_prompt = unbind (a_default_developer_prompt a),
      ya_default_user_prompt = unbind (a_default_user_prompt a),
      ya_reasoning_level = unbind (a_reasoning_level a),
      ya_tool_choice = unbind (a_tool_choice a),
      ya_provider_name = unbind (am_provider_name (join_model w a)),
      ya_model_name = unbind (am_model_name (join_model w a))\<rparr>"
    using export_agent_Inr [OF a(2)] by auto
  have row: "a_agent_role a \<noteq> []" "a_agent_description a \<noteq> None"
      "a_default_developer_prompt a \<noteq> None" "a_default_user_prompt a \<noteq> None"
      "a_reasoning_level a \<noteq> None" "a_reasoning_level a \<noteq> Some []"
      "a_tool_choice a \<noteq> None" "a_tool_choice a \<noteq> Some []"
    using ready a(1) by (simp_all add: round_trip_ready_def list_all_iff)
  have texts: "\<exists>r d dp up l c ts. ya_agent_role e = Val r \<and> r \<noteq> []
        \<and> ya_agent_description e = Val d \<and> ya_default_developer_prompt e = Val dp
        \<and> ya_default_user_prompt e = Val up
        \<and> ya_reasoning_level e = Val l \<and> l \<noteq> [] \<and> ya_tool_choice e = Val c \<and> c \<noteq> []
        \<and> ya_allowed_tools e = Some ts"
    using row by (auto simp: e)
  have link: "(ya_provider_name e = Null \<and> ya_model_name e = Null)
        \<or> (\<exists>pn mn i m. ya_provider_name e = Val pn \<and> ya_model_name e = Val mn
              \<and> pn \<noteq> [] \<and> mn \<noteq> [] \<and> modelMap_of v (model_key (Val pn) (Val mn)) = Some i
              \<and> find (\<lambda>m. m_id m = i) (models v) = Some m \<and> m_model_name m = mn
              \<and> mp_provider_name (join_provider v m) = Some pn)"
  proof (cases rule: join_model_names [of w a])
    case unlinked
    then show ?thesis by (simp add: e)
  next
    case (linked m)
    obtain p :: provider_row where p: "p_provider_name p \<noteq> []"
        "mp_provider_name (join_provider w m) = Some (p_provider_name p)"
        "m_model_name m \<noteq> []"
      using ready_model_provider [OF ready linked(1)] by blast
    let ?pn = "p_provider_name p" and ?mn = "m_model_name m"
    have "export_model (join_provider w m) \<in> set (map export_model (listModelsWithProviderInfo w))"
      using linked(1) by (simp add: listModelsWithProviderInfo_def)
    then have "export_model (join_provider w m)
        \<in> set (map (\<lambda>r. export_model (join_provider v r)) (models v))"
      unfolding same .
    then obtain y where y: "y \<in> set (models v)"
        "export_model (join_provider v y) = export_model (join_provider w m)"
      by auto
    have yp: "mp_provider_name (join_provider v y) = Some ?pn"
      using export_model_names(1) [OF y(2)] p(2) by simp
    have yn: "m_model_name y = ?mn"
      using export_model_names(2) [OF y(2)] by simp
    have key: "key_of_model (join_provider v y) = model_key (Val ?pn) (Val ?mn)"
      by (simp add: key_of_model_def yp yn)
    have keys: "map (\<lambda>r. key_of_model (join_provider v r)) (models v)
        = map key_of_model (listModelsWithProviderInfo w)"
    proof -
      have "map (\<lambda>m. model_key (ym_provider_name m) (ym_model_name m))
              (map (\<lambda>r. export_model (join_provider v r)) (models v))
          = map (\<lambda>m. model_key (ym_provider_name m) (ym_model_name m))
              (map export_model (listModelsWithProviderInfo w))"
        unfolding same ..
      then show ?thesis
        by (simp add: comp_def key_of_model_export [symmetric])
    qed
    have dk: "distinct (map (\<lambda>r. key_of_model (join_provider v r)) (models v))"
    proof -
      have "distinct (map (\<lambda>r. key_of_model (join_provider w r)) (models w))"
        using ready by (simp add: round_trip_ready_def)
      then have "distinct (map key_of_model (listModelsWithProviderInfo w))"
        by (simp add: listModelsWithProviderInfo_def comp_def)
      then show ?thesis unfolding keys .
    qed
    have "modelMap_of v (model_key (Val ?pn) (Val ?mn)) = Some (m_id y)"
      and "find (\<lambda>m. m_id m = m_id y) (models v) = Some y"
      using modelMap_of_finds [OF dk ids y(1)] by (simp_all add: key)
    moreover have "ya_provider_name e = Val ?pn" "ya_model_name e = Val ?mn"
      by (simp_all add: e linked p(2))
    ultimately show ?thesis
      using p(1,3) yp yn by blast
  qed
  from texts link show "agent_entry_ok v (modelMap_of v) e"
    unfolding agent_entry_ok_def by (rule conjI)
qed

subsection \<open>Imported rows and the rows they came from\<close>

lemma map_eq_list_all2: "map f xs = map g ys \<Longrightarrow> list_all2 (\<lambda>x y. f x = g y) xs ys"
proof (induction xs arbitrary: ys)
  case Nil
  then show ?case by simp
next
  case (Cons x xs)
  then obtain y ys' where ys: "ys = y # ys'" by (cases ys) auto
  with Cons.prems have "f x = g y" "map f xs = map g ys'" by simp_all
  then show ?case using Cons.IH ys by simp
qed

lemma list_all2_both:
  "list_all2 P xs ys \<Longrightarrow> list_all2 Q xs ys \<Longrightarrow> list_all2 (\<lambda>x y. P x y \<and> Q x y) xs ys"
  by (auto simp: list_all2_conv_all_nth)

lemma list_all2_right_mem:
  "list_all2 P xs ys \<Longrightarrow> y \<in> set ys \<Longrightarrow> \<exists>x \<in> set xs. P x y"
  by (induction rule: list_all2_induct) auto

lemma distinct_map_eq:
  "distinct (map f xs) \<Longrightarrow> a \<in> set xs \<Longrightarrow> b \<in> set xs \<Longrightarrow> f a = f b \<Longrightarrow> a = b"
  by (auto simp: distinct_map dest: inj_onD)

lemma same_provider_export:
  "export_provider x = export_provider p \<Longrightarrow> same_provider p x"
  unfolding same_provider_def by (cases x; cases p) (simp add: export_provider_def)

lemma same_provider_name: "same_provider p x \<Longrightarrow> p_provider_name x = p_provider_name p"
  unfolding same_provider_def by (cases x; cases p) simp

lemma same_task_export: "export_task x = export_task t \<Longrightarrow> same_task t x"
  unfolding same_task_def by (cases x; cases t) (simp add: export_task_def)

lemma providers_correspond:
  assumes "map export_provider X = map export_provider ps"
  shows "list_all2 same_provider ps X"
proof -
  have "list_all2 (\<lambda>p x. export_provider p = export_provider x) ps X"
    using assms [symmetric] by (rule map_eq_list_all2)
  then show ?thesis
    by (rule list_all2_mono) (simp add: same_provider_export)
qed

lemma tasks_correspond:
  assumes "map export_task T = map export_task ts"
  shows "list_all2 same_task ts T"
proof -
  have "list_all2 (\<lambda>t x. export_task t = export_task x) ts T"
    using assms [symmetric] by (rule map_eq_list_all2)
  then show ?thesis
    by (rule list_all2_mono) (simp add: same_task_export)
qed

text \<open>A model of a ready store and the provider row it refers to.\<close>

lemma ready_model_row:
  assumes "round_trip_ready w" and "r \<in> set (models w)"
  shows "\<exists>p. find (\<lambda>p. p_id p = m_provider_id r) (model_providers w) = Some p
           \<and> p \<in> set (model_providers w)
           \<and> mp_provider_name (join_provider w r) = Some (p_provider_name p)
           \<and> (m_supports_reasoning r = 0 \<or> m_supports_reasoning r = 1)"
proof -
  have ex: "list_ex (\<lambda>p. p_id p = m_provider_id r) (model_providers w)"
    and sr: "m_supports_reasoning r = 0 \<or> m_supports_reasoning r = 1"
    using assms by (simp_all add: round_trip_ready_def list_all_iff)
  obtain p where p: "find (\<lambda>p. p_id p = m_provider_id r) (model_providers w) = Some p"
    using list_ex_find [OF ex] by blast
  then have mem: "p \<in> set (model_providers w)"
    using find_Some_mem by fastforce
  have "mp_provider_name (join_provider w r) = Some (p_provider_name p)"
    by (simp add: join_provider_def p)
  with p mem sr show ?thesis by blast
qed

lemma ready_model_keys:
  assumes "round_trip_ready w"
  shows "distinct (map (\<lambda>r. (mp_provider_name (join_provider w r), m_model_name r)) (models w))"
proof -
  let ?pair = "\<lambda>r. (mp_provider_name (join_provider w r), m_model_name r)"
  let ?g = "\<lambda>pr. model_key (unbind (fst pr)) (Val (snd pr))"
  have "distinct (map (\<lambda>r. key_of_model (join_provider w r)) (models w))"
    using assms by (simp add: round_trip_ready_def)
  then have "distinct (map (\<lambda>r. ?g (?pair r)) (models w))"
    by (simp add: key_of_model_def)
  then show ?thesis
    by (rule distinct_map_of_comp)
qed

lemma joined_provider:
  assumes "mp_provider_name (join_provider v y) = Some pn"
  shows "\<exists>x. find (\<lambda>r. p_id r = m_provider_id y) (model_providers v) = Some x
           \<and> x \<in> set (model_providers v) \<and> p_provider_name x = pn"
proof (cases "find (\<lambda>r. p_id r = m_provider_id y) (model_providers v)")
  case None
  then show ?thesis using assms by (simp add: join_provider_def)
next
  case (Some x)
  then have "x \<in> set (model_providers v)"
    using find_Some_mem by fastforce
  moreover have "p_provider_name x = pn"
    using assms Some by (simp add: join_provider_def)
  ultimately show ?thesis using Some by blast
qed

lemma model_corresponds:
  assumes ready: "round_trip_ready w"
    and r: "r \<in> set (models w)"
    and same: "export_model (join_provider v y) = export_model (join_provider w r)"
    and sr: "m_supports_reasoning y = 0 \<or> m_supports_reasoning y = 1"
    and provs: "list_all2 same_provider (listProviders w) (model_providers v)"
  shows "same_model w v r y"
proof -
  obtain p where p: "find (\<lambda>p. p_id p = m_provider_id r) (model_providers w) = Some p"
      "p \<in> set (model_providers w)"
      "mp_provider_name (join_provider w r) = Some (p_provider_name p)"
      "m_supports_reasoning r = 0 \<or> m_supports_reasoning r = 1"
    using ready_model_row [OF ready r] by blast
  have cols: "m_model_name y = m_model_name r" "m_display_name y = m_display_name r"
      "m_extra_info y = m_extra_info r"
      "(m_supports_reasoning y \<noteq> 0) = (m_supports_reasoning r \<noteq> 0)"
    using same by (simp_all add: export_model_def)
  have "m_supports_reasoning y = m_supports_reasoning r"
    using cols(4) sr p(4) by auto
  with cols have row: "y = r\<lparr>m_id := m_id y, m_provider_id := m_provider_id y\<rparr>"
    by (cases y; cases r) simp
  have "mp_provider_name (join_provider v y) = Some (p_provider_name p)"
    using export_model_names(1) [OF same] p(3) by simp
  then obtain x where x: "find (\<lambda>r. p_id r = m_provider_id y) (model_providers v) = Some x"
      "x \<in> set (model_providers v)" "p_provider_name x = p_provider_name p"
    using joined_provider by blast
  obtain p' where p': "p' \<in> set (listProviders w)" "same_provider p' x"
    using list_all2_right_mem [OF provs x(2)] by blast
  have "p_provider_name p' = p_provider_name p"
    using same_provider_name [OF p'(2)] x(3) by simp
  moreover have "distinct (map p_provider_name (model_providers w))"
    using ready by (simp add: round_trip_ready_def)
  moreover have "p' \<in> set (model_providers w)"
    using p'(1) by (simp add: listProviders_def)
  ultimately have "p' = p"
    using p(2) by (metis distinct_map_eq)
  then have "same_provider p x" using p'(2) by simp
  with row p(1) x(1) show ?thesis
    unfolding same_model_def by blast
qed

lemma same_model_names:
  assumes "same_model w v m y"
  shows "m_model_name y = m_model_name m"
    and "mp_provider_name (join_provider v y) = mp_provider_name (join_provider w m)"
proof -
  obtain p x where row: "y = m\<lparr>m_id := m_id y, m_provider_id := m_provider_id y\<rparr>"
    and f: "find (\<lambda>r. p_id r = m_provider_id m) (model_providers w) = Some p"
      "find (\<lambda>r. p_id r = m_provider_id y) (model_providers v) = Some x"
    and sp: "same_provider p x"
    using assms unfolding same_model_def by blast
  show "m_model_name y = m_model_name m"
    using row by (cases y; cases m) simp
  show "mp_provider_name (join_provider v y) = mp_provider_name (join_provider w m)"
    using same_provider_name [OF sp] by (simp add: join_provider_def f)
qed

text \<open>The tool list the export reads from a row.\<close>

lemma export_agent_tools:
  assumes "export_agent jm = Inr e"
  shows "ya_allowed_tools e = Some (stored_tools (am_row jm))"
proof (cases "a_allowed_tools (am_row jm)")
  case None
  then show ?thesis
    using assms by (auto simp: export_agent_def Let_def stored_tools_def)
next
  case (Some stored)
  show ?thesis
  proof (cases stored)
    case (ToolsJson ts)
    with Some show ?thesis
      using assms by (auto simp: export_agent_def Let_def stored_tools_def)
  next
    case (Malformed s)
    with Some show ?thesis
      using assms by (auto simp: export_agent_def Let_def stored_tools_def split: if_splits)
  qed
qed

lemma stored_tools_text:
  "stored_tools z \<noteq> [] \<Longrightarrow> a_allowed_tools z = Some (ToolsJson (stored_tools z))"
  by (simp add: stored_tools_def split: option.splits tools_text.splits)

lemma joined_model:
  assumes "am_model_name (join_model v z) = Some mn"
  shows "\<exists>j y. a_model_id z = Some j \<and> find (\<lambda>r. m_id r = j) (models v) = Some y
           \<and> y \<in> set (models v) \<and> m_model_name y = mn
           \<and> am_provider_name (join_model v z) = mp_provider_name (join_provider v y)"
proof (cases "a_model_id z")
  case None
  then show ?thesis using assms by (simp add: join_model_def)
next
  case (Some j)
  show ?thesis
  proof (cases "find (\<lambda>r. m_id r = j) (models v)")
    case None
    then show ?thesis using assms Some by (simp add: join_model_def)
  next
    case (Some y)
    then have "y \<in> set (models v)"
      using find_Some_mem by fastforce
    moreover have "m_model_name y = mn"
      using assms Some \<open>a_model_id z = Some j\<close> by (simp add: join_model_def)
    moreover have "am_provider_name (join_model v z) = mp_provider_name (join_provider v y)"
      using Some \<open>a_model_id z = Some j\<close> by (simp add: join_model_def join_provider_def Let_def)
    ultimately show ?thesis using Some \<open>a_model_id z = Some j\<close> by blast
  qed
qed

lemma agent_corresponds:
  assumes ready: "round_trip_ready w"
    and a: "a \<in> set (agent_roles w)"
    and ea: "export_agent (join_model w a) = Inr e"
    and ez: "export_agent (join_model v z) = Inr (normalise_tools e)"
    and null: "(a_model_id z = None) = (ya_model_name e = Null)"
    and mods: "list_all2 (same_model w v) (map mp_row (listModelsWithProviderInfo w)) (models v)"
  shows "same_agent w v a z"
proof -
  obtain ta where fa: "e =
     \<lparr>ya_agent_role = Val (a_agent_role a),
      ya_agent_description = unbind (a_agent_description a),
      ya_allowed_tools = Some ta,
      ya_default_developer_prompt = unbind (a_default_developer_prompt a),
      ya_default_user_prompt = unbind (a_default_user_prompt a),
      ya_reasoning_level = unbind (a_reasoning_level a),
      ya_tool_choice = unbind (a_tool_choice a),
      ya_provider_name = unbind (am_provider_name (join_model w a)),
      ya_model_name = unbind (am_model_name (join_model w a))\<rparr>"
    using export_agent_Inr [OF ea] by auto
  obtain tz where fz: "normalise_tools e =
     \<lparr>ya_agent_role = Val (a_agent_role z),
      ya_agent_description = unbind (a_agent_description z),
      ya_allowed_tools = Some tz,
      ya_default_developer_prompt = unbind (a_default_developer_prompt z),
      ya_default_user_prompt = unbind (a_default_user_prompt z),
      ya_reasoning_level = unbind (a_reasoning_level z),
      ya_tool_choice = unbind (a_tool_choice z),
      ya_provider_name = unbind (am_provider_name (join_model v z)),
      ya_model_name = unbind (am_model_name (join_model v z))\<rparr>"
    using export_agent_Inr [OF ez] by auto
  have ta: "ya_allowed_tools e = Some (stored_tools a)"
    using export_agent_tools [OF ea] by simp
  have tz: "ya_allowed_tools (normalise_tools e) = Some (stored_tools z)"
    using export_agent_tools [OF ez] by simp
  have "ya_allowed_tools (normalise_tools e) = Some (ensureDefaultTool (Some (stored_tools a)))"
    by (simp add: normalise_tools_def ta)
  then have st: "stored_tools z = ensureDefaultTool (Some (stored_tools a))"
    using tz by simp
  have "DEFAULT_TOOL \<in> set (ensureDefaultTool (Some (stored_tools a)))"
    by (simp add: ensureDefaultTool_def Let_def)
  then have "stored_tools z \<noteq> []"
    unfolding st by auto
  then have tools: "a_allowed_tools z
      = Some (JSON_stringify (ensureDefaultTool (Some (stored_tools a))))"
    using stored_tools_text [of z] by (simp add: st JSON_stringify_def)
  have eq: "ya_agent_role (normalise_tools e) = ya_agent_role e"
      "ya_agent_description (normalise_tools e) = ya_agent_description e"
      "ya_default_developer_prompt (normalise_tools e) = ya_default_developer_prompt e"
      "ya_default_user_prompt (normalise_tools e) = ya_default_user_prompt e"
      "ya_reasoning_level (normalise_tools e) = ya_reasoning_level e"
      "ya_tool_choice (normalise_tools e) = ya_tool_choice e"
      "ya_provider_name (normalise_tools e) = ya_provider_name e"
      "ya_model_name (normalise_tools e) = ya_model_name e"
    by (simp_all add: normalise_tools_def)
  have cols: "a_agent_role z = a_agent_role a" "a_agent_description z = a_agent_description a"
      "a_default_developer_prompt z = a_default_developer_prompt a"
      "a_default_user_prompt z = a_default_user_prompt a"
      "a_reasoning_level z = a_reasoning_level a" "a_tool_choice z = a_tool_choice a"
    and names: "am_provider_name (join_model v z) = am_provider_name (join_model w a)"
      "am_model_name (join_model v z) = am_model_name (join_model w a)"
    using eq unfolding fz by (simp_all add: fa)
  have row: "z = a\<lparr>a_id := a_id z, a_model_id := a_model_id z,
             a_allowed_tools :=
               Some (JSON_stringify (ensureDefaultTool (Some (stored_tools a))))\<rparr>"
    by (rule agent_row.equality) (simp_all add: cols tools)
  have ref: "(case (a_model_id a, a_model_id z) of
          (None, None) \<Rightarrow> True
        | (Some i, Some j) \<Rightarrow>
            (\<exists>m y. find (\<lambda>r. m_id r = i) (models w) = Some m
               \<and> find (\<lambda>r. m_id r = j) (models v) = Some y
               \<and> same_model w v m y)
        | _ \<Rightarrow> False)"
  proof (cases "a_model_id a")
    case None
    then have "am_model_name (join_model w a) = None"
      by (simp add: join_model_def)
    then have "ya_model_name e = Null"
      by (simp add: fa)
    then have "a_model_id z = None"
      using null by simp
    with None show ?thesis by simp
  next
    case (Some i)
    have "case a_model_id a of None \<Rightarrow> True
            | Some i \<Rightarrow> list_ex (\<lambda>m. m_id m = i) (models w)"
      using ready a by (auto simp: round_trip_ready_def list_all_iff)
    then have "list_ex (\<lambda>m. m_id m = i) (models w)"
      using Some by simp
    then obtain m where m: "find (\<lambda>m. m_id m = i) (models w) = Some m"
      using list_ex_find by blast
    then have mm: "m \<in> set (models w)"
      using find_Some_mem by fastforce
    have an: "am_model_name (join_model w a) = Some (m_model_name m)"
      "am_provider_name (join_model w a) = mp_provider_name (join_provider w m)"
      using Some m by (simp_all add: join_model_def join_provider_def Let_def)
    have "am_model_name (join_model v z) = Some (m_model_name m)"
      using names(2) an(1) by simp
    then obtain j y where y: "a_model_id z = Some j"
        "find (\<lambda>r. m_id r = j) (models v) = Some y" "y \<in> set (models v)"
        "m_model_name y = m_model_name m"
        "am_provider_name (join_model v z) = mp_provider_name (join_provider v y)"
      using joined_model by blast
    obtain m' where m': "m' \<in> set (map mp_row (listModelsWithProviderInfo w))"
        "same_model w v m' y"
      using list_all2_right_mem [OF mods y(3)] by blast
    have m'm: "m' \<in> set (models w)"
      using m'(1) by (auto simp: listModelsWithProviderInfo_def)
    have "(mp_provider_name (join_provider w m'), m_model_name m')
        = (mp_provider_name (join_provider w m), m_model_name m)"
      using same_model_names [OF m'(2)] y(4,5) names(1) an(2) by simp
    then have "m' = m"
      using distinct_map_eq [OF ready_model_keys [OF ready] m'm mm] by simp
    then have "same_model w v m y" using m'(2) by simp
    with Some y(1,2) m show ?thesis by auto
  qed
  from row ref show ?thesis
    unfolding same_agent_def by (rule conjI)
qed

subsection \<open>The round trip\<close>

text \<open>
  Claim C1, for the stores it holds of. Let \<open>w\<close> be a store whose rows are as the
  managers write them and whose references are intact (\<open>round_trip_ready\<close>). If
  \<open>exportTemplate name\<close> succeeds on \<open>w\<close>, then \<open>importTemplate name {wipe: true}\<close> on
  any store that holds the exported folder (an empty one too) succeeds, and the
  imported store has the same providers, models, agent roles and tasks up to ids
  (\<open>same_rows\<close>): each table holds, row for row, the rows the export read from \<open>w\<close>
  with new keys; a model refers to the provider that corresponds to its provider in
  \<open>w\<close>, an agent role to the model that corresponds to its model in \<open>w\<close> or to none
  when it had none, and an agent role's tool list is the stored one with the sentinel
  tool. An export of the imported store writes the same records again.
\<close>

theorem C1_round_trip_of_ready_store:
  assumes ready: "round_trip_ready w"
    and exported: "exportTemplate name w = Inr w1"
    and folder: "templates t name = templates w1 name"
  shows "\<exists>w2. importTemplate name True t = Inr w2
      \<and> same_rows w w2
      \<and> (\<exists>w3. exportTemplate name' w2 = Inr w3
             \<and> same_records (templates w1 name) (templates w3 name'))"
proof -
  let ?ps = "listProviders w" and ?ms = "listModelsWithProviderInfo w"
  let ?ts = "getAllTasks w"
  obtain as where parsed: "map_throwing export_agent (listAgentTypesWithModelInfo w) = Inr as"
    using exportTemplate_parses [OF exported] by blast
  obtain w1' where "exportTemplate name w = Inr w1'"
    and "providers_yaml (templates w1' name) = Some (map export_provider ?ps)"
    and "models_yaml (templates w1' name) = Some (map export_model ?ms)"
    and "agents_yaml (templates w1' name) = Some as"
    and "tasks_yaml (templates w1' name) = Some (map export_task ?ts)"
    using exportTemplate_Inr [OF parsed, of name] by blast
  with exported have f1:
    "providers_yaml (templates w1 name) = Some (map export_provider ?ps)"
    "models_yaml (templates w1 name) = Some (map export_model ?ms)"
    "agents_yaml (templates w1 name) = Some as"
    "tasks_yaml (templates w1 name) = Some (map export_task ?ts)"
    by simp_all

  \<comment> \<open>the wipe\<close>
  define t0 where "t0 = wipe_all t"
  obtain c where wiped: "wipe_all t = t\<lparr>model_providers := [], models := [], agent_roles := [],
                       tasks := [], console := c\<rparr>"
    using wipe_all_shape by blast
  have t0: "model_providers t0 = []" "models t0 = []" "agent_roles t0 = []" "tasks t0 = []"
    "templates t0 = templates t"
    by (simp_all add: t0_def wiped)
  have b0: "importTemplate name True t = import_providers_block name t0"
    by (simp add: importTemplate_def t0_def)

  \<comment> \<open>providers\<close>
  have yp: "loadYAML (providers_yaml (templates t0 name)) = map export_provider ?ps"
    by (simp add: t0 folder f1 loadYAML_def)
  have p3: "\<forall>p \<in> set ?ps. p_provider_name p \<notin> p_provider_name ` set (model_providers t0)"
    by (simp add: t0)
  have p4: "distinct (map p_id (model_providers t0))"
    by (simp add: t0)
  obtain v2 X where P: "import_providers (map export_provider ?ps) t0 = Inr v2"
      "model_providers v2 = model_providers t0 @ X"
      "map export_provider X = map export_provider ?ps"
      "distinct (map p_id (model_providers v2))"
      "models v2 = models t0" "agent_roles v2 = agent_roles t0" "tasks v2 = tasks t0"
      "templates v2 = templates t0"
    using import_providers_fresh [OF ready_providers [OF ready] p3 p4] by blast
  define v3 where
    "v3 = console_log (LogInsertedUpdated (length (map export_provider ?ps)) ''providers'') v2"
  have b1: "import_providers_block name t0 = import_models_block name (provMap_of v2) v3"
    using import_providers_block_Inr [of t0 name v2] P(1) unfolding yp v3_def by simp
  have v3: "model_providers v3 = X" "models v3 = []" "agent_roles v3 = []" "tasks v3 = []"
    "templates v3 = templates t"
    by (simp_all add: v3_def P t0)

  \<comment> \<open>models\<close>
  have ym: "loadYAML (models_yaml (templates v3 name)) = map export_model ?ms"
    by (simp add: v3 folder f1 loadYAML_def)
  have sameP: "map export_provider (model_providers v2) = map export_provider ?ps"
    by (simp add: P(2,3) t0)
  have m1: "\<forall>m \<in> set ?ms. \<exists>pn i p. mp_provider_name m = Some pn \<and> provMap_of v2 pn = Some i
             \<and> find (\<lambda>p. p_id p = i) (model_providers v3) = Some p \<and> p_provider_name p = pn"
    using ready_models [OF ready sameP P(4)] by (simp add: v3_def)
  have m3: "\<forall>m \<in> set ?ms. (mp_provider_name m, m_model_name (mp_row m))
             \<notin> (\<lambda>r. (mp_provider_name (join_provider v3 r), m_model_name r)) ` set (models v3)"
    by (simp add: v3)
  have m4: "distinct (map m_id (models v3))"
    by (simp add: v3)
  obtain v4 Y where M: "import_models (provMap_of v2) (map export_model ?ms) v3 = Inr v4"
      "models v4 = models v3 @ Y"
      "map (\<lambda>r. export_model (join_provider v3 r)) Y = map export_model ?ms"
      "distinct (map m_id (models v4))"
      "model_providers v4 = model_providers v3" "agent_roles v4 = agent_roles v3"
      "tasks v4 = tasks v3" "templates v4 = templates v3"
      "\<forall>y \<in> set Y. m_supports_reasoning y = 0 \<or> m_supports_reasoning y = 1"
    using import_models_fresh [OF m1 ready_model_pairs [OF ready] m3 m4] by blast
  define v5 where
    "v5 = console_log (LogInsertedUpdated (length (map export_model ?ms)) ''models'') v4"
  have b2: "import_models_block name (provMap_of v2) v3
      = import_agents_block name (modelMap_of v4) v5"
    using import_models_block_Inr [of "provMap_of v2" v3 name v4] M(1) unfolding ym v5_def
    by simp
  have v5: "model_providers v5 = X" "models v5 = Y" "agent_roles v5 = []" "tasks v5 = []"
    "templates v5 = templates t"
    by (simp_all add: v5_def M v3)
  have jp4: "join_provider v4 = join_provider v3"
    by (rule join_provider_frame) (simp add: M)
  have jp5: "join_provider v5 = join_provider v3"
    by (rule join_provider_frame) (simp add: v5 v3)

  \<comment> \<open>agent roles\<close>
  have ya: "loadYAML (agents_yaml (templates v5 name)) = as"
    by (simp add: v5 folder f1 loadYAML_def)
  have sameM: "map (\<lambda>r. export_model (join_provider v4 r)) (models v4) = map export_model ?ms"
    unfolding jp4 by (simp add: M(2,3) v3)
  have a1: "\<forall>e \<in> set as. agent_entry_ok v5 (modelMap_of v4) e"
  proof
    fix e assume "e \<in> set as"
    then have "agent_entry_ok v4 (modelMap_of v4) e"
      using ready_agents [OF ready parsed sameM M(4)] by simp
    moreover have "agent_entry_ok v5 (modelMap_of v4) e = agent_entry_ok v4 (modelMap_of v4) e"
      by (rule agent_entry_ok_frame) (simp_all add: v5_def)
    ultimately show "agent_entry_ok v5 (modelMap_of v4) e" by simp
  qed
  have a3: "\<forall>e \<in> set as. \<forall>a \<in> set (agent_roles v5). ya_agent_role e \<noteq> Val (a_agent_role a)"
    by (simp add: v5)
  obtain v6 Z where A: "import_agents (modelMap_of v4) as v5 = Inr v6"
      "agent_roles v6 = agent_roles v5 @ Z"
      "map (\<lambda>z. export_agent (join_model v5 z)) Z = map (\<lambda>e. Inr (normalise_tools e)) as"
      "model_providers v6 = model_providers v5" "models v6 = models v5"
      "tasks v6 = tasks v5" "templates v6 = templates v5"
      "map (\<lambda>z. a_model_id z = None) Z = map (\<lambda>e. ya_model_name e = Null) as"
    using import_agents_fresh [OF a1 ready_agent_roles [OF ready parsed] a3] by blast
  define v7 where "v7 = console_log (LogInsertedUpdated (length as) ''agents'') v6"
  have b3: "import_agents_block name (modelMap_of v4) v5 = import_tasks_block name v7"
    using import_agents_block_Inr [of "modelMap_of v4" v5 name v6] A(1) unfolding ya v7_def
    by simp
  have v7: "model_providers v7 = X" "models v7 = Y" "agent_roles v7 = Z" "tasks v7 = []"
    "templates v7 = templates t"
    by (simp_all add: v7_def A v5)

  \<comment> \<open>tasks\<close>
  have yt: "loadYAML (tasks_yaml (templates v7 name)) = map export_task ?ts"
    by (simp add: v7 folder f1 loadYAML_def)
  have t2: "\<forall>x \<in> set ?ts. t_task_name x \<notin> t_task_name ` set (tasks v7)"
    by (simp add: v7)
  obtain v8 T where T: "import_tasks (map export_task ?ts) v7 = Inr v8"
      "tasks v8 = tasks v7 @ T"
      "map export_task T = map export_task ?ts"
      "model_providers v8 = model_providers v7" "models v8 = models v7"
      "agent_roles v8 = agent_roles v7" "templates v8 = templates v7"
    using import_tasks_fresh [OF ready_tasks [OF ready] t2] by blast
  define w2 where
    "w2 = console_log (LogImported name)
            (console_log (LogInsertedUpdated (length (map export_task ?ts)) ''tasks'') v8)"
  have b4: "import_tasks_block name v7 = Inr w2"
    unfolding import_tasks_block_def Let_def yt by (simp add: T(1) w2_def)
  have imported: "importTemplate name True t = Inr w2"
    by (simp only: b0 b1 b2 b3 b4)
  have w2: "model_providers w2 = X" "models w2 = Y" "agent_roles w2 = Z" "tasks w2 = T"
    by (simp_all add: w2_def T v7)

  have jp2: "join_provider w2 = join_provider v3"
    by (rule join_provider_frame) (simp add: w2 v3)
  have jm2: "join_model w2 = join_model v5"
    by (rule join_model_frame) (simp_all add: w2 v5)

  \<comment> \<open>the imported rows\<close>
  have rp: "list_all2 same_provider ?ps (model_providers w2)"
    unfolding w2 using P(3) by (rule providers_correspond)
  have "list_all2 (\<lambda>m y. export_model m = export_model (join_provider v3 y)) ?ms Y"
    using M(3) [symmetric] by (rule map_eq_list_all2)
  then have "list_all2 (\<lambda>m y. same_model w w2 (mp_row m) y) ?ms Y"
  proof (rule list.rel_mono_strong)
    fix m y
    assume m: "m \<in> set ?ms" and y: "y \<in> set Y"
      and e: "export_model m = export_model (join_provider v3 y)"
    obtain r where r: "r \<in> set (models w)" "m = join_provider w r"
      using m by (auto simp: listModelsWithProviderInfo_def)
    have "export_model (join_provider w2 y) = export_model (join_provider w r)"
      using e r(2) unfolding jp2 by simp
    moreover have "m_supports_reasoning y = 0 \<or> m_supports_reasoning y = 1"
      using M(9) y by simp
    ultimately have "same_model w w2 r y"
      using rp by (intro model_corresponds [OF ready r(1)])
    then show "same_model w w2 (mp_row m) y"
      by (simp add: r(2))
  qed
  then have rm: "list_all2 (same_model w w2) (map mp_row ?ms) (models w2)"
    unfolding w2 by (simp add: list_all2_map1)
  have "map (\<lambda>a. export_agent (join_model w a)) (listAgentTypes w) = map Inr as"
    using map_throwing_maps [OF parsed]
    by (simp add: listAgentTypesWithModelInfo_def listAgentTypes_def comp_def)
  then have l1: "list_all2 (\<lambda>a e. export_agent (join_model w a) = Inr e) (listAgentTypes w) as"
    by (rule map_eq_list_all2)
  have l2: "list_all2 (\<lambda>e z. Inr (normalise_tools e) = export_agent (join_model v5 z)) as Z"
    using A(3) [symmetric] by (rule map_eq_list_all2)
  have l3: "list_all2 (\<lambda>e z. (ya_model_name e = Null) = (a_model_id z = None)) as Z"
    using A(8) [symmetric] by (rule map_eq_list_all2)
  have "list_all2 (\<lambda>a z. \<exists>e. export_agent (join_model w a) = Inr e
          \<and> Inr (normalise_tools e) = export_agent (join_model v5 z)
          \<and> (ya_model_name e = Null) = (a_model_id z = None)) (listAgentTypes w) Z"
    using _ l1 list_all2_both [OF l2 l3]
    by (rule list_all2_trans) (erule conjE, rule exI, intro conjI, assumption+)
  then have "list_all2 (same_agent w w2) (listAgentTypes w) Z"
  proof (rule list.rel_mono_strong)
    fix a z
    assume "a \<in> set (listAgentTypes w)"
      and "\<exists>e. export_agent (join_model w a) = Inr e
          \<and> Inr (normalise_tools e) = export_agent (join_model v5 z)
          \<and> (ya_model_name e = Null) = (a_model_id z = None)"
    then obtain e where a: "a \<in> set (agent_roles w)"
      and ea: "export_agent (join_model w a) = Inr e"
      and ez: "export_agent (join_model w2 z) = Inr (normalise_tools e)"
      and null: "(a_model_id z = None) = (ya_model_name e = Null)"
      unfolding jm2 by (auto simp: listAgentTypes_def)
    show "same_agent w w2 a z"
      using ready a ea ez null rm by (rule agent_corresponds)
  qed
  then have ra: "list_all2 (same_agent w w2) (listAgentTypes w) (agent_roles w2)"
    unfolding w2 .
  have rt: "list_all2 same_task ?ts (tasks w2)"
    unfolding w2 using T(3) by (rule tasks_correspond)
  have rows: "same_rows w w2"
    unfolding same_rows_def using rp rm ra rt by simp

  \<comment> \<open>the second export\<close>
  let ?f = "\<lambda>z. export_agent (join_model w2 z)"
  let ?g = "\<lambda>z. projr (?f z)"
  have fz: "?f z = Inr (?g z)" if "z \<in> set Z" for z
  proof -
    have "?f z \<in> set (map ?f Z)" using that by simp
    then have "?f z \<in> set (map (\<lambda>e. Inr (normalise_tools e)) as)"
      using A(3) unfolding jm2 by simp
    then obtain e where "?f z = Inr (normalise_tools e)" by auto
    then show ?thesis by simp
  qed
  define as2 where "as2 = map ?g (sort_key a_id Z)"
  have "map export_agent (listAgentTypesWithModelInfo w2) = map ?f (sort_key a_id Z)"
    by (simp add: listAgentTypesWithModelInfo_def w2 comp_def)
  also have "\<dots> = map (\<lambda>z. Inr (?g z)) (sort_key a_id Z)"
  proof (rule map_cong [OF refl])
    fix z assume "z \<in> set (sort_key a_id Z)"
    then have "z \<in> set Z" by simp
    then show "?f z = Inr (?g z)" by (rule fz)
  qed
  also have "\<dots> = map Inr as2"
    by (simp add: as2_def comp_def)
  finally have "map export_agent (listAgentTypesWithModelInfo w2) = map Inr as2" .
  then have parsed2: "map_throwing export_agent (listAgentTypesWithModelInfo w2) = Inr as2"
    by (rule map_throwing_Inr)
  have gz: "map ?g Z = map normalise_tools as"
  proof -
    have "map projr (map ?f Z) = map projr (map (\<lambda>e. Inr (normalise_tools e)) as)"
      using A(3) unfolding jm2 by simp
    then show ?thesis by (simp add: comp_def)
  qed
  have set_as2: "set as2 = normalise_tools ` set as"
  proof -
    have "set as2 = set (map ?g Z)" by (simp add: as2_def)
    then show ?thesis unfolding gz by simp
  qed
  have len_as2: "length as2 = length as"
  proof -
    have "length as2 = length (map ?g Z)" by (simp add: as2_def)
    then show ?thesis unfolding gz by simp
  qed
  obtain w3 where E: "exportTemplate name' w2 = Inr w3"
    and f3: "providers_yaml (templates w3 name') = Some (map export_provider (listProviders w2))"
      "models_yaml (templates w3 name') = Some (map export_model (listModelsWithProviderInfo w2))"
      "agents_yaml (templates w3 name') = Some as2"
      "tasks_yaml (templates w3 name') = Some (map export_task (getAllTasks w2))"
    using exportTemplate_Inr [OF parsed2, of name'] by blast
  have sp: "set (map export_provider (listProviders w2)) = set (map export_provider ?ps)"
  proof -
    have "set (map export_provider (listProviders w2)) = set (map export_provider X)"
      by (simp add: listProviders_def w2)
    then show ?thesis unfolding P(3) .
  qed
  have lp: "length (map export_provider (listProviders w2)) = length (map export_provider ?ps)"
  proof -
    have "length (map export_provider (listProviders w2)) = length (map export_provider X)"
      by (simp add: listProviders_def w2)
    then show ?thesis unfolding P(3) .
  qed
  have sm: "set (map export_model (listModelsWithProviderInfo w2)) = set (map export_model ?ms)"
  proof -
    have "set (map export_model (listModelsWithProviderInfo w2))
        = set (map (\<lambda>r. export_model (join_provider v3 r)) Y)"
      by (simp add: listModelsWithProviderInfo_def w2 jp2 image_image)
    then show ?thesis unfolding M(3) .
  qed
  have lm: "length (map export_model (listModelsWithProviderInfo w2))
      = length (map export_model ?ms)"
  proof -
    have "length (map export_model (listModelsWithProviderInfo w2))
        = length (map (\<lambda>r. export_model (join_provider v3 r)) Y)"
      by (simp add: listModelsWithProviderInfo_def w2)
    then show ?thesis unfolding M(3) .
  qed
  have st: "set (map export_task (getAllTasks w2)) = set (map export_task ?ts)"
  proof -
    have "set (map export_task (getAllTasks w2)) = set (map export_task T)"
      by (simp add: getAllTasks_def w2)
    then show ?thesis unfolding T(3) .
  qed
  have lt: "length (map export_task (getAllTasks w2)) = length (map export_task ?ts)"
  proof -
    have "length (map export_task (getAllTasks w2)) = length (map export_task T)"
      by (simp add: getAllTasks_def w2)
    then show ?thesis unfolding T(3) .
  qed
  have "same_records (templates w1 name) (templates w3 name')"
    unfolding same_records_def f1 f3 loadYAML_def option.case
    using sp lp sm lm set_as2 len_as2 st lt by simp
  with imported rows E show ?thesis by blast
qed

text \<open>
  On \<open>demo_world\<close>: the import into the exported store wipes the tables and writes the
  provider with key 2, the two models with keys 3 and 4 under it, and the three agent
  roles, \<open>coder\<close> on the new key of \<open>gpt-4\<close>, \<open>planner\<close> on that of \<open>o1\<close>, \<open>reviewer\<close> on
  none.
\<close>

theorem C1_round_trip_witness:
  "\<exists>w1 w2. exportTemplate ''default'' demo_world = Inr w1
      \<and> importTemplate ''default'' True w1 = Inr w2
      \<and> same_rows demo_world w2
      \<and> map (\<lambda>p. (p_id p, p_provider_name p, p_display_name p, p_extra_info p))
            (model_providers w2) = [(2, ''openai'', ''OpenAI'', Some [])]
      \<and> map (\<lambda>m. (m_id m, m_provider_id m, m_model_name m, m_supports_reasoning m)) (models w2)
            = [(3, 2, ''gpt-4'', 0), (4, 2, ''o1'', 1)]
      \<and> map (\<lambda>a. (a_id a, a_agent_role a, a_model_id a, a_reasoning_level a)) (agent_roles w2)
            = [(4, ''coder'', Some 3, Some ''high''), (5, ''planner'', Some 4, Some ''low''),
               (6, ''reviewer'', None, Some ''medium'')]
      \<and> map (\<lambda>t. (t_id t, t_task_name t, t_task_prompt t)) (tasks w2)
            = [(2, ''build'', Some ''Build it'')]"
proof -
  have ready: "round_trip_ready demo_world"
    by (simp add: round_trip_ready_def demo_world_def key_of_model_def join_provider_def
        model_key_def safeDisplayName_def trim_nonempty_def is_white_space_def)
  define as where
    "as = projr (map_throwing export_agent (listAgentTypesWithModelInfo demo_world))"
  have parsed: "map_throwing export_agent (listAgentTypesWithModelInfo demo_world) = Inr as"
    unfolding as_def
    by (simp add: demo_world_def listAgentTypesWithModelInfo_def join_model_def
        export_agent_def)
  obtain w1 where e: "exportTemplate ''default'' demo_world = Inr w1"
    using exportTemplate_Inr [OF parsed, of "''default''"] by blast
  obtain w2 where i: "importTemplate ''default'' True w1 = Inr w2"
    and rows: "same_rows demo_world w2"
    using C1_round_trip_of_ready_store [OF ready e refl, of "''copy''"] by blast
  have "case exportTemplate ''default'' demo_world of
          Inl ew \<Rightarrow> False
        | Inr w1 \<Rightarrow>
            (case importTemplate ''default'' True w1 of
               Inl ew \<Rightarrow> False
             | Inr w2 \<Rightarrow>
                 map (\<lambda>p. (p_id p, p_provider_name p, p_display_name p, p_extra_info p))
                     (model_providers w2) = [(2, ''openai'', ''OpenAI'', Some [])]
               \<and> map (\<lambda>m. (m_id m, m_provider_id m, m_model_name m, m_supports_reasoning m))
                     (models w2) = [(3, 2, ''gpt-4'', 0), (4, 2, ''o1'', 1)]
               \<and> map (\<lambda>a. (a_id a, a_agent_role a, a_model_id a, a_reasoning_level a))
                     (agent_roles w2)
                   = [(4, ''coder'', Some 3, Some ''high''), (5, ''planner'', Some 4, Some ''low''),
                      (6, ''reviewer'', None, Some ''medium'')]
               \<and> map (\<lambda>t. (t_id t, t_task_name t, t_task_prompt t)) (tasks w2)
                   = [(2, ''build'', Some ''Build it'')])"
    by (simp add: demo_world_def deleteProvider_def deleteModel_def deleteAgentType_def
        deleteTask_def exportTemplate_def export_provider_def export_model_def export_agent_def
        export_task_def listAgentTypesWithModelInfo_def join_model_def save_providers_def
        save_models_def save_agents_def save_tasks_def no_files_def import_eval_defs)
  then have facts:
      "map (\<lambda>p. (p_id p, p_provider_name p, p_display_name p, p_extra_info p))
            (model_providers w2) = [(2, ''openai'', ''OpenAI'', Some [])]"
      "map (\<lambda>m. (m_id m, m_provider_id m, m_model_name m, m_supports_reasoning m)) (models w2)
            = [(3, 2, ''gpt-4'', 0), (4, 2, ''o1'', 1)]"
      "map (\<lambda>a. (a_id a, a_agent_role a, a_model_id a, a_reasoning_level a)) (agent_roles w2)
            = [(4, ''coder'', Some 3, Some ''high''), (5, ''planner'', Some 4, Some ''low''),
               (6, ''reviewer'', None, Some ''medium'')]"
      "map (\<lambda>t. (t_id t, t_task_name t, t_task_prompt t)) (tasks w2)
            = [(2, ''build'', Some ''Build it'')]"
    by (simp_all add: e i)
  show ?thesis
    by (rule exI [of _ w1], rule exI [of _ w2]) (simp add: e i rows facts)
qed

text \<open>
  The claim as the spec words it, for every store the managers reach, fails on
  \<open>dangling_world\<close>: the managers create a provider and a model of it and delete the
  provider, which leaves the model. The export succeeds and writes the model with
  \<open>provider_name: null\<close>; the import of that folder into an empty store throws
  \<open>Provider not found\<close> in its models loop and leaves no model.
\<close>

theorem C1_deleted_provider_counterexample:
  "map m_model_name (models dangling_world) = [''gpt-4'']
   \<and> model_providers dangling_world = []
   \<and> (case exportTemplate ''default'' dangling_world of
         Inl ew \<Rightarrow> False
       | Inr w1 \<Rightarrow>
           (case importTemplate ''default'' True (empty_world\<lparr>templates := templates w1\<rparr>) of
              Inl (err, w2) \<Rightarrow> err = provider_not_found Null \<and> models w2 = []
            | Inr w2 \<Rightarrow> False))"
  by (simp add: dangling_world_def empty_world_def deleteProvider_def exportTemplate_def
      export_provider_def export_model_def export_agent_def export_task_def
      listAgentTypesWithModelInfo_def save_providers_def save_models_def save_agents_def
      save_tasks_def no_files_def import_eval_defs)

section \<open>What the handlers answer when an operation throws\<close>

text \<open>Without a fault the routes are the handlers of the sections above.\<close>

lemma agent_views_no_fault:
  "map_throwing (agent_view_db None w) rows = Inr (map (agent_view w) rows)"
  by (induction rows) (simp_all add: agent_view_db_def failing_def)

lemma upsert_agent_db_no_fault:
  "upsert_agent_db None b required ok label failed w = upsert_agent b required ok label failed w"
  by (simp add: upsert_agent_db_def upsert_agent_def failing_def caught_def Let_def
      split: sum.split)

lemma agent_roles_route_no_fault:
  "agent_roles_route None None req w = agent_roles_handler req w"
  by (simp add: agent_roles_route_def agent_roles_handler_def upsert_agent_db_no_fault
      agent_views_no_fault agent_view_db_def failing_def Let_def split: option.split)

lemma models_route_no_fault: "models_route None req w = models_handler req w"
  by (simp add: models_route_def models_handler_def failing_def caught_def Let_def
      split: query_id.split option.split sum.split)

lemma model_providers_route_no_fault:
  "model_providers_route None req w = model_providers_handler req w"
  by (simp add: model_providers_route_def model_providers_handler_def failing_def caught_def
      Let_def split: query_id.split option.split sum.split)

text \<open>The \<open>catch\<close> blocks of the tasks route.\<close>

lemma tasks_read_fault:
  assumes "tr_method req = ''GET'' \<or> (tr_method req = ''DELETE'' \<and> tr_query_id req \<noteq> IdAbsent)"
  shows "tasks_handler None (Some err) req w = Inr (tasks_caught err w)"
  using assms
  by (auto simp: tasks_handler_def checkDBSchema_def failing_def split: query_id.split)

lemma tasks_post:
  assumes "truthy_str task_name"
    and "failing fault (createTask task_name (Val (or_str task_prompt [])) w) = Inl err"
  shows "tasks_handler None fault (tasks_body_request ''POST'' i task_name task_prompt) w
     = Inr (tasks_caught err w)"
  using assms
  by (simp add: tasks_handler_def tasks_body_request_def checkDBSchema_def failing_def)

lemma tasks_put:
  assumes "n \<noteq> 0"
    and "failing fault (updateTask n task_name (Val (or_str task_prompt [])) w) = Inl err"
  shows "tasks_handler None fault (tasks_body_request ''PUT'' (Val n) task_name task_prompt) w
     = Inr (tasks_caught err w)"
  using assms
  by (simp add: tasks_handler_def tasks_body_request_def checkDBSchema_def failing_def)

lemma tasks_schema_fault: "tasks_handler (Some err) fault req w = Inl err"
  by (simp add: tasks_handler_def checkDBSchema_def failing_def)

text \<open>The \<open>catch\<close> blocks of the models route and of the providers route.\<close>

lemma models_get_one_fault:
  assumes "mr_method req = ''GET''" and "mr_query_model_id req \<noteq> IdAbsent"
  shows "models_route (Some err) req w
     = caught ''Error fetching model:'' ''Error fetching model.'' err w"
  using assms by (simp add: models_route_def failing_def split: query_id.split)

lemma models_get_all_fault:
  assumes "mr_method req = ''GET''" and "mr_query_model_id req = IdAbsent"
  shows "models_route (Some err) req w
     = caught ''Error fetching models:'' ''Error fetching models.'' err w"
  using assms by (simp add: models_route_def failing_def)

lemma models_upsert:
  assumes "meth = ''POST'' \<or> meth = ''PUT''"
    and "truthy_num (cm_provider_id b)" and "truthy_str (cm_model_name b)"
    and "failing fault (createOrUpdateModel (b\<lparr>cm_display_name := Undefined\<rparr>) w) = Inl err"
  shows "models_route fault (models_upsert_request meth b) w
     = caught ''Error updating model:'' ''Error updating model.'' err w"
  using assms by (auto simp: models_route_def models_upsert_request_def)

lemma models_delete_fault:
  assumes "mr_method req = ''DELETE''" and "mr_query_id req \<noteq> IdAbsent"
  shows "models_route (Some err) req w
     = caught ''Error deleting model:'' ''Error deleting model.'' err w"
  using assms by (simp add: models_route_def failing_def split: query_id.split)

lemma providers_get_fault:
  assumes "pr_method req = ''GET''"
  shows "model_providers_route (Some err) req w
     = caught ''Error fetching providers:'' ''Error fetching model providers.'' err w"
  using assms by (simp add: model_providers_route_def failing_def)

lemma providers_upsert:
  assumes "meth = ''POST'' \<or> meth = ''PUT''" and "truthy_str (cp_provider_name b)"
    and "failing fault (createOrUpdateProvider (b\<lparr>cp_display_name := Undefined\<rparr>) w) = Inl err"
  shows "model_providers_route fault (providers_upsert_request meth b) w
     = caught ''Error updating provider:'' ''Error updating model provider.'' err w"
  using assms by (auto simp: model_providers_route_def providers_upsert_request_def)

lemma providers_delete_fault:
  assumes "pr_method req = ''DELETE''" and "pr_query_id req \<noteq> IdAbsent"
  shows "model_providers_route (Some err) req w
     = caught ''Error deleting provider:'' ''Error deleting model provider.'' err w"
  using assms by (simp add: model_providers_route_def failing_def split: query_id.split)

text \<open>The \<open>catch\<close> blocks of the agent roles route.\<close>

lemma agents_get_one_fault:
  assumes "ar_method req = ''GET''" and "truthy_str (ar_query_agent_role req)"
  shows "agent_roles_route (Some err) model_fault req w
     = caught ''GET /api/agent-roles?agent_role= error:'' ''Error fetching agent role.'' err w"
  using assms by (simp add: agent_roles_route_def failing_def)

lemma agents_get_all_fault:
  assumes "ar_method req = ''GET''" and "\<not> truthy_str (ar_query_agent_role req)"
  shows "agent_roles_route (Some err) model_fault req w
     = caught ''GET /api/agent-roles error:'' ''Error fetching agent roles.'' err w"
  using assms by (simp add: agent_roles_route_def failing_def)

lemma agents_get_one_model_fault:
  assumes "row \<in> set (agent_roles w)" and "distinct (map a_agent_role (agent_roles w))"
    and "a_agent_role row \<noteq> []" and "\<not> falsy_id (a_model_id row)"
  shows "agent_roles_route None (Some err) (get_agent_role (a_agent_role row)) w
     = caught ''GET /api/agent-roles?agent_role= error:'' ''Error fetching agent role.'' err w"
  using assms(3,4) getAgentByType_stored [OF assms(1,2)]
  by (simp add: agent_roles_route_def get_agent_role_def failing_def agent_view_db_def)

lemma agent_views_model_fault:
  assumes "row \<in> set rows" and "\<not> falsy_id (a_model_id row)"
  shows "map_throwing (agent_view_db (Some err) w) rows = Inl err"
  using assms
proof (induction rows)
  case Nil
  then show ?case by simp
next
  case (Cons r rs)
  show ?case
  proof (cases "falsy_id (a_model_id r)")
    case True
    with Cons.prems have "row \<in> set rs" by auto
    from Cons.IH [OF this Cons.prems(2)] True show ?thesis
      by (simp add: agent_view_db_def)
  next
    case False
    then show ?thesis by (simp add: agent_view_db_def failing_def)
  qed
qed

lemma agents_get_all_model_fault:
  assumes "row \<in> set (agent_roles w)" and "\<not> falsy_id (a_model_id row)"
  shows "agent_roles_route None (Some err) get_agent_roles w
     = caught ''GET /api/agent-roles error:'' ''Error fetching agent roles.'' err w"
proof -
  from assms(1) have "row \<in> set (listAgentTypes w)" by (simp add: set_listAgentTypes)
  from agent_views_model_fault [OF this assms(2)] show ?thesis
    by (simp add: agent_roles_route_def get_agent_roles_def failing_def)
qed

lemma agents_upsert:
  assumes "truthy_str (d_agent_role d)"
    and "failing fault
           (setAgentDetails (d\<lparr>d_allowed_tools := Some (ensureDefaultTool (d_allowed_tools d))\<rparr>) w)
         = Inl err"
  shows "agent_roles_route fault model_fault (upsert_agent_request ''POST'' d) w
          = caught ''POST /api/agent-roles error:'' ''Error creating/updating agent role.'' err w"
    and "agent_roles_route fault model_fault (upsert_agent_request ''PUT'' d) w
          = caught ''PUT /api/agent-roles error:'' ''Error updating agent role.'' err w"
  using assms
  by (simp_all add: agent_roles_route_def upsert_agent_request_def upsert_agent_db_def Let_def)

lemma agents_delete_fault:
  assumes "ar_method req = ''DELETE''" and "truthy_str (ar_query_agent_role req)"
  shows "agent_roles_route (Some err) model_fault req w
     = caught ''DELETE /api/agent-roles error:'' ''Error deleting agent role.'' err w"
  using assms by (simp add: agent_roles_route_def failing_def)

text \<open>The \<open>catch\<close> blocks of the two template routes.\<close>

lemma import_thrown:
  assumes "(case fault of Some e \<Rightarrow> Inl (e, w)
            | None \<Rightarrow> importTemplate (or_str name ''default'') True w) = Inl (err, w')"
  shows "templates_import_handler fault \<lparr>tp_method = ''POST'', tp_query_name = name\<rparr> w
     = caught ''Error importing template:''
         ''Failed to import template. Check server logs for details.'' err w'"
  using assms by (simp add: templates_import_handler_def Let_def)

lemma export_thrown:
  assumes "(case fault of Some e \<Rightarrow> Inl (e, w)
            | None \<Rightarrow> exportTemplate (or_str name ''default'') w) = Inl (err, w')"
  shows "templates_export_handler fault \<lparr>tp_method = ''POST'', tp_query_name = name\<rparr> w
     = caught ''Error exporting template:'' ''Failed to export template'' err w'"
  using assms by (simp add: templates_export_handler_def Let_def)

text \<open>The response of a database route is the same whatever the fault is.\<close>

lemma tasks_fault_not_sent:
  "map_sum id fst (tasks_handler None (Some e1) req w)
     = map_sum id fst (tasks_handler None (Some e2) req w)"
  by (simp add: tasks_handler_def checkDBSchema_def failing_def tasks_caught_def
      split: query_id.split)

lemma models_fault_not_sent:
  "fst (models_route (Some e1) req w) = fst (models_route (Some e2) req w)"
  by (simp add: models_route_def failing_def caught_def Let_def split: query_id.split)

lemma providers_fault_not_sent:
  "fst (model_providers_route (Some e1) req w) = fst (model_providers_route (Some e2) req w)"
  by (simp add: model_providers_route_def failing_def caught_def Let_def split: query_id.split)

lemma agents_fault_not_sent:
  "fst (agent_roles_route (Some e1) m1 req w) = fst (agent_roles_route (Some e2) m2 req w)"
  by (simp add: agent_roles_route_def upsert_agent_db_def failing_def caught_def Let_def)

lemma templates_fault_not_sent:
  "fst (templates_import_handler (Some e1) req w) = fst (templates_import_handler (Some e2) req w)"
  "fst (templates_export_handler (Some e1) req w) = fst (templates_export_handler (Some e2) req w)"
  by (simp_all add: templates_import_handler_def templates_export_handler_def caught_def Let_def)

text \<open>The \<open>catch\<close> blocks of the upstream routes.\<close>

lemma github_thrown:
  assumes "truthy_str token" and "github_repos_try orgs_of repos_of = Some (Inl err)"
  shows "github_repos_handler token orgs_of repos_of w
     = Some (respond 500 (JsonError (message err)),
             console_log (ConsoleError ''Error fetching repositories:'' err) w)"
  using assms by (simp add: github_repos_handler_def)

lemma github_first_fetch_rejects:
  assumes "orgs_of 1 = Inl err"
  shows "github_repos_try orgs_of repos_of = Some (Inl err)"
  using assms by (subst github_repos_try_def, subst fetch_orgs.simps) simp

lemma github_first_fetch_not_ok:
  assumes "orgs_of 1 = Inr orgRes" and "\<not> fr_ok orgRes"
  shows "github_repos_try orgs_of repos_of
     = Some (Inl (Error (''Failed fetching orgs: '' @ decimal (fr_status orgRes))))"
  using assms by (subst github_repos_try_def, subst fetch_orgs.simps) simp

lemma config_list_thrown:
  assumes "config_list_try fetched = Inl err"
  shows "config_list_handler ''GET'' fetched
     = respond 500 (JsonErrorDetail ''Failed to retrieve config'' (String_of err))"
  using assms by (simp add: config_list_handler_def)

lemma config_bulk_set_thrown:
  assumes "is_object items" and "config_bulk_set_try fetched = Inl err"
  shows "config_bulk_set_handler ''POST'' items fetched
     = respond 500 (JsonErrorDetail ''Failed to save config'' (String_of err))"
  using assms by (simp add: config_bulk_set_handler_def)

lemma config_scopes_thrown:
  assumes "config_scopes_try fetched = Inl err"
  shows "config_scopes_handler ''GET'' fetched
     = respond 500 (JsonErrorDetail ''Failed to retrieve scopes'' (String_of err))"
  using assms by (simp add: config_scopes_handler_def)

lemma config_fetch_rejects:
  "config_list_try (Inl err) = Inl err"
  "config_bulk_set_try (Inl err) = Inl err"
  "config_scopes_try (Inl err) = Inl err"
  by (simp_all add: config_list_try_def config_bulk_set_try_def config_scopes_try_def)

lemma config_not_ok:
  assumes "\<not> fr_ok r" and "fr_text r = Inr t" and "t \<noteq> []"
  shows "config_list_try (Inr r) = Inl (Error t)"
  using assms by (simp add: config_list_try_def)

lemma config_bulk_set_not_ok:
  assumes "\<not> fr_ok r" and "fr_text r = Inr t"
  shows "config_bulk_set_try (Inr r) = Inl (Error t)"
  using assms by (simp add: config_bulk_set_try_def)

lemma config_scopes_not_ok:
  assumes "\<not> fr_ok r" and "fr_text r = Inr t"
  shows "config_scopes_try (Inr r) = Inl (Error t)"
  using assms by (simp add: config_scopes_try_def)

lemma String_of_Error: "t \<noteq> [] \<Longrightarrow> String_of (Error t) = ''Error: '' @ t"
  by (simp add: String_of_def)

lemmas thrown_answers =
  tasks_read_fault tasks_post tasks_put tasks_schema_fault
  models_get_one_fault models_get_all_fault models_upsert models_delete_fault
  providers_get_fault providers_upsert providers_delete_fault
  agents_get_one_fault agents_get_all_fault agents_get_one_model_fault
  agents_get_all_model_fault agents_upsert agents_delete_fault
  import_thrown export_thrown
  github_thrown github_first_fetch_rejects github_first_fetch_not_ok
  config_list_thrown config_bulk_set_thrown config_scopes_thrown config_fetch_rejects
  config_not_ok config_bulk_set_not_ok config_scopes_not_ok String_of_Error

text \<open>
  Claim C7, as the code has it. \<^bold>\<open>The database routes.\<close> When a database call in a \<open>try\<close>
  block of \<open>/tasks\<close>, \<open>/models\<close>, \<open>/model-providers\<close>, \<open>/agent-roles\<close>,
  \<open>/templates/import\<close> or \<open>/templates/export\<close> throws, by a fault of the database or by a
  constraint of the table, the handler answers 500 with a JSON body whose \<open>error\<close> field is
  the fixed text of that \<open>catch\<close> block, and the error caught goes to the server console
  only: the response is the same whatever the error is. The failed statement leaves the
  store as it was; a failed import or export leaves what it had done so far.
  \<^bold>\<open>The upstream routes.\<close> When the \<open>try\<close> block of \<open>/github/repos\<close> throws, the handler
  answers 500 with a JSON body whose \<open>error\<close> field is the message of the error caught:
  that of the rejected \<open>fetch\<close>, or \<open>Failed fetching orgs:\<close> and the status for an answer
  that is not ok. When the \<open>try\<close> block of \<open>/config/list\<close>, \<open>/config/bulk_set\<close> or
  \<open>/config/scopes\<close> throws, the handler answers 500 with a fixed \<open>error\<close> text and the error
  caught, as \<open>String(e)\<close>, in the field \<open>detail\<close>; for an answer that is not ok that is
  \<open>Error:\<close> and the text of the answer. \<^bold>\<open>Outside every \<open>try\<close> block.\<close> An error thrown by
  \<open>checkDBSchema()\<close> in \<open>/tasks\<close>, or by the \<open>fetch\<close> of the proxy \<open>/api/[...slug]\<close>, is
  caught by nobody: the promise of the handler rejects with it and the handler sends
  no response.
\<close>

theorem C7_thrown_errors_and_their_answers:
  "(tr_method treq = ''GET'' \<or> (tr_method treq = ''DELETE'' \<and> tr_query_id treq \<noteq> IdAbsent)
      \<longrightarrow> tasks_handler None (Some err) treq w
          = Inr (respond 500 (JsonError ''Internal server error.''),
                 console_log (ConsoleError ''Error in tasks API:'' err) w))
   \<and> (truthy_str task_name
        \<and> failing fault (createTask task_name (Val (or_str task_prompt [])) w) = Inl err
      \<longrightarrow> tasks_handler None fault (tasks_body_request ''POST'' i task_name task_prompt) w
          = Inr (respond 500 (JsonError ''Internal server error.''),
                 console_log (ConsoleError ''Error in tasks API:'' err) w))
   \<and> (n \<noteq> 0 \<and> failing fault (updateTask n task_name (Val (or_str task_prompt [])) w) = Inl err
      \<longrightarrow> tasks_handler None fault (tasks_body_request ''PUT'' (Val n) task_name task_prompt) w
          = Inr (respond 500 (JsonError ''Internal server error.''),
                 console_log (ConsoleError ''Error in tasks API:'' err) w))
   \<and> (mr_method mreq = ''GET'' \<and> mr_query_model_id mreq \<noteq> IdAbsent
      \<longrightarrow> models_route (Some err) mreq w
          = (respond 500 (JsonError ''Error fetching model.''),
             console_log (ConsoleError ''Error fetching model:'' err) w))
   \<and> (mr_method mreq = ''GET'' \<and> mr_query_model_id mreq = IdAbsent
      \<longrightarrow> models_route (Some err) mreq w
          = (respond 500 (JsonError ''Error fetching models.''),
             console_log (ConsoleError ''Error fetching models:'' err) w))
   \<and> ((meth = ''POST'' \<or> meth = ''PUT'')
        \<and> truthy_num (cm_provider_id b) \<and> truthy_str (cm_model_name b)
        \<and> failing fault (createOrUpdateModel (b\<lparr>cm_display_name := Undefined\<rparr>) w) = Inl err
      \<longrightarrow> models_route fault (models_upsert_request meth b) w
          = (respond 500 (JsonError ''Error updating model.''),
             console_log (ConsoleError ''Error updating model:'' err) w))
   \<and> (mr_method mreq = ''DELETE'' \<and> mr_query_id mreq \<noteq> IdAbsent
      \<longrightarrow> models_route (Some err) mreq w
          = (respond 500 (JsonError ''Error deleting model.''),
             console_log (ConsoleError ''Error deleting model:'' err) w))
   \<and> (pr_method preq = ''GET''
      \<longrightarrow> model_providers_route (Some err) preq w
          = (respond 500 (JsonError ''Error fetching model providers.''),
             console_log (ConsoleError ''Error fetching providers:'' err) w))
   \<and> ((meth = ''POST'' \<or> meth = ''PUT'') \<and> truthy_str (cp_provider_name p)
        \<and> failing fault (createOrUpdateProvider (p\<lparr>cp_display_name := Undefined\<rparr>) w) = Inl err
      \<longrightarrow> model_providers_route fault (providers_upsert_request meth p) w
          = (respond 500 (JsonError ''Error updating model provider.''),
             console_log (ConsoleError ''Error updating provider:'' err) w))
   \<and> (pr_method preq = ''DELETE'' \<and> pr_query_id preq \<noteq> IdAbsent
      \<longrightarrow> model_providers_route (Some err) preq w
          = (respond 500 (JsonError ''Error deleting model provider.''),
             console_log (ConsoleError ''Error deleting provider:'' err) w))
   \<and> (ar_method areq = ''GET'' \<and> truthy_str (ar_query_agent_role areq)
      \<longrightarrow> agent_roles_route (Some err) model_fault areq w
          = (respond 500 (JsonError ''Error fetching agent role.''),
             console_log (ConsoleError ''GET /api/agent-roles?agent_role= error:'' err) w))
   \<and> (ar_method areq = ''GET'' \<and> \<not> truthy_str (ar_query_agent_role areq)
      \<longrightarrow> agent_roles_route (Some err) model_fault areq w
          = (respond 500 (JsonError ''Error fetching agent roles.''),
             console_log (ConsoleError ''GET /api/agent-roles error:'' err) w))
   \<and> (row \<in> set (agent_roles w) \<and> distinct (map a_agent_role (agent_roles w))
        \<and> a_agent_role row \<noteq> [] \<and> \<not> falsy_id (a_model_id row)
      \<longrightarrow> agent_roles_route None (Some err) (get_agent_role (a_agent_role row)) w
          = (respond 500 (JsonError ''Error fetching agent role.''),
             console_log (ConsoleError ''GET /api/agent-roles?agent_role= error:'' err) w))
   \<and> (row \<in> set (agent_roles w) \<and> \<not> falsy_id (a_model_id row)
      \<longrightarrow> agent_roles_route None (Some err) get_agent_roles w
          = (respond 500 (JsonError ''Error fetching agent roles.''),
             console_log (ConsoleError ''GET /api/agent-roles error:'' err) w))
   \<and> (truthy_str (d_agent_role d)
        \<and> failing fault
            (setAgentDetails (d\<lparr>d_allowed_tools := Some (ensureDefaultTool (d_allowed_tools d))\<rparr>) w)
            = Inl err
      \<longrightarrow> agent_roles_route fault model_fault (upsert_agent_request ''POST'' d) w
            = (respond 500 (JsonError ''Error creating/updating agent role.''),
               console_log (ConsoleError ''POST /api/agent-roles error:'' err) w)
          \<and> agent_roles_route fault model_fault (upsert_agent_request ''PUT'' d) w
            = (respond 500 (JsonError ''Error updating agent role.''),
               console_log (ConsoleError ''PUT /api/agent-roles error:'' err) w))
   \<and> (ar_method areq = ''DELETE'' \<and> truthy_str (ar_query_agent_role areq)
      \<longrightarrow> agent_roles_route (Some err) model_fault areq w
          = (respond 500 (JsonError ''Error deleting agent role.''),
             console_log (ConsoleError ''DELETE /api/agent-roles error:'' err) w))
   \<and> templates_import_handler (Some err) \<lparr>tp_method = ''POST'', tp_query_name = name\<rparr> w
        = (respond 500 (JsonError ''Failed to import template. Check server logs for details.''),
           console_log (ConsoleError ''Error importing template:'' err) w)
   \<and> (importTemplate (or_str name ''default'') True w = Inl (err, w')
      \<longrightarrow> templates_import_handler None \<lparr>tp_method = ''POST'', tp_query_name = name\<rparr> w
          = (respond 500 (JsonError ''Failed to import template. Check server logs for details.''),
             console_log (ConsoleError ''Error importing template:'' err) w'))
   \<and> templates_export_handler (Some err) \<lparr>tp_method = ''POST'', tp_query_name = name\<rparr> w
        = (respond 500 (JsonError ''Failed to export template''),
           console_log (ConsoleError ''Error exporting template:'' err) w)
   \<and> (exportTemplate (or_str name ''default'') w = Inl (err, w')
      \<longrightarrow> templates_export_handler None \<lparr>tp_method = ''POST'', tp_query_name = name\<rparr> w
          = (respond 500 (JsonError ''Failed to export template''),
             console_log (ConsoleError ''Error exporting template:'' err) w'))
   \<and> map_sum id fst (tasks_handler None (Some e1) treq w)
        = map_sum id fst (tasks_handler None (Some e2) treq w)
   \<and> fst (models_route (Some e1) mreq w) = fst (models_route (Some e2) mreq w)
   \<and> fst (model_providers_route (Some e1) preq w) = fst (model_providers_route (Some e2) preq w)
   \<and> fst (agent_roles_route (Some e1) m1 areq w) = fst (agent_roles_route (Some e2) m2 areq w)
   \<and> fst (templates_import_handler (Some e1) tpreq w)
        = fst (templates_import_handler (Some e2) tpreq w)
   \<and> fst (templates_export_handler (Some e1) tpreq w)
        = fst (templates_export_handler (Some e2) tpreq w)
   \<and> (truthy_str token \<and> github_repos_try orgs_of repos_of = Some (Inl err)
      \<longrightarrow> github_repos_handler token orgs_of repos_of w
          = Some (respond 500 (JsonError (message err)),
                  console_log (ConsoleError ''Error fetching repositories:'' err) w))
   \<and> (truthy_str token \<and> orgs_of 1 = Inl err
      \<longrightarrow> github_repos_handler token orgs_of repos_of w
          = Some (respond 500 (JsonError (message err)),
                  console_log (ConsoleError ''Error fetching repositories:'' err) w))
   \<and> (truthy_str token \<and> orgs_of 1 = Inr orgRes \<and> \<not> fr_ok orgRes
      \<longrightarrow> github_repos_handler token orgs_of repos_of w
          = Some (respond 500
                    (JsonError (''Failed fetching orgs: '' @ decimal (fr_status orgRes))),
                  console_log
                    (ConsoleError ''Error fetching repositories:''
                       (Error (''Failed fetching orgs: '' @ decimal (fr_status orgRes)))) w))
   \<and> (config_list_try fetched_list = Inl err
      \<longrightarrow> config_list_handler ''GET'' fetched_list
          = respond 500 (JsonErrorDetail ''Failed to retrieve config'' (String_of err)))
   \<and> (is_object items \<and> config_bulk_set_try fetched_set = Inl err
      \<longrightarrow> config_bulk_set_handler ''POST'' items fetched_set
          = respond 500 (JsonErrorDetail ''Failed to save config'' (String_of err)))
   \<and> (config_scopes_try fetched_scopes = Inl err
      \<longrightarrow> config_scopes_handler ''GET'' fetched_scopes
          = respond 500 (JsonErrorDetail ''Failed to retrieve scopes'' (String_of err)))
   \<and> config_list_handler ''GET'' (Inl err)
        = respond 500 (JsonErrorDetail ''Failed to retrieve config'' (String_of err))
   \<and> config_scopes_handler ''GET'' (Inl err)
        = respond 500 (JsonErrorDetail ''Failed to retrieve scopes'' (String_of err))
   \<and> (is_object items
      \<longrightarrow> config_bulk_set_handler ''POST'' items (Inl err)
          = respond 500 (JsonErrorDetail ''Failed to save config'' (String_of err)))
   \<and> (\<not> fr_ok backendRes \<and> fr_text backendRes = Inr errorText \<and> errorText \<noteq> []
      \<longrightarrow> config_list_handler ''GET'' (Inr backendRes)
          = respond 500 (JsonErrorDetail ''Failed to retrieve config'' (''Error: '' @ errorText)))
   \<and> (\<not> fr_ok scopesRes \<and> fr_text scopesRes = Inr errorText \<and> errorText \<noteq> []
      \<longrightarrow> config_scopes_handler ''GET'' (Inr scopesRes)
          = respond 500 (JsonErrorDetail ''Failed to retrieve scopes'' (''Error: '' @ errorText)))
   \<and> (is_object items \<and> \<not> fr_ok setRes \<and> fr_text setRes = Inr errorText \<and> errorText \<noteq> []
      \<longrightarrow> config_bulk_set_handler ''POST'' items (Inr setRes)
          = respond 500 (JsonErrorDetail ''Failed to save config'' (''Error: '' @ errorText)))
   \<and> tasks_handler (Some err) fault treq w = Inl err
   \<and> slug_handler (Inl err) = Inl err"
  by (intro conjI impI; (elim conjE)?)
     (simp_all add: thrown_answers tasks_fault_not_sent models_fault_not_sent
        providers_fault_not_sent agents_fault_not_sent templates_fault_not_sent
        caught_def tasks_caught_def slug_handler_def)

text \<open>Two routines that throw on their own: the import of \<open>orphan_world\<close>, the export of \<open>garbled_world\<close>.\<close>

lemma import_orphan_world_throws:
  "importTemplate ''default'' True orphan_world
     = Inl (provider_not_found (Val ''missing''), orphan_after_first_model)"
  by (simp add: orphan_world_def orphan_template_def empty_world_def orphan_after_first_model_def
      orphan_after_providers_def provider_not_found_def import_eval_defs)

lemma export_garbled_world_throws:
  "\<exists>w'. exportTemplate ''default'' garbled_world
           = Inl (SyntaxError ''Unexpected token in JSON'', w')"
  by (simp add: garbled_world_def demo_world_def exportTemplate_def export_agent_def
      listAgentTypesWithModelInfo_def listAgentTypes_def join_model_def Let_def)

text \<open>
  Each \<open>catch\<close> block at a concrete request. A constraint of the table throws: a second
  task \<open>build\<close>, a model renamed to the name of another, the import of \<open>orphan_world\<close>, the
  export of \<open>garbled_world\<close>. The database is locked: the other requests to the database
  routes. The upstream fails: GitHub refuses the token, or the repositories of the one
  organisation; the config backend is not reached, or answers 503.
\<close>

theorem C7_thrown_errors_witness:
  "tasks_handler None None (tasks_body_request ''POST'' Undefined (Val ''build'') Undefined)
       demo_world
     = Inr (respond 500 (JsonError ''Internal server error.''),
            console_log (ConsoleError ''Error in tasks API:'' (unique_failed ''tasks.task_name''))
              demo_world)
   \<and> tasks_handler None (Some database_locked) (tasks_query_request ''GET'' Undefined IdAbsent)
       demo_world
     = Inr (respond 500 (JsonError ''Internal server error.''),
            console_log (ConsoleError ''Error in tasks API:'' database_locked) demo_world)
   \<and> tasks_handler None (Some database_locked)
       (tasks_query_request ''DELETE'' Undefined (IdText (Some 1))) demo_world
     = Inr (respond 500 (JsonError ''Internal server error.''),
            console_log (ConsoleError ''Error in tasks API:'' database_locked) demo_world)
   \<and> tasks_handler None (Some database_locked)
       (tasks_body_request ''PUT'' (Val 1) (Val ''build'') (Val ''Build all'')) demo_world
     = Inr (respond 500 (JsonError ''Internal server error.''),
            console_log (ConsoleError ''Error in tasks API:'' database_locked) demo_world)
   \<and> tasks_handler (Some database_locked) None (tasks_query_request ''GET'' Undefined IdAbsent)
       demo_world
     = Inl database_locked
   \<and> models_route None (models_upsert_request ''PUT'' clashing_model) demo_world
     = (respond 500 (JsonError ''Error updating model.''),
        console_log (ConsoleError ''Error updating model:''
                       (unique_failed ''models.provider_id, models.model_name'')) demo_world)
   \<and> fst (models_route (Some database_locked)
             \<lparr>mr_method = ''GET'', mr_query_model_id = IdText (Some 1),
              mr_query_withProviders = False, mr_query_id = IdAbsent, mr_body = None\<rparr>
             demo_world)
     = respond 500 (JsonError ''Error fetching model.'')
   \<and> fst (models_route (Some database_locked)
             \<lparr>mr_method = ''GET'', mr_query_model_id = IdAbsent,
              mr_query_withProviders = True, mr_query_id = IdAbsent, mr_body = None\<rparr>
             demo_world)
     = respond 500 (JsonError ''Error fetching models.'')
   \<and> fst (models_route (Some database_locked)
             \<lparr>mr_method = ''DELETE'', mr_query_model_id = IdAbsent,
              mr_query_withProviders = False, mr_query_id = IdText (Some 1), mr_body = None\<rparr>
             demo_world)
     = respond 500 (JsonError ''Error deleting model.'')
   \<and> fst (model_providers_route (Some database_locked)
             \<lparr>pr_method = ''GET'', pr_query_id = IdAbsent, pr_body = None\<rparr> demo_world)
     = respond 500 (JsonError ''Error fetching model providers.'')
   \<and> fst (model_providers_route (Some database_locked)
             (providers_upsert_request ''POST'' ghost_provider) demo_world)
     = respond 500 (JsonError ''Error updating model provider.'')
   \<and> fst (model_providers_route (Some database_locked)
             \<lparr>pr_method = ''DELETE'', pr_query_id = IdText (Some 1), pr_body = None\<rparr> demo_world)
     = respond 500 (JsonError ''Error deleting model provider.'')
   \<and> fst (agent_roles_route (Some database_locked) None (get_agent_role ''coder'') demo_world)
     = respond 500 (JsonError ''Error fetching agent role.'')
   \<and> fst (agent_roles_route (Some database_locked) None get_agent_roles demo_world)
     = respond 500 (JsonError ''Error fetching agent roles.'')
   \<and> fst (agent_roles_route None (Some database_locked) (get_agent_role ''coder'') demo_world)
     = respond 500 (JsonError ''Error fetching agent role.'')
   \<and> fst (agent_roles_route None (Some database_locked) get_agent_roles demo_world)
     = respond 500 (JsonError ''Error fetching agent roles.'')
   \<and> agent_roles_route (Some database_locked) None (upsert_agent_request ''POST'' tester_details)
       demo_world
     = (respond 500 (JsonError ''Error creating/updating agent role.''),
        console_log (ConsoleError ''POST /api/agent-roles error:'' database_locked) demo_world)
   \<and> agent_roles_route (Some database_locked) None (upsert_agent_request ''PUT'' tester_details)
       demo_world
     = (respond 500 (JsonError ''Error updating agent role.''),
        console_log (ConsoleError ''PUT /api/agent-roles error:'' database_locked) demo_world)
   \<and> fst (agent_roles_route (Some database_locked) None
             \<lparr>ar_method = ''DELETE'', ar_query_agent_role = Val ''coder'', ar_body = None\<rparr>
             demo_world)
     = respond 500 (JsonError ''Error deleting agent role.'')
   \<and> templates_import_handler None \<lparr>tp_method = ''POST'', tp_query_name = Undefined\<rparr> orphan_world
     = (respond 500 (JsonError ''Failed to import template. Check server logs for details.''),
        console_log (ConsoleError ''Error importing template:''
                       (provider_not_found (Val ''missing''))) orphan_after_first_model)
   \<and> fst (templates_export_handler None \<lparr>tp_method = ''POST'', tp_query_name = Undefined\<rparr>
             garbled_world)
     = respond 500 (JsonError ''Failed to export template'')
   \<and> map_option fst (github_repos_handler (Val ''ghp_1'') orgs_forbidden repos_not_found demo_world)
     = Some (respond 500 (JsonError ''Failed fetching orgs: 403''))
   \<and> map_option fst (github_repos_handler (Val ''ghp_1'') orgs_acme repos_not_found demo_world)
     = Some (respond 500 (JsonError ''Failed fetching repos for org acme: 404''))
   \<and> map_option fst
        (github_repos_handler (Val ''ghp_1'') (\<lambda>page. Inl fetch_failed) repos_not_found demo_world)
     = Some (respond 500 (JsonError ''fetch failed''))
   \<and> config_list_handler ''GET'' (Inl fetch_failed)
     = respond 500 (JsonErrorDetail ''Failed to retrieve config'' ''TypeError: fetch failed'')
   \<and> config_list_handler ''GET'' (backend_down [])
     = respond 500 (JsonErrorDetail ''Failed to retrieve config'' ''Error: upstream connect error'')
   \<and> config_scopes_handler ''GET'' (backend_down JNull)
     = respond 500 (JsonErrorDetail ''Failed to retrieve scopes'' ''Error: upstream connect error'')
   \<and> config_bulk_set_handler ''POST'' (Val (JObj [])) (backend_down JNull)
     = respond 500 (JsonErrorDetail ''Failed to save config'' ''Error: upstream connect error'')"
proof -
  have locked: "failing (Some database_locked) r = Inl database_locked" for r :: "js_error + 'a"
    by (simp add: failing_def)
  have t: "failing None (createTask (Val ''build'') (Val (or_str Undefined [])) demo_world)
             = Inl (unique_failed ''tasks.task_name'')"
    by (simp add: failing_def createTask_def demo_world_def)
  have m: "failing None (createOrUpdateModel (clashing_model\<lparr>cm_display_name := Undefined\<rparr>)
                           demo_world)
             = Inl (unique_failed ''models.provider_id, models.model_name'')"
    by (simp add: failing_def createOrUpdateModel_def clashing_model_def empty_model_args_def
        demo_world_def)
  have v: "truthy_num (cm_provider_id clashing_model)" "truthy_str (cm_model_name clashing_model)"
      "truthy_str (cp_provider_name ghost_provider)" "truthy_str (d_agent_role tester_details)"
    by (simp_all add: clashing_model_def empty_model_args_def ghost_provider_def
        empty_provider_args_def tester_details_def empty_details_def)
  define coder where "coder = hd (agent_roles demo_world)"
  have coder: "coder \<in> set (agent_roles demo_world)"
      "distinct (map a_agent_role (agent_roles demo_world))"
      "a_agent_role coder = ''coder''" "\<not> falsy_id (a_model_id coder)"
    by (simp_all add: coder_def demo_world_def falsy_id_def)
  have w1: "tasks_handler None None
              (tasks_body_request ''POST'' Undefined (Val ''build'') Undefined) demo_world
     = Inr (respond 500 (JsonError ''Internal server error.''),
            console_log (ConsoleError ''Error in tasks API:'' (unique_failed ''tasks.task_name''))
              demo_world)"
    using C7_thrown_errors_and_their_answers
        [where task_name = "Val ''build''" and task_prompt = Undefined and w = demo_world
        and fault = None and err = "unique_failed ''tasks.task_name''" and i = Undefined,
         THEN conjunct2, THEN conjunct1] t
    by simp
  have w2: "tasks_handler None (Some database_locked)
              (tasks_query_request ''GET'' Undefined IdAbsent) demo_world
     = Inr (respond 500 (JsonError ''Internal server error.''),
            console_log (ConsoleError ''Error in tasks API:'' database_locked) demo_world)"
    using C7_thrown_errors_and_their_answers
        [where treq = "tasks_query_request ''GET'' Undefined IdAbsent" and w = demo_world
        and err = database_locked,
         THEN conjunct1]
    by (simp add: tasks_query_request_def)
  have w3: "tasks_handler None (Some database_locked)
              (tasks_query_request ''DELETE'' Undefined (IdText (Some 1))) demo_world
     = Inr (respond 500 (JsonError ''Internal server error.''),
            console_log (ConsoleError ''Error in tasks API:'' database_locked) demo_world)"
    using C7_thrown_errors_and_their_answers
        [where treq = "tasks_query_request ''DELETE'' Undefined (IdText (Some 1))"
        and w = demo_world and err = database_locked,
         THEN conjunct1]
    by (simp add: tasks_query_request_def)
  have w4: "tasks_handler None (Some database_locked)
              (tasks_body_request ''PUT'' (Val 1) (Val ''build'') (Val ''Build all'')) demo_world
     = Inr (respond 500 (JsonError ''Internal server error.''),
            console_log (ConsoleError ''Error in tasks API:'' database_locked) demo_world)"
    using C7_thrown_errors_and_their_answers
        [where n = 1 and task_name = "Val ''build''" and task_prompt = "Val ''Build all''"
        and w = demo_world and fault = "Some database_locked" and err = database_locked,
         THEN conjunct2, THEN conjunct2, THEN conjunct1]
    by (simp add: locked)
  have w5: "tasks_handler (Some database_locked) None
              (tasks_query_request ''GET'' Undefined IdAbsent) demo_world = Inl database_locked"
    using C7_thrown_errors_and_their_answers
        [where treq = "tasks_query_request ''GET'' Undefined IdAbsent" and w = demo_world
        and err = database_locked and fault = None,
         THEN conjunct2, THEN conjunct2, THEN conjunct2, THEN conjunct2, THEN conjunct2,
         THEN conjunct2, THEN conjunct2, THEN conjunct2, THEN conjunct2, THEN conjunct2,
         THEN conjunct2, THEN conjunct2, THEN conjunct2, THEN conjunct2, THEN conjunct2,
         THEN conjunct2, THEN conjunct2, THEN conjunct2, THEN conjunct2, THEN conjunct2,
         THEN conjunct2, THEN conjunct2, THEN conjunct2, THEN conjunct2, THEN conjunct2,
         THEN conjunct2, THEN conjunct2, THEN conjunct2, THEN conjunct2, THEN conjunct2,
         THEN conjunct2, THEN conjunct2, THEN conjunct2, THEN conjunct2, THEN conjunct2,
         THEN conjunct2, THEN conjunct2, THEN conjunct2, THEN conjunct1]
    by simp
  have w6: "models_route None (models_upsert_request ''PUT'' clashing_model) demo_world
     = (respond 500 (JsonError ''Error updating model.''),
        console_log (ConsoleError ''Error updating model:''
                       (unique_failed ''models.provider_id, models.model_name'')) demo_world)"
    using C7_thrown_errors_and_their_answers
        [where meth = "''PUT''" and b = clashing_model and w = demo_world and fault = None
        and err = "unique_failed ''models.provider_id, models.model_name''",
         THEN conjunct2, THEN conjunct2, THEN conjunct2, THEN conjunct2, THEN conjunct2,
         THEN conjunct1] m v
    by simp
  have w7: "fst (models_route (Some database_locked)
             \<lparr>mr_method = ''GET'', mr_query_model_id = IdText (Some 1),
              mr_query_withProviders = False, mr_query_id = IdAbsent, mr_body = None\<rparr>
             demo_world)
     = respond 500 (JsonError ''Error fetching model.'')"
    using C7_thrown_errors_and_their_answers
        [where mreq = "\<lparr>mr_method = ''GET'', mr_query_model_id = IdText (Some 1),
              mr_query_withProviders = False, mr_query_id = IdAbsent, mr_body = None\<rparr>"
        and w = demo_world and err = database_locked,
         THEN conjunct2, THEN conjunct2, THEN conjunct2, THEN conjunct1]
    by simp
  have w8: "fst (models_route (Some database_locked)
             \<lparr>mr_method = ''GET'', mr_query_model_id = IdAbsent,
              mr_query_withProviders = True, mr_query_id = IdAbsent, mr_body = None\<rparr>
             demo_world)
     = respond 500 (JsonError ''Error fetching models.'')"
    using C7_thrown_errors_and_their_answers
        [where mreq = "\<lparr>mr_method = ''GET'', mr_query_model_id = IdAbsent,
              mr_query_withProviders = True, mr_query_id = IdAbsent, mr_body = None\<rparr>"
        and w = demo_world and err = database_locked,
         THEN conjunct2, THEN conjunct2, THEN conjunct2, THEN conjunct2, THEN conjunct1]
    by simp
  have w9: "fst (models_route (Some database_locked)
             \<lparr>mr_method = ''DELETE'', mr_query_model_id = IdAbsent,
              mr_query_withProviders = False, mr_query_id = IdText (Some 1), mr_body = None\<rparr>
             demo_world)
     = respond 500 (JsonError ''Error deleting model.'')"
    using C7_thrown_errors_and_their_answers
        [where mreq = "\<lparr>mr_method = ''DELETE'', mr_query_model_id = IdAbsent,
              mr_query_withProviders = False, mr_query_id = IdText (Some 1), mr_body = None\<rparr>"
        and w = demo_world and err = database_locked,
         THEN conjunct2, THEN conjunct2, THEN conjunct2, THEN conjunct2, THEN conjunct2,
         THEN conjunct2, THEN conjunct1]
    by simp
  have w10: "fst (model_providers_route (Some database_locked)
             \<lparr>pr_method = ''GET'', pr_query_id = IdAbsent, pr_body = None\<rparr> demo_world)
     = respond 500 (JsonError ''Error fetching model providers.'')"
    using C7_thrown_errors_and_their_answers
        [where preq = "\<lparr>pr_method = ''GET'', pr_query_id = IdAbsent, pr_body = None\<rparr>"
        and w = demo_world and err = database_locked,
         THEN conjunct2, THEN conjunct2, THEN conjunct2, THEN conjunct2, THEN conjunct2,
         THEN conjunct2, THEN conjunct2, THEN conjunct1]
    by simp
  have w11: "fst (model_providers_route (Some database_locked)
             (providers_upsert_request ''POST'' ghost_provider) demo_world)
     = respond 500 (JsonError ''Error updating model provider.'')"
    using C7_thrown_errors_and_their_answers
        [where meth = "''POST''" and p = ghost_provider and w = demo_world
        and fault = "Some database_locked" and err = database_locked,
         THEN conjunct2, THEN conjunct2, THEN conjunct2, THEN conjunct2, THEN conjunct2,
         THEN conjunct2, THEN conjunct2, THEN conjunct2, THEN conjunct1] v
    by (simp add: locked)
  have w12: "fst (model_providers_route (Some database_locked)
             \<lparr>pr_method = ''DELETE'', pr_query_id = IdText (Some 1), pr_body = None\<rparr> demo_world)
     = respond 500 (JsonError ''Error deleting model provider.'')"
    using C7_thrown_errors_and_their_answers
        [where preq = "\<lparr>pr_method = ''DELETE'', pr_query_id = IdText (Some 1),
                             pr_body = None\<rparr>"
        and w = demo_world and err = database_locked,
         THEN conjunct2, THEN conjunct2, THEN conjunct2, THEN conjunct2, THEN conjunct2,
         THEN conjunct2, THEN conjunct2, THEN conjunct2, THEN conjunct2, THEN conjunct1]
    by simp
  have w13: "fst (agent_roles_route (Some database_locked) None (get_agent_role ''coder'')
                    demo_world)
     = respond 500 (JsonError ''Error fetching agent role.'')"
    using C7_thrown_errors_and_their_answers
        [where areq = "get_agent_role ''coder''" and w = demo_world
        and err = database_locked and model_fault = None,
         THEN conjunct2, THEN conjunct2, THEN conjunct2, THEN conjunct2, THEN conjunct2,
         THEN conjunct2, THEN conjunct2, THEN conjunct2, THEN conjunct2, THEN conjunct2,
         THEN conjunct1]
    by (simp add: get_agent_role_def)
  have w14: "fst (agent_roles_route (Some database_locked) None get_agent_roles demo_world)
     = respond 500 (JsonError ''Error fetching agent roles.'')"
    using C7_thrown_errors_and_their_answers
        [where areq = get_agent_roles and w = demo_world
        and err = database_locked and model_fault = None,
         THEN conjunct2, THEN conjunct2, THEN conjunct2, THEN conjunct2, THEN conjunct2,
         THEN conjunct2, THEN conjunct2, THEN conjunct2, THEN conjunct2, THEN conjunct2,
         THEN conjunct2, THEN conjunct1]
    by (simp add: get_agent_roles_def)
  have w15: "fst (agent_roles_route None (Some database_locked) (get_agent_role ''coder'')
                    demo_world)
     = respond 500 (JsonError ''Error fetching agent role.'')"
    using C7_thrown_errors_and_their_answers
        [where row = coder and w = demo_world and err = database_locked,
         THEN conjunct2, THEN conjunct2, THEN conjunct2, THEN conjunct2, THEN conjunct2,
         THEN conjunct2, THEN conjunct2, THEN conjunct2, THEN conjunct2, THEN conjunct2,
         THEN conjunct2, THEN conjunct2, THEN conjunct1] coder
    by simp
  have w16: "fst (agent_roles_route None (Some database_locked) get_agent_roles demo_world)
     = respond 500 (JsonError ''Error fetching agent roles.'')"
    using C7_thrown_errors_and_their_answers
        [where row = coder and w = demo_world and err = database_locked,
         THEN conjunct2, THEN conjunct2, THEN conjunct2, THEN conjunct2, THEN conjunct2,
         THEN conjunct2, THEN conjunct2, THEN conjunct2, THEN conjunct2, THEN conjunct2,
         THEN conjunct2, THEN conjunct2, THEN conjunct2, THEN conjunct1] coder
    by simp
  have w17: "agent_roles_route (Some database_locked) None
               (upsert_agent_request ''POST'' tester_details) demo_world
     = (respond 500 (JsonError ''Error creating/updating agent role.''),
        console_log (ConsoleError ''POST /api/agent-roles error:'' database_locked) demo_world)"
      and w18: "agent_roles_route (Some database_locked) None
               (upsert_agent_request ''PUT'' tester_details) demo_world
     = (respond 500 (JsonError ''Error updating agent role.''),
        console_log (ConsoleError ''PUT /api/agent-roles error:'' database_locked) demo_world)"
    using C7_thrown_errors_and_their_answers
        [where d = tester_details and w = demo_world and fault = "Some database_locked"
        and err = database_locked and model_fault = None,
         THEN conjunct2, THEN conjunct2, THEN conjunct2, THEN conjunct2, THEN conjunct2,
         THEN conjunct2, THEN conjunct2, THEN conjunct2, THEN conjunct2, THEN conjunct2,
         THEN conjunct2, THEN conjunct2, THEN conjunct2, THEN conjunct2, THEN conjunct1] v
    by (simp_all add: locked)
  have w19: "fst (agent_roles_route (Some database_locked) None
             \<lparr>ar_method = ''DELETE'', ar_query_agent_role = Val ''coder'', ar_body = None\<rparr>
             demo_world)
     = respond 500 (JsonError ''Error deleting agent role.'')"
    using C7_thrown_errors_and_their_answers
        [where areq = "\<lparr>ar_method = ''DELETE'', ar_query_agent_role = Val ''coder'',
                             ar_body = None\<rparr>"
        and w = demo_world and err = database_locked and model_fault = None,
         THEN conjunct2, THEN conjunct2, THEN conjunct2, THEN conjunct2, THEN conjunct2,
         THEN conjunct2, THEN conjunct2, THEN conjunct2, THEN conjunct2, THEN conjunct2,
         THEN conjunct2, THEN conjunct2, THEN conjunct2, THEN conjunct2, THEN conjunct2,
         THEN conjunct1]
    by simp
  have w20: "templates_import_handler None \<lparr>tp_method = ''POST'', tp_query_name = Undefined\<rparr>
               orphan_world
     = (respond 500 (JsonError ''Failed to import template. Check server logs for details.''),
        console_log (ConsoleError ''Error importing template:''
                       (provider_not_found (Val ''missing''))) orphan_after_first_model)"
    using C7_thrown_errors_and_their_answers
        [where name = Undefined and w = orphan_world
        and err = "provider_not_found (Val ''missing'')" and w' = orphan_after_first_model,
         THEN conjunct2, THEN conjunct2, THEN conjunct2, THEN conjunct2, THEN conjunct2,
         THEN conjunct2, THEN conjunct2, THEN conjunct2, THEN conjunct2, THEN conjunct2,
         THEN conjunct2, THEN conjunct2, THEN conjunct2, THEN conjunct2, THEN conjunct2,
         THEN conjunct2, THEN conjunct2, THEN conjunct1]
      import_orphan_world_throws
    by simp
  obtain w' where x: "exportTemplate ''default'' garbled_world
                        = Inl (SyntaxError ''Unexpected token in JSON'', w')"
    using export_garbled_world_throws by blast
  have w21: "fst (templates_export_handler None \<lparr>tp_method = ''POST'', tp_query_name = Undefined\<rparr>
             garbled_world)
     = respond 500 (JsonError ''Failed to export template'')"
    using C7_thrown_errors_and_their_answers
        [where name = Undefined and w = garbled_world
        and err = "SyntaxError ''Unexpected token in JSON''" and w' = w',
         THEN conjunct2, THEN conjunct2, THEN conjunct2, THEN conjunct2, THEN conjunct2,
         THEN conjunct2, THEN conjunct2, THEN conjunct2, THEN conjunct2, THEN conjunct2,
         THEN conjunct2, THEN conjunct2, THEN conjunct2, THEN conjunct2, THEN conjunct2,
         THEN conjunct2, THEN conjunct2, THEN conjunct2, THEN conjunct2, THEN conjunct1] x
    by simp
  have d403: "decimal 403 = ''403''" and d404: "decimal 404 = ''404''"
    by (simp_all add: decimal.simps digit_def)
  have w22: "map_option fst
               (github_repos_handler (Val ''ghp_1'') orgs_forbidden repos_not_found demo_world)
     = Some (respond 500 (JsonError ''Failed fetching orgs: 403''))"
    using C7_thrown_errors_and_their_answers
        [where token = "Val ''ghp_1''" and orgs_of = orgs_forbidden
        and repos_of = repos_not_found and w = demo_world
        and orgRes = "\<lparr>fr_ok = False, fr_status = 403, fr_statusText = ''Forbidden'',
                        fr_text = Inr ''Bad credentials'', fr_json = Inr NotArray\<rparr>",
         THEN conjunct2, THEN conjunct2, THEN conjunct2, THEN conjunct2, THEN conjunct2,
         THEN conjunct2, THEN conjunct2, THEN conjunct2, THEN conjunct2, THEN conjunct2,
         THEN conjunct2, THEN conjunct2, THEN conjunct2, THEN conjunct2, THEN conjunct2,
         THEN conjunct2, THEN conjunct2, THEN conjunct2, THEN conjunct2, THEN conjunct2,
         THEN conjunct2, THEN conjunct2, THEN conjunct2, THEN conjunct2, THEN conjunct2,
         THEN conjunct2, THEN conjunct2, THEN conjunct2, THEN conjunct1]
    by (simp add: orgs_forbidden_def d403)
  have orgs: "fetch_orgs orgs_acme 1 [] = Some (Inr [''acme''])"
    by (subst fetch_orgs.simps, simp add: orgs_acme_def, subst fetch_orgs.simps,
        simp add: orgs_acme_def)
  have repos: "fetch_repos repos_not_found ''acme'' 1 []
                 = Some (Inl (Error ''Failed fetching repos for org acme: 404''))"
    by (subst fetch_repos.simps, simp add: repos_not_found_def d404)
  have thrown: "github_repos_try orgs_acme repos_not_found
               = Some (Inl (Error ''Failed fetching repos for org acme: 404''))"
    using orgs repos by (simp add: github_repos_try_def)
  have w23: "map_option fst
               (github_repos_handler (Val ''ghp_1'') orgs_acme repos_not_found demo_world)
     = Some (respond 500 (JsonError ''Failed fetching repos for org acme: 404''))"
    using C7_thrown_errors_and_their_answers
        [where token = "Val ''ghp_1''" and orgs_of = orgs_acme
        and repos_of = repos_not_found and w = demo_world
        and err = "Error ''Failed fetching repos for org acme: 404''",
         THEN conjunct2, THEN conjunct2, THEN conjunct2, THEN conjunct2, THEN conjunct2,
         THEN conjunct2, THEN conjunct2, THEN conjunct2, THEN conjunct2, THEN conjunct2,
         THEN conjunct2, THEN conjunct2, THEN conjunct2, THEN conjunct2, THEN conjunct2,
         THEN conjunct2, THEN conjunct2, THEN conjunct2, THEN conjunct2, THEN conjunct2,
         THEN conjunct2, THEN conjunct2, THEN conjunct2, THEN conjunct2, THEN conjunct2,
         THEN conjunct2, THEN conjunct1] thrown
    by simp
  have w24: "map_option fst
        (github_repos_handler (Val ''ghp_1'') (\<lambda>page. Inl fetch_failed) repos_not_found demo_world)
     = Some (respond 500 (JsonError ''fetch failed''))"
    using C7_thrown_errors_and_their_answers
        [where token = "Val ''ghp_1''" and orgs_of = "\<lambda>page. Inl fetch_failed"
        and repos_of = repos_not_found and w = demo_world and err = fetch_failed,
         THEN conjunct2, THEN conjunct2, THEN conjunct2, THEN conjunct2, THEN conjunct2,
         THEN conjunct2, THEN conjunct2, THEN conjunct2, THEN conjunct2, THEN conjunct2,
         THEN conjunct2, THEN conjunct2, THEN conjunct2, THEN conjunct2, THEN conjunct2,
         THEN conjunct2, THEN conjunct2, THEN conjunct2, THEN conjunct2, THEN conjunct2,
         THEN conjunct2, THEN conjunct2, THEN conjunct2, THEN conjunct2, THEN conjunct2,
         THEN conjunct2, THEN conjunct2, THEN conjunct1]
    by (simp add: fetch_failed_def)
  have w25: "config_list_handler ''GET'' (Inl fetch_failed)
     = respond 500 (JsonErrorDetail ''Failed to retrieve config'' ''TypeError: fetch failed'')"
    using C7_thrown_errors_and_their_answers
        [where err = fetch_failed,
         THEN conjunct2, THEN conjunct2, THEN conjunct2, THEN conjunct2, THEN conjunct2,
         THEN conjunct2, THEN conjunct2, THEN conjunct2, THEN conjunct2, THEN conjunct2,
         THEN conjunct2, THEN conjunct2, THEN conjunct2, THEN conjunct2, THEN conjunct2,
         THEN conjunct2, THEN conjunct2, THEN conjunct2, THEN conjunct2, THEN conjunct2,
         THEN conjunct2, THEN conjunct2, THEN conjunct2, THEN conjunct2, THEN conjunct2,
         THEN conjunct2, THEN conjunct2, THEN conjunct2, THEN conjunct2, THEN conjunct2,
         THEN conjunct2, THEN conjunct2, THEN conjunct1]
    by (simp add: fetch_failed_def String_of_def)
  have w26: "config_list_handler ''GET'' (backend_down [])
     = respond 500 (JsonErrorDetail ''Failed to retrieve config''
                      ''Error: upstream connect error'')"
    using C7_thrown_errors_and_their_answers
        [where errorText = "''upstream connect error''"
        and backendRes = "\<lparr>fr_ok = False, fr_status = 503,
            fr_statusText = ''Service Unavailable'', fr_text = Inr ''upstream connect error'',
            fr_json = Inr []\<rparr>",
         THEN conjunct2, THEN conjunct2, THEN conjunct2, THEN conjunct2, THEN conjunct2,
         THEN conjunct2, THEN conjunct2, THEN conjunct2, THEN conjunct2, THEN conjunct2,
         THEN conjunct2, THEN conjunct2, THEN conjunct2, THEN conjunct2, THEN conjunct2,
         THEN conjunct2, THEN conjunct2, THEN conjunct2, THEN conjunct2, THEN conjunct2,
         THEN conjunct2, THEN conjunct2, THEN conjunct2, THEN conjunct2, THEN conjunct2,
         THEN conjunct2, THEN conjunct2, THEN conjunct2, THEN conjunct2, THEN conjunct2,
         THEN conjunct2, THEN conjunct2, THEN conjunct2, THEN conjunct2, THEN conjunct2,
         THEN conjunct1]
    by (simp add: backend_down_def)
  have w27: "config_scopes_handler ''GET'' (backend_down JNull)
     = respond 500 (JsonErrorDetail ''Failed to retrieve scopes''
                      ''Error: upstream connect error'')"
    using C7_thrown_errors_and_their_answers
        [where errorText = "''upstream connect error''"
        and scopesRes = "\<lparr>fr_ok = False, fr_status = 503,
            fr_statusText = ''Service Unavailable'', fr_text = Inr ''upstream connect error'',
            fr_json = Inr JNull\<rparr>",
         THEN conjunct2, THEN conjunct2, THEN conjunct2, THEN conjunct2, THEN conjunct2,
         THEN conjunct2, THEN conjunct2, THEN conjunct2, THEN conjunct2, THEN conjunct2,
         THEN conjunct2, THEN conjunct2, THEN conjunct2, THEN conjunct2, THEN conjunct2,
         THEN conjunct2, THEN conjunct2, THEN conjunct2, THEN conjunct2, THEN conjunct2,
         THEN conjunct2, THEN conjunct2, THEN conjunct2, THEN conjunct2, THEN conjunct2,
         THEN conjunct2, THEN conjunct2, THEN conjunct2, THEN conjunct2, THEN conjunct2,
         THEN conjunct2, THEN conjunct2, THEN conjunct2, THEN conjunct2, THEN conjunct2,
         THEN conjunct2, THEN conjunct1]
    by (simp add: backend_down_def)
  have w28: "config_bulk_set_handler ''POST'' (Val (JObj [])) (backend_down JNull)
     = respond 500 (JsonErrorDetail ''Failed to save config'' ''Error: upstream connect error'')"
    using C7_thrown_errors_and_their_answers
        [where errorText = "''upstream connect error''" and items = "Val (JObj [])"
        and setRes = "\<lparr>fr_ok = False, fr_status = 503,
            fr_statusText = ''Service Unavailable'', fr_text = Inr ''upstream connect error'',
            fr_json = Inr JNull\<rparr>",
         THEN conjunct2, THEN conjunct2, THEN conjunct2, THEN conjunct2, THEN conjunct2,
         THEN conjunct2, THEN conjunct2, THEN conjunct2, THEN conjunct2, THEN conjunct2,
         THEN conjunct2, THEN conjunct2, THEN conjunct2, THEN conjunct2, THEN conjunct2,
         THEN conjunct2, THEN conjunct2, THEN conjunct2, THEN conjunct2, THEN conjunct2,
         THEN conjunct2, THEN conjunct2, THEN conjunct2, THEN conjunct2, THEN conjunct2,
         THEN conjunct2, THEN conjunct2, THEN conjunct2, THEN conjunct2, THEN conjunct2,
         THEN conjunct2, THEN conjunct2, THEN conjunct2, THEN conjunct2, THEN conjunct2,
         THEN conjunct2, THEN conjunct2, THEN conjunct1]
    by (simp add: backend_down_def)
  show ?thesis
    by (intro conjI) (fact w1 w2 w3 w4 w5 w6 w7 w8 w9 w10 w11 w12 w13 w14 w15 w16 w17 w18 w19
        w20 w21 w22 w23 w24 w25 w26 w27 w28)+
qed

text \<open>
  The claim as the spec words it fails: a \<open>POST /tasks\<close> that repeats a task name
  makes the \<open>INSERT\<close> throw, and the \<open>error\<close> field of the body is not the message of the
  error caught.
\<close>

theorem C7_message_not_exposed_counterexample:
  "createTask (Val ''build'') (Val []) demo_world = Inl (unique_failed ''tasks.task_name'')
   \<and> map_sum id fst
        (tasks_handler None None (tasks_body_request ''POST'' Undefined (Val ''build'') Undefined)
           demo_world)
      = Inr (respond 500 (JsonError ''Internal server error.''))
   \<and> message (unique_failed ''tasks.task_name'') \<noteq> ''Internal server error.''"
  by (simp add: tasks_handler_def tasks_body_request_def checkDBSchema_def failing_def
      createTask_def demo_world_def tasks_caught_def unique_failed_def)


end
